theory Spec2Isabelle
  imports Complex_Main
begin

chapter \<open>The model\<close>

section \<open>Numbers, regions and panel handles\<close>

text \<open>
  Sizes are JavaScript numbers holding percentages of the row. They are modelled as
  \<^typ>\<open>real\<close>: the arithmetic of the source is kept, its binary rounding is not.
  A panel handle (\<open>ImperativePanelHandle\<close> of the resizable-panel primitive) is an
  external collaborator; the model records the calls made on it. A \<open>RefObject\<close> may
  hold \<open>null\<close>, so every run is given, for each tick, whether the handle is there.
\<close>

datatype Region = Left | Middle | Right

datatype HandleCall = Resize real | Collapse

datatype Effect = Call Region HandleCall | Complete | Scheduled Region

datatype error = TypeError

text \<open>\<open>panelRef.current.resize(..)\<close> and \<open>panelRef.current.collapse()\<close>: a method call on
  \<open>null\<close> throws.\<close>

definition invoke :: "bool \<Rightarrow> Region \<Rightarrow> HandleCall \<Rightarrow> error + Effect list" where
  "invoke present panel c = (if present then Inr [Call panel c] else Inl TypeError)"

section \<open>The tween: \<open>animatePanel\<close>\<close>

text \<open>Statements in sequence: the second runs only if the first did not throw.\<close>

definition thenE :: "error + Effect list \<Rightarrow> error + Effect list \<Rightarrow> error + Effect list" where
  "thenE a b =
     (case a of
        Inl e \<Rightarrow> Inl e
      | Inr t \<Rightarrow> (case b of Inl e \<Rightarrow> Inl e | Inr t' \<Rightarrow> Inr (t @ t')))"

text \<open>\<open>const steps = 10\<close>.\<close>

definition steps :: nat where
  "steps = 10"

text \<open>The easing expression inside \<open>animate\<close>.\<close>

definition eased :: "real \<Rightarrow> real" where
  "eased progress =
     (if progress < 0.5 then 4 * progress * progress * progress
      else 1 - (- 2 * progress + 2) ^ 3 / 2)"

text \<open>
  The inner closure \<open>animate\<close> of \<open>animatePanel\<close> (ThreePanelLayout.tsx, and the copy of
  ConfigurablePanelLayout in unnamed/part_005, which drives one panel per toggle).
  \<open>currentStep\<close> is the closure variable before its increment; \<open>present k\<close> says
  whether \<open>panelRef.current\<close> is non-null during the \<open>k\<close>-th invocation;
  \<open>startTime\<close> is \<open>startTimeRef.current\<close>, which is falsy when it is \<open>0\<close>. Each
  invocation is one timer callback; the recursive call is the invocation scheduled
  through \<open>requestAnimationFrame\<close> and \<open>setTimeout\<close>.
\<close>

function animate ::
  "(nat \<Rightarrow> bool) \<Rightarrow> real \<Rightarrow> Region \<Rightarrow> real \<Rightarrow> real \<Rightarrow> bool \<Rightarrow> nat \<Rightarrow> error + Effect list" where
  "animate present startTime panel fromSize toSize onComplete currentStep =
     (if \<not> present (Suc currentStep) \<or> startTime = 0 then Inr []
      else
        let progress = real (Suc currentStep) / real steps in
        if progress \<ge> 1 then
          thenE (invoke (present (Suc currentStep)) panel
                   (if toSize = 0 then Collapse else Resize toSize))
                (Inr (if onComplete then [Complete] else []))
        else
          thenE (invoke (present (Suc currentStep)) panel
                   (Resize (fromSize + (toSize - fromSize) * eased progress)))
                (animate present startTime panel fromSize toSize onComplete (Suc currentStep)))"
  by pat_completeness auto
termination
  by (relation "measure (\<lambda>(present, startTime, panel, fromSize, toSize, onComplete, currentStep).
                    steps - currentStep)")
     (auto simp: steps_def)

declare animate.simps [simp del]

text \<open>
  \<open>animatePanel\<close>: the guard on the handle, \<open>startTimeRef.current = performance.now()\<close>
  (the parameter \<open>now\<close>), and the first invocation of \<open>animate\<close>, which is synchronous:
  the guard reads the handle in the same tick as that invocation, hence \<open>present 1\<close>.
  A run is followed from its start to its end; the cancellation of a frame left pending
  by an earlier run on the same ref (\<open>cancelAnimationFrame\<close>) is not part of the model.
\<close>

definition animatePanel ::
  "(nat \<Rightarrow> bool) \<Rightarrow> real \<Rightarrow> Region \<Rightarrow> real \<Rightarrow> real \<Rightarrow> bool \<Rightarrow> error + Effect list" where
  "animatePanel present now panel fromSize toSize onComplete =
     (if \<not> present 1 then Inr []
      else animate present now panel fromSize toSize onComplete 0)"

text \<open>The eased resize issued at step \<open>k\<close> of a run from \<open>a\<close> to \<open>b\<close>.\<close>

definition easedCall :: "Region \<Rightarrow> real \<Rightarrow> real \<Rightarrow> nat \<Rightarrow> Effect" where
  "easedCall panel a b k = Call panel (Resize (a + (b - a) * eased (real k / 10)))"


section \<open>Shared helpers of the collapse controllers\<close>

text \<open>\<open>Math.round(x * 1000) / 1000\<close>; \<open>Math.round\<close> rounds halves upwards.\<close>

definition round3 :: "real \<Rightarrow> real" where
  "round3 x = real_of_int \<lfloor>x * 1000 + 1 / 2\<rfloor> / 1000"

text \<open>\<open>currentLayout?.[i] ?? fallback\<close>, where \<open>currentLayout\<close> is
  \<open>panelGroupRef.current?.getLayout()\<close>: \<open>None\<close> when the group ref is \<open>null\<close>.\<close>

definition layoutAt :: "real list option \<Rightarrow> nat \<Rightarrow> real \<Rightarrow> real" where
  "layoutAt currentLayout i fallback =
     (case currentLayout of
        None \<Rightarrow> fallback
      | Some l \<Rightarrow> (if i < length l then l ! i else fallback))"

text \<open>\<open>a || b\<close> on numbers: \<open>0\<close> is falsy.\<close>

definition orElse :: "real \<Rightarrow> real \<Rightarrow> real" where
  "orElse a b = (if a = 0 then b else a)"

text \<open>
  What a toggle finds around it: the layout read from the panel group inside the frame
  callback, for every region and tick whether its handle is there, and the reading of
  \<open>performance.now()\<close>.
\<close>

record Env =
  getLayout :: "real list option"
  handles :: "Region \<Rightarrow> nat \<Rightarrow> bool"
  clock :: real

text \<open>The argument of \<open>onPanelResize\<close>.\<close>

record PanelSizes =
  left :: real
  middle :: real
  right :: real

section \<open>ThreePanelLayout\<close>

text \<open>The props read by the handlers, after destructuring with defaults; a missing
  \<open>collapsiblePanels.left\<close> is falsy.\<close>

record TPL_props =
  tpl_collapsible_left :: bool
  tpl_collapsible_right :: bool
  tpl_default_left :: real
  tpl_default_middle :: real
  tpl_default_right :: real
  tpl_collapsed_left :: bool
  tpl_collapsed_right :: bool
  tpl_onPanelResize :: bool

text \<open>The \<open>useState\<close> cells of ThreePanelLayout.\<close>

record TPL_state =
  leftCollapsed :: bool
  rightCollapsed :: bool
  leftAnimating :: bool
  rightAnimating :: bool
  isDragging :: bool
  leftSize :: real
  rightSize :: real

definition TPL_init :: "TPL_props \<Rightarrow> TPL_state" where
  "TPL_init props =
     \<lparr> leftCollapsed = tpl_collapsed_left props,
       rightCollapsed = tpl_collapsed_right props,
       leftAnimating = False,
       rightAnimating = False,
       isDragging = False,
       leftSize = (if tpl_collapsed_left props then 0 else tpl_default_left props),
       rightSize = (if tpl_collapsed_right props then 0 else tpl_default_right props) \<rparr>"

text \<open>
  Every toggle handler is given in two definitions. \<open>_begin\<close> is its synchronous part:
  the guard (\<open>None\<close> when the handler returns at once) and the \<open>flushSync\<close> update.
  The handler itself adds the frame callback and, when the tween reaches it, the
  completion callback. A handler is a \<open>useCallback\<close> closure: the state \<open>s\<close> it is
  given is the state of the render that created it, which is what its guard and its frame
  callback read. The setters write constants, so the state after the run is \<open>s\<close> with
  those cells replaced, as long as nothing else wrote the state since that render. A
  handler queued by a \<open>collapsed\<close>-prop effect runs in a microtask and still reads the
  state of the render that queued it, whatever was written in between. \<open>Scheduled\<close>
  records the \<open>requestAnimationFrame\<close> call that starts the run.
\<close>

definition TPL_handleLeftCollapse_begin :: "TPL_props \<Rightarrow> TPL_state \<Rightarrow> TPL_state option" where
  "TPL_handleLeftCollapse_begin props s =
     (if leftAnimating s \<or> isDragging s \<or> \<not> tpl_collapsible_left props then None
      else Some (s\<lparr>leftAnimating := True, leftCollapsed := True\<rparr>))"

definition TPL_handleLeftCollapse ::
  "TPL_props \<Rightarrow> Env \<Rightarrow> TPL_state \<Rightarrow> error + (TPL_state \<times> Effect list)" where
  "TPL_handleLeftCollapse props env s =
     (case TPL_handleLeftCollapse_begin props s of
        None \<Rightarrow> Inr (s, [])
      | Some s1 \<Rightarrow>
          let actualLeftSize = round3 (layoutAt (getLayout env) 0 (leftSize s)) in
          (case animatePanel (handles env Left) (clock env) Left actualLeftSize 0 True of
             Inl e \<Rightarrow> Inl e
           | Inr tr \<Rightarrow>
               Inr (if Complete \<in> set tr then s1\<lparr>leftSize := 0, leftAnimating := False\<rparr> else s1,
                    Scheduled Left # tr)))"

definition TPL_handleLeftExpand_begin :: "TPL_props \<Rightarrow> TPL_state \<Rightarrow> TPL_state option" where
  "TPL_handleLeftExpand_begin props s =
     (if leftAnimating s \<or> isDragging s \<or> \<not> tpl_collapsible_left props then None
      else Some (s\<lparr>leftAnimating := True, leftCollapsed := False\<rparr>))"

definition TPL_handleLeftExpand ::
  "TPL_props \<Rightarrow> Env \<Rightarrow> TPL_state \<Rightarrow> error + (TPL_state \<times> Effect list)" where
  "TPL_handleLeftExpand props env s =
     (case TPL_handleLeftExpand_begin props s of
        None \<Rightarrow> Inr (s, [])
      | Some s1 \<Rightarrow>
          (case animatePanel (handles env Left) (clock env) Left 0 (tpl_default_left props) True of
             Inl e \<Rightarrow> Inl e
           | Inr tr \<Rightarrow>
               Inr (if Complete \<in> set tr
                    then s1\<lparr>leftSize := tpl_default_left props, leftAnimating := False\<rparr> else s1,
                    Scheduled Left # tr)))"

definition TPL_handleRightCollapse_begin :: "TPL_props \<Rightarrow> TPL_state \<Rightarrow> TPL_state option" where
  "TPL_handleRightCollapse_begin props s =
     (if rightAnimating s \<or> isDragging s \<or> \<not> tpl_collapsible_right props then None
      else Some (s\<lparr>rightAnimating := True, rightCollapsed := True\<rparr>))"

definition TPL_handleRightCollapse ::
  "TPL_props \<Rightarrow> Env \<Rightarrow> TPL_state \<Rightarrow> error + (TPL_state \<times> Effect list)" where
  "TPL_handleRightCollapse props env s =
     (case TPL_handleRightCollapse_begin props s of
        None \<Rightarrow> Inr (s, [])
      | Some s1 \<Rightarrow>
          let actualRightSize = round3 (layoutAt (getLayout env) 2 (rightSize s)) in
          (case animatePanel (handles env Right) (clock env) Right actualRightSize 0 True of
             Inl e \<Rightarrow> Inl e
           | Inr tr \<Rightarrow>
               Inr (if Complete \<in> set tr then s1\<lparr>rightSize := 0, rightAnimating := False\<rparr> else s1,
                    Scheduled Right # tr)))"

definition TPL_handleRightExpand_begin :: "TPL_props \<Rightarrow> TPL_state \<Rightarrow> TPL_state option" where
  "TPL_handleRightExpand_begin props s =
     (if rightAnimating s \<or> isDragging s \<or> \<not> tpl_collapsible_right props then None
      else Some (s\<lparr>rightAnimating := True, rightCollapsed := False\<rparr>))"

definition TPL_handleRightExpand ::
  "TPL_props \<Rightarrow> Env \<Rightarrow> TPL_state \<Rightarrow> error + (TPL_state \<times> Effect list)" where
  "TPL_handleRightExpand props env s =
     (case TPL_handleRightExpand_begin props s of
        None \<Rightarrow> Inr (s, [])
      | Some s1 \<Rightarrow>
          (case animatePanel (handles env Right) (clock env) Right 0 (tpl_default_right props) True of
             Inl e \<Rightarrow> Inl e
           | Inr tr \<Rightarrow>
               Inr (if Complete \<in> set tr
                    then s1\<lparr>rightSize := tpl_default_right props, rightAnimating := False\<rparr> else s1,
                    Scheduled Right # tr)))"

definition TPL_toggleLeftPanel ::
  "TPL_props \<Rightarrow> Env \<Rightarrow> TPL_state \<Rightarrow> error + (TPL_state \<times> Effect list)" where
  "TPL_toggleLeftPanel props env s =
     (if leftCollapsed s then TPL_handleLeftExpand props env s
      else TPL_handleLeftCollapse props env s)"

definition TPL_toggleRightPanel ::
  "TPL_props \<Rightarrow> Env \<Rightarrow> TPL_state \<Rightarrow> error + (TPL_state \<times> Effect list)" where
  "TPL_toggleRightPanel props env s =
     (if rightCollapsed s then TPL_handleRightExpand props env s
      else TPL_handleRightCollapse props env s)"

definition TPL_handleLeftResize :: "real \<Rightarrow> TPL_state \<Rightarrow> TPL_state" where
  "TPL_handleLeftResize sz s =
     (if \<not> leftAnimating s \<and> \<not> rightAnimating s then
        (let s1 = s\<lparr>leftSize := sz\<rparr> in
         if sz > 0 then s1\<lparr>leftCollapsed := False\<rparr> else s1)
      else s)"

definition TPL_handleRightResize :: "real \<Rightarrow> TPL_state \<Rightarrow> TPL_state" where
  "TPL_handleRightResize sz s =
     (if \<not> leftAnimating s \<and> \<not> rightAnimating s then
        (let s1 = s\<lparr>rightSize := sz\<rparr> in
         if sz > 0 then s1\<lparr>rightCollapsed := False\<rparr> else s1)
      else s)"

text \<open>\<open>handleDragEnd\<close>: the argument \<open>onPanelResize\<close> is called with, if it is called.\<close>

definition TPL_handleDragEnd :: "TPL_props \<Rightarrow> TPL_state \<Rightarrow> PanelSizes option" where
  "TPL_handleDragEnd props s =
     (if tpl_onPanelResize props then
        Some \<lparr> left = leftSize s, middle = 100 - leftSize s - rightSize s, right = rightSize s \<rparr>
      else None)"

definition TPL_handleDragging ::
  "TPL_props \<Rightarrow> bool \<Rightarrow> TPL_state \<Rightarrow> TPL_state \<times> PanelSizes option" where
  "TPL_handleDragging props dragging s =
     (s\<lparr>isDragging := dragging\<rparr>,
      if \<not> dragging then TPL_handleDragEnd props s else None)"


section \<open>ConfigurablePanelLayout: what both copies share\<close>

text \<open>
  The repository holds two copies of ConfigurablePanelLayout. Their props, state,
  resize handlers and drag handlers are the same text; they differ in the toggle
  handlers. unnamed/part_005 animates the toggled panel alone, with \<open>animatePanel\<close>;
  src/components/ConfigurablePanelLayout.tsx animates all three panels together, with
  \<open>animateMultiplePanels\<close>, and computes the sizes of the other two.
\<close>

text \<open>
  Props after destructuring. \<open>isLeftActive\<close> is \<open>layout.left !== null && layout.left
  !== undefined\<close>; a \<open>defaultSizes\<close> field may be missing.
\<close>

record CPL_props =
  isLeftActive :: bool
  isMiddleActive :: bool
  isRightActive :: bool
  collapsible_left :: bool
  collapsible_middle :: bool
  collapsible_right :: bool
  defaultSizes_left :: "real option"
  defaultSizes_middle :: "real option"
  defaultSizes_right :: "real option"
  collapsed_left :: bool
  collapsed_middle :: bool
  collapsed_right :: bool
  onPanelResize :: bool

definition activeCount :: "CPL_props \<Rightarrow> nat" where
  "activeCount props =
     length (filter (\<lambda>b. b) [isLeftActive props, isMiddleActive props, isRightActive props])"

definition computedDefaultSizes_left :: "CPL_props \<Rightarrow> real" where
  "computedDefaultSizes_left props =
     (if isLeftActive props then
        (case defaultSizes_left props of
           Some v \<Rightarrow> v
         | None \<Rightarrow> (if activeCount props = 2 then 50 else if activeCount props = 3 then 20 else 100))
      else 0)"

definition computedDefaultSizes_middle :: "CPL_props \<Rightarrow> real" where
  "computedDefaultSizes_middle props =
     (if isMiddleActive props then
        (case defaultSizes_middle props of
           Some v \<Rightarrow> v
         | None \<Rightarrow> (if activeCount props = 2 then 50 else if activeCount props = 3 then 60 else 100))
      else 0)"

definition computedDefaultSizes_right :: "CPL_props \<Rightarrow> real" where
  "computedDefaultSizes_right props =
     (if isRightActive props then
        (case defaultSizes_right props of
           Some v \<Rightarrow> v
         | None \<Rightarrow> (if activeCount props = 2 then 50 else if activeCount props = 3 then 20 else 100))
      else 0)"

text \<open>The \<open>useState\<close> cells: those of ThreePanelLayout, the middle region's, and the
  three remembered sizes.\<close>

record CPL_state = TPL_state +
  middleCollapsed :: bool
  middleAnimating :: bool
  middleSize :: real
  lastExpandedLeftSize :: real
  lastExpandedMiddleSize :: real
  lastExpandedRightSize :: real

definition CPL_init :: "CPL_props \<Rightarrow> CPL_state" where
  "CPL_init props =
     \<lparr> leftCollapsed = (collapsed_left props \<or> \<not> isLeftActive props),
       rightCollapsed = (collapsed_right props \<or> \<not> isRightActive props),
       leftAnimating = False,
       rightAnimating = False,
       isDragging = False,
       leftSize = (if collapsed_left props \<or> \<not> isLeftActive props then 0
                   else computedDefaultSizes_left props),
       rightSize = (if collapsed_right props \<or> \<not> isRightActive props then 0
                    else computedDefaultSizes_right props),
       middleCollapsed = (collapsed_middle props \<or> \<not> isMiddleActive props),
       middleAnimating = False,
       middleSize = (if collapsed_middle props \<or> \<not> isMiddleActive props then 0
                     else computedDefaultSizes_middle props),
       lastExpandedLeftSize = computedDefaultSizes_left props,
       lastExpandedMiddleSize = computedDefaultSizes_middle props,
       lastExpandedRightSize = computedDefaultSizes_right props \<rparr>"

definition CPL_handleLeftResize :: "real \<Rightarrow> CPL_state \<Rightarrow> CPL_state" where
  "CPL_handleLeftResize sz s =
     (if \<not> leftAnimating s \<and> \<not> middleAnimating s \<and> \<not> rightAnimating s then
        (let s1 = s\<lparr>leftSize := sz\<rparr> in
         if sz > 0 then s1\<lparr>lastExpandedLeftSize := sz, leftCollapsed := False\<rparr> else s1)
      else s)"

definition CPL_handleMiddleResize :: "real \<Rightarrow> CPL_state \<Rightarrow> CPL_state" where
  "CPL_handleMiddleResize sz s =
     (if \<not> leftAnimating s \<and> \<not> middleAnimating s \<and> \<not> rightAnimating s then
        (let s1 = s\<lparr>middleSize := sz\<rparr> in
         if sz > 0 then s1\<lparr>lastExpandedMiddleSize := sz, middleCollapsed := False\<rparr> else s1)
      else s)"

definition CPL_handleRightResize :: "real \<Rightarrow> CPL_state \<Rightarrow> CPL_state" where
  "CPL_handleRightResize sz s =
     (if \<not> leftAnimating s \<and> \<not> middleAnimating s \<and> \<not> rightAnimating s then
        (let s1 = s\<lparr>rightSize := sz\<rparr> in
         if sz > 0 then s1\<lparr>lastExpandedRightSize := sz, rightCollapsed := False\<rparr> else s1)
      else s)"

text \<open>\<open>handleDragEnd\<close> and \<open>handleDragging\<close>, as in ThreePanelLayout but with the
  remembered sizes.\<close>

definition CPL_handleDragEnd :: "CPL_props \<Rightarrow> CPL_state \<Rightarrow> PanelSizes option" where
  "CPL_handleDragEnd props s =
     (if onPanelResize props then
        (let reportedLeftSize = (if leftCollapsed s then lastExpandedLeftSize s else leftSize s);
             reportedMiddleSize =
               (if middleCollapsed s then lastExpandedMiddleSize s else middleSize s);
             reportedRightSize = (if rightCollapsed s then lastExpandedRightSize s else rightSize s)
         in Some \<lparr> left = reportedLeftSize, middle = reportedMiddleSize,
                   right = reportedRightSize \<rparr>)
      else None)"

definition CPL_handleDragging ::
  "CPL_props \<Rightarrow> bool \<Rightarrow> CPL_state \<Rightarrow> CPL_state \<times> PanelSizes option" where
  "CPL_handleDragging props dragging s =
     (s\<lparr>isDragging := dragging\<rparr>,
      if \<not> dragging then CPL_handleDragEnd props s else None)"

section \<open>ConfigurablePanelLayout, unnamed/part_005: one panel per toggle\<close>

definition P5_handleLeftCollapse_begin :: "CPL_props \<Rightarrow> CPL_state \<Rightarrow> CPL_state option" where
  "P5_handleLeftCollapse_begin props s =
     (if leftAnimating s \<or> isDragging s \<or> \<not> collapsible_left props then None
      else Some (s\<lparr>leftAnimating := True, leftCollapsed := True\<rparr>))"

definition P5_handleLeftCollapse ::
  "CPL_props \<Rightarrow> Env \<Rightarrow> CPL_state \<Rightarrow> error + (CPL_state \<times> Effect list)" where
  "P5_handleLeftCollapse props env s =
     (case P5_handleLeftCollapse_begin props s of
        None \<Rightarrow> Inr (s, [])
      | Some s1 \<Rightarrow>
          let actualLeftSize = round3 (layoutAt (getLayout env) 0 (leftSize s)) in
          (case animatePanel (handles env Left) (clock env) Left actualLeftSize 0 True of
             Inl e \<Rightarrow> Inl e
           | Inr tr \<Rightarrow>
               Inr (if Complete \<in> set tr then s1\<lparr>leftSize := 0, leftAnimating := False\<rparr> else s1,
                    Scheduled Left # tr)))"

definition P5_handleLeftExpand_begin :: "CPL_props \<Rightarrow> CPL_state \<Rightarrow> CPL_state option" where
  "P5_handleLeftExpand_begin props s =
     (if leftAnimating s \<or> isDragging s \<or> \<not> collapsible_left props then None
      else Some (s\<lparr>leftAnimating := True, leftCollapsed := False\<rparr>))"

definition P5_handleLeftExpand ::
  "CPL_props \<Rightarrow> Env \<Rightarrow> CPL_state \<Rightarrow> error + (CPL_state \<times> Effect list)" where
  "P5_handleLeftExpand props env s =
     (case P5_handleLeftExpand_begin props s of
        None \<Rightarrow> Inr (s, [])
      | Some s1 \<Rightarrow>
          let targetSize = orElse (lastExpandedLeftSize s) (computedDefaultSizes_left props) in
          (case animatePanel (handles env Left) (clock env) Left 0 targetSize True of
             Inl e \<Rightarrow> Inl e
           | Inr tr \<Rightarrow>
               Inr (if Complete \<in> set tr then s1\<lparr>leftSize := targetSize, leftAnimating := False\<rparr>
                    else s1,
                    Scheduled Left # tr)))"

definition P5_handleMiddleCollapse_begin :: "CPL_props \<Rightarrow> CPL_state \<Rightarrow> CPL_state option" where
  "P5_handleMiddleCollapse_begin props s =
     (if middleAnimating s \<or> isDragging s \<or> \<not> collapsible_middle props then None
      else Some (s\<lparr>middleAnimating := True, middleCollapsed := True\<rparr>))"

definition P5_handleMiddleCollapse ::
  "CPL_props \<Rightarrow> Env \<Rightarrow> CPL_state \<Rightarrow> error + (CPL_state \<times> Effect list)" where
  "P5_handleMiddleCollapse props env s =
     (case P5_handleMiddleCollapse_begin props s of
        None \<Rightarrow> Inr (s, [])
      | Some s1 \<Rightarrow>
          let actualMiddleSize = round3 (layoutAt (getLayout env) 1 (middleSize s)) in
          (case animatePanel (handles env Middle) (clock env) Middle actualMiddleSize 0 True of
             Inl e \<Rightarrow> Inl e
           | Inr tr \<Rightarrow>
               Inr (if Complete \<in> set tr then s1\<lparr>middleSize := 0, middleAnimating := False\<rparr> else s1,
                    Scheduled Middle # tr)))"

definition P5_handleMiddleExpand_begin :: "CPL_props \<Rightarrow> CPL_state \<Rightarrow> CPL_state option" where
  "P5_handleMiddleExpand_begin props s =
     (if middleAnimating s \<or> isDragging s \<or> \<not> collapsible_middle props then None
      else Some (s\<lparr>middleAnimating := True, middleCollapsed := False\<rparr>))"

definition P5_handleMiddleExpand ::
  "CPL_props \<Rightarrow> Env \<Rightarrow> CPL_state \<Rightarrow> error + (CPL_state \<times> Effect list)" where
  "P5_handleMiddleExpand props env s =
     (case P5_handleMiddleExpand_begin props s of
        None \<Rightarrow> Inr (s, [])
      | Some s1 \<Rightarrow>
          let targetSize = orElse (lastExpandedMiddleSize s) (computedDefaultSizes_middle props) in
          (case animatePanel (handles env Middle) (clock env) Middle 0 targetSize True of
             Inl e \<Rightarrow> Inl e
           | Inr tr \<Rightarrow>
               Inr (if Complete \<in> set tr then s1\<lparr>middleSize := targetSize, middleAnimating := False\<rparr>
                    else s1,
                    Scheduled Middle # tr)))"

definition P5_handleRightCollapse_begin :: "CPL_props \<Rightarrow> CPL_state \<Rightarrow> CPL_state option" where
  "P5_handleRightCollapse_begin props s =
     (if rightAnimating s \<or> isDragging s \<or> \<not> collapsible_right props then None
      else Some (s\<lparr>rightAnimating := True, rightCollapsed := True\<rparr>))"

definition P5_handleRightCollapse ::
  "CPL_props \<Rightarrow> Env \<Rightarrow> CPL_state \<Rightarrow> error + (CPL_state \<times> Effect list)" where
  "P5_handleRightCollapse props env s =
     (case P5_handleRightCollapse_begin props s of
        None \<Rightarrow> Inr (s, [])
      | Some s1 \<Rightarrow>
          let actualRightSize = round3 (layoutAt (getLayout env) 2 (rightSize s)) in
          (case animatePanel (handles env Right) (clock env) Right actualRightSize 0 True of
             Inl e \<Rightarrow> Inl e
           | Inr tr \<Rightarrow>
               Inr (if Complete \<in> set tr then s1\<lparr>rightSize := 0, rightAnimating := False\<rparr> else s1,
                    Scheduled Right # tr)))"

definition P5_handleRightExpand_begin :: "CPL_props \<Rightarrow> CPL_state \<Rightarrow> CPL_state option" where
  "P5_handleRightExpand_begin props s =
     (if rightAnimating s \<or> isDragging s \<or> \<not> collapsible_right props then None
      else Some (s\<lparr>rightAnimating := True, rightCollapsed := False\<rparr>))"

definition P5_handleRightExpand ::
  "CPL_props \<Rightarrow> Env \<Rightarrow> CPL_state \<Rightarrow> error + (CPL_state \<times> Effect list)" where
  "P5_handleRightExpand props env s =
     (case P5_handleRightExpand_begin props s of
        None \<Rightarrow> Inr (s, [])
      | Some s1 \<Rightarrow>
          let targetSize = orElse (lastExpandedRightSize s) (computedDefaultSizes_right props) in
          (case animatePanel (handles env Right) (clock env) Right 0 targetSize True of
             Inl e \<Rightarrow> Inl e
           | Inr tr \<Rightarrow>
               Inr (if Complete \<in> set tr then s1\<lparr>rightSize := targetSize, rightAnimating := False\<rparr>
                    else s1,
                    Scheduled Right # tr)))"

section \<open>ConfigurablePanelLayout.tsx: all three panels per toggle\<close>

text \<open>One entry of the \<open>animations\<close> array (the frame and start-time refs carry no
  behaviour of their own here).\<close>

record Animation =
  panelRef :: Region
  fromSize :: real
  toSize :: real

text \<open>\<open>validAnimations.forEach(anim => { if (anim.panelRef.current) { ... } })\<close>, where
  \<open>cur\<close> tells which handles are there in this tick and \<open>call\<close> is the call made.\<close>

fun forEachValid ::
  "(Region \<Rightarrow> bool) \<Rightarrow> (Animation \<Rightarrow> HandleCall) \<Rightarrow> Animation list \<Rightarrow> error + Effect list" where
  "forEachValid cur call [] = Inr []"
| "forEachValid cur call (anim # rest) =
     thenE (if cur (panelRef anim)
            then invoke (cur (panelRef anim)) (panelRef anim) (call anim) else Inr [])
           (forEachValid cur call rest)"

text \<open>The inner closure \<open>animate\<close> of \<open>animateMultiplePanels\<close>. It has no guard of its
  own: a missing handle is skipped and the run goes on.\<close>

function animateAll ::
  "(Region \<Rightarrow> nat \<Rightarrow> bool) \<Rightarrow> Animation list \<Rightarrow> bool \<Rightarrow> nat \<Rightarrow> error + Effect list" where
  "animateAll present validAnimations onComplete currentStep =
     (let progress = real (Suc currentStep) / real steps in
      if progress \<ge> 1 then
        thenE (forEachValid (\<lambda>r. present r (Suc currentStep))
                 (\<lambda>anim. if toSize anim = 0 then Collapse else Resize (toSize anim))
                 validAnimations)
              (Inr (if onComplete then [Complete] else []))
      else
        thenE (forEachValid (\<lambda>r. present r (Suc currentStep))
                 (\<lambda>anim. Resize (fromSize anim + (toSize anim - fromSize anim) * eased progress))
                 validAnimations)
              (animateAll present validAnimations onComplete (Suc currentStep)))"
  by pat_completeness auto
termination
  by (relation "measure (\<lambda>(present, validAnimations, onComplete, currentStep).
                    steps - currentStep)")
     (auto simp: steps_def)

declare animateAll.simps [simp del]

definition animateMultiplePanels ::
  "(Region \<Rightarrow> nat \<Rightarrow> bool) \<Rightarrow> Animation list \<Rightarrow> bool \<Rightarrow> error + Effect list" where
  "animateMultiplePanels present animations onComplete =
     (let validAnimations = filter (\<lambda>anim. present (panelRef anim) 1) animations in
      if length validAnimations = 0 then Inr []
      else animateAll present validAnimations onComplete 0)"

definition CPL_handleLeftCollapse_begin :: "CPL_props \<Rightarrow> CPL_state \<Rightarrow> CPL_state option" where
  "CPL_handleLeftCollapse_begin props s =
     (if leftAnimating s \<or> isDragging s \<or> \<not> collapsible_left props then None
      else Some (s\<lparr>leftAnimating := True, middleAnimating := True, rightAnimating := True,
                   leftCollapsed := True\<rparr>))"

definition CPL_handleLeftCollapse ::
  "CPL_props \<Rightarrow> Env \<Rightarrow> CPL_state \<Rightarrow> error + (CPL_state \<times> Effect list)" where
  "CPL_handleLeftCollapse props env s =
     (case CPL_handleLeftCollapse_begin props s of
        None \<Rightarrow> Inr (s, [])
      | Some s1 \<Rightarrow>
          let
              actualLeftSize = round3 (layoutAt (getLayout env) 0 (leftSize s));
              actualMiddleSize = round3 (layoutAt (getLayout env) 1 (middleSize s));
              actualRightSize = round3 (layoutAt (getLayout env) 2 (rightSize s));
              remainingTotal = actualMiddleSize + actualRightSize;
              newMiddleSize = (if remainingTotal > 0 then (actualMiddleSize / remainingTotal) * 100
                            else (if isMiddleActive props then 50 else 0));
              newRightSize = (if remainingTotal > 0 then (actualRightSize / remainingTotal) * 100
                            else (if isRightActive props then 50 else 0));
              s2 = (if newMiddleSize > 0 then s1\<lparr>lastExpandedMiddleSize := newMiddleSize\<rparr> else s1);
              s3 = (if newRightSize > 0 then s2\<lparr>lastExpandedRightSize := newRightSize\<rparr> else s2)
          in
          (case animateMultiplePanels (handles env)
                  [\<lparr> panelRef = Left, fromSize = actualLeftSize, toSize = 0 \<rparr>,
                   \<lparr> panelRef = Middle, fromSize = actualMiddleSize, toSize = newMiddleSize \<rparr>,
                   \<lparr> panelRef = Right, fromSize = actualRightSize, toSize = newRightSize \<rparr>]
                  True of
             Inl e \<Rightarrow> Inl e
           | Inr tr \<Rightarrow>
               Inr (if Complete \<in> set tr
                    then s3\<lparr>leftSize := 0, middleSize := newMiddleSize, rightSize := newRightSize,
                           leftAnimating := False, middleAnimating := False,
                           rightAnimating := False\<rparr>
                    else s3,
                    Scheduled Left # tr)))"

definition CPL_handleLeftExpand_begin :: "CPL_props \<Rightarrow> CPL_state \<Rightarrow> CPL_state option" where
  "CPL_handleLeftExpand_begin props s =
     (if leftAnimating s \<or> isDragging s \<or> \<not> collapsible_left props then None
      else Some (s\<lparr>leftAnimating := True, middleAnimating := True, rightAnimating := True,
                   leftCollapsed := False\<rparr>))"

definition CPL_handleLeftExpand ::
  "CPL_props \<Rightarrow> Env \<Rightarrow> CPL_state \<Rightarrow> error + (CPL_state \<times> Effect list)" where
  "CPL_handleLeftExpand props env s =
     (case CPL_handleLeftExpand_begin props s of
        None \<Rightarrow> Inr (s, [])
      | Some s1 \<Rightarrow>
          let
              actualLeftSize = round3 (layoutAt (getLayout env) 0 0);
              actualMiddleSize = round3 (layoutAt (getLayout env) 1 (middleSize s));
              actualRightSize = round3 (layoutAt (getLayout env) 2 (rightSize s));
              targetLeftSize = orElse (lastExpandedLeftSize s) (computedDefaultSizes_left props);
              spaceForOthers = 100 - targetLeftSize;
              currentOthersTotal = actualMiddleSize + actualRightSize;
              newMiddleSize = (if currentOthersTotal > 0
                            then (actualMiddleSize / currentOthersTotal) * spaceForOthers
                            else (if isMiddleActive props then spaceForOthers / 2 else 0));
              newRightSize = (if currentOthersTotal > 0
                            then (actualRightSize / currentOthersTotal) * spaceForOthers
                            else (if isRightActive props then spaceForOthers / 2 else 0));
              s2 = (if newMiddleSize > 0 then s1\<lparr>lastExpandedMiddleSize := newMiddleSize\<rparr> else s1);
              s3 = (if newRightSize > 0 then s2\<lparr>lastExpandedRightSize := newRightSize\<rparr> else s2)
          in
          (case animateMultiplePanels (handles env)
                  [\<lparr> panelRef = Left, fromSize = actualLeftSize, toSize = targetLeftSize \<rparr>,
                   \<lparr> panelRef = Middle, fromSize = actualMiddleSize, toSize = newMiddleSize \<rparr>,
                   \<lparr> panelRef = Right, fromSize = actualRightSize, toSize = newRightSize \<rparr>]
                  True of
             Inl e \<Rightarrow> Inl e
           | Inr tr \<Rightarrow>
               Inr (if Complete \<in> set tr
                    then s3\<lparr>leftSize := targetLeftSize, middleSize := newMiddleSize, rightSize := newRightSize,
                           leftAnimating := False, middleAnimating := False,
                           rightAnimating := False\<rparr>
                    else s3,
                    Scheduled Left # tr)))"

definition CPL_handleMiddleCollapse_begin :: "CPL_props \<Rightarrow> CPL_state \<Rightarrow> CPL_state option" where
  "CPL_handleMiddleCollapse_begin props s =
     (if middleAnimating s \<or> isDragging s \<or> \<not> collapsible_middle props then None
      else Some (s\<lparr>leftAnimating := True, middleAnimating := True, rightAnimating := True,
                   middleCollapsed := True\<rparr>))"

definition CPL_handleMiddleCollapse ::
  "CPL_props \<Rightarrow> Env \<Rightarrow> CPL_state \<Rightarrow> error + (CPL_state \<times> Effect list)" where
  "CPL_handleMiddleCollapse props env s =
     (case CPL_handleMiddleCollapse_begin props s of
        None \<Rightarrow> Inr (s, [])
      | Some s1 \<Rightarrow>
          let
              actualLeftSize = round3 (layoutAt (getLayout env) 0 (leftSize s));
              actualMiddleSize = round3 (layoutAt (getLayout env) 1 (middleSize s));
              actualRightSize = round3 (layoutAt (getLayout env) 2 (rightSize s));
              remainingTotal = actualLeftSize + actualRightSize;
              newLeftSize = (if remainingTotal > 0 then (actualLeftSize / remainingTotal) * 100
                            else (if isLeftActive props then 50 else 0));
              newRightSize = (if remainingTotal > 0 then (actualRightSize / remainingTotal) * 100
                            else (if isRightActive props then 50 else 0));
              s2 = (if newLeftSize > 0 then s1\<lparr>lastExpandedLeftSize := newLeftSize\<rparr> else s1);
              s3 = (if newRightSize > 0 then s2\<lparr>lastExpandedRightSize := newRightSize\<rparr> else s2)
          in
          (case animateMultiplePanels (handles env)
                  [\<lparr> panelRef = Left, fromSize = actualLeftSize, toSize = newLeftSize \<rparr>,
                   \<lparr> panelRef = Middle, fromSize = actualMiddleSize, toSize = 0 \<rparr>,
                   \<lparr> panelRef = Right, fromSize = actualRightSize, toSize = newRightSize \<rparr>]
                  True of
             Inl e \<Rightarrow> Inl e
           | Inr tr \<Rightarrow>
               Inr (if Complete \<in> set tr
                    then s3\<lparr>leftSize := newLeftSize, middleSize := 0, rightSize := newRightSize,
                           leftAnimating := False, middleAnimating := False,
                           rightAnimating := False\<rparr>
                    else s3,
                    Scheduled Middle # tr)))"

definition CPL_handleMiddleExpand_begin :: "CPL_props \<Rightarrow> CPL_state \<Rightarrow> CPL_state option" where
  "CPL_handleMiddleExpand_begin props s =
     (if middleAnimating s \<or> isDragging s \<or> \<not> collapsible_middle props then None
      else Some (s\<lparr>leftAnimating := True, middleAnimating := True, rightAnimating := True,
                   middleCollapsed := False\<rparr>))"

definition CPL_handleMiddleExpand ::
  "CPL_props \<Rightarrow> Env \<Rightarrow> CPL_state \<Rightarrow> error + (CPL_state \<times> Effect list)" where
  "CPL_handleMiddleExpand props env s =
     (case CPL_handleMiddleExpand_begin props s of
        None \<Rightarrow> Inr (s, [])
      | Some s1 \<Rightarrow>
          let
              actualLeftSize = round3 (layoutAt (getLayout env) 0 (leftSize s));
              actualMiddleSize = round3 (layoutAt (getLayout env) 1 0);
              actualRightSize = round3 (layoutAt (getLayout env) 2 (rightSize s));
              targetMiddleSize = orElse (lastExpandedMiddleSize s) (computedDefaultSizes_middle props);
              spaceForOthers = 100 - targetMiddleSize;
              currentOthersTotal = actualLeftSize + actualRightSize;
              newLeftSize = (if currentOthersTotal > 0
                            then (actualLeftSize / currentOthersTotal) * spaceForOthers
                            else (if isLeftActive props then spaceForOthers / 2 else 0));
              newRightSize = (if currentOthersTotal > 0
                            then (actualRightSize / currentOthersTotal) * spaceForOthers
                            else (if isRightActive props then spaceForOthers / 2 else 0));
              s2 = (if newLeftSize > 0 then s1\<lparr>lastExpandedLeftSize := newLeftSize\<rparr> else s1);
              s3 = (if newRightSize > 0 then s2\<lparr>lastExpandedRightSize := newRightSize\<rparr> else s2)
          in
          (case animateMultiplePanels (handles env)
                  [\<lparr> panelRef = Left, fromSize = actualLeftSize, toSize = newLeftSize \<rparr>,
                   \<lparr> panelRef = Middle, fromSize = actualMiddleSize, toSize = targetMiddleSize \<rparr>,
                   \<lparr> panelRef = Right, fromSize = actualRightSize, toSize = newRightSize \<rparr>]
                  True of
             Inl e \<Rightarrow> Inl e
           | Inr tr \<Rightarrow>
               Inr (if Complete \<in> set tr
                    then s3\<lparr>leftSize := newLeftSize, middleSize := targetMiddleSize, rightSize := newRightSize,
                           leftAnimating := False, middleAnimating := False,
                           rightAnimating := False\<rparr>
                    else s3,
                    Scheduled Middle # tr)))"

definition CPL_handleRightCollapse_begin :: "CPL_props \<Rightarrow> CPL_state \<Rightarrow> CPL_state option" where
  "CPL_handleRightCollapse_begin props s =
     (if rightAnimating s \<or> isDragging s \<or> \<not> collapsible_right props then None
      else Some (s\<lparr>leftAnimating := True, middleAnimating := True, rightAnimating := True,
                   rightCollapsed := True\<rparr>))"

definition CPL_handleRightCollapse ::
  "CPL_props \<Rightarrow> Env \<Rightarrow> CPL_state \<Rightarrow> error + (CPL_state \<times> Effect list)" where
  "CPL_handleRightCollapse props env s =
     (case CPL_handleRightCollapse_begin props s of
        None \<Rightarrow> Inr (s, [])
      | Some s1 \<Rightarrow>
          let
              actualLeftSize = round3 (layoutAt (getLayout env) 0 (leftSize s));
              actualMiddleSize = round3 (layoutAt (getLayout env) 1 (middleSize s));
              actualRightSize = round3 (layoutAt (getLayout env) 2 (rightSize s));
              remainingTotal = actualLeftSize + actualMiddleSize;
              newLeftSize = (if remainingTotal > 0 then (actualLeftSize / remainingTotal) * 100
                            else (if isLeftActive props then 50 else 0));
              newMiddleSize = (if remainingTotal > 0 then (actualMiddleSize / remainingTotal) * 100
                            else (if isMiddleActive props then 50 else 0));
              s2 = (if newLeftSize > 0 then s1\<lparr>lastExpandedLeftSize := newLeftSize\<rparr> else s1);
              s3 = (if newMiddleSize > 0 then s2\<lparr>lastExpandedMiddleSize := newMiddleSize\<rparr> else s2)
          in
          (case animateMultiplePanels (handles env)
                  [\<lparr> panelRef = Left, fromSize = actualLeftSize, toSize = newLeftSize \<rparr>,
                   \<lparr> panelRef = Middle, fromSize = actualMiddleSize, toSize = newMiddleSize \<rparr>,
                   \<lparr> panelRef = Right, fromSize = actualRightSize, toSize = 0 \<rparr>]
                  True of
             Inl e \<Rightarrow> Inl e
           | Inr tr \<Rightarrow>
               Inr (if Complete \<in> set tr
                    then s3\<lparr>leftSize := newLeftSize, middleSize := newMiddleSize, rightSize := 0,
                           leftAnimating := False, middleAnimating := False,
                           rightAnimating := False\<rparr>
                    else s3,
                    Scheduled Right # tr)))"

definition CPL_handleRightExpand_begin :: "CPL_props \<Rightarrow> CPL_state \<Rightarrow> CPL_state option" where
  "CPL_handleRightExpand_begin props s =
     (if rightAnimating s \<or> isDragging s \<or> \<not> collapsible_right props then None
      else Some (s\<lparr>leftAnimating := True, middleAnimating := True, rightAnimating := True,
                   rightCollapsed := False\<rparr>))"

definition CPL_handleRightExpand ::
  "CPL_props \<Rightarrow> Env \<Rightarrow> CPL_state \<Rightarrow> error + (CPL_state \<times> Effect list)" where
  "CPL_handleRightExpand props env s =
     (case CPL_handleRightExpand_begin props s of
        None \<Rightarrow> Inr (s, [])
      | Some s1 \<Rightarrow>
          let
              actualLeftSize = round3 (layoutAt (getLayout env) 0 (leftSize s));
              actualMiddleSize = round3 (layoutAt (getLayout env) 1 (middleSize s));
              actualRightSize = round3 (layoutAt (getLayout env) 2 0);
              targetRightSize = orElse (lastExpandedRightSize s) (computedDefaultSizes_right props);
              spaceForOthers = 100 - targetRightSize;
              currentOthersTotal = actualLeftSize + actualMiddleSize;
              newLeftSize = (if currentOthersTotal > 0
                            then (actualLeftSize / currentOthersTotal) * spaceForOthers
                            else (if isLeftActive props then spaceForOthers / 2 else 0));
              newMiddleSize = (if currentOthersTotal > 0
                            then (actualMiddleSize / currentOthersTotal) * spaceForOthers
                            else (if isMiddleActive props then spaceForOthers / 2 else 0));
              s2 = (if newLeftSize > 0 then s1\<lparr>lastExpandedLeftSize := newLeftSize\<rparr> else s1);
              s3 = (if newMiddleSize > 0 then s2\<lparr>lastExpandedMiddleSize := newMiddleSize\<rparr> else s2)
          in
          (case animateMultiplePanels (handles env)
                  [\<lparr> panelRef = Left, fromSize = actualLeftSize, toSize = newLeftSize \<rparr>,
                   \<lparr> panelRef = Middle, fromSize = actualMiddleSize, toSize = newMiddleSize \<rparr>,
                   \<lparr> panelRef = Right, fromSize = actualRightSize, toSize = targetRightSize \<rparr>]
                  True of
             Inl e \<Rightarrow> Inl e
           | Inr tr \<Rightarrow>
               Inr (if Complete \<in> set tr
                    then s3\<lparr>leftSize := newLeftSize, middleSize := newMiddleSize, rightSize := targetRightSize,
                           leftAnimating := False, middleAnimating := False,
                           rightAnimating := False\<rparr>
                    else s3,
                    Scheduled Right # tr)))"


section \<open>PanelConfigurator\<close>

text \<open>
  \<open>PanelSlot\<close> is a panel id, \<open>null\<close> or a group; a field of \<open>PanelLayout\<close> may also be
  missing (\<open>undefined\<close>), which is \<open>None\<close> here. The handlers index the layout object by
  position (\<open>newLayout[position] = ...\<close>), so the layout is a function of the position.
  A group's \<open>config\<close> is a \<open>TabsConfig\<close> or a \<open>TilesConfig\<close>, both objects of optional
  fields; one record holds the fields of both (the callback \<open>onTabChange\<close> is left out).
\<close>

datatype GroupType = Tabs | Tiles

datatype TabPosition = TabTop | TabBottom | TabLeft | TabRight

datatype Direction = Horizontal | Vertical | Grid

record GroupConfig =
  defaultActiveTab :: "int option"
  tabPosition :: "TabPosition option"
  centered :: "bool option"
  hideTabList :: "bool option"
  activeTabIndex :: "int option"
  direction :: "Direction option"
  columns :: "int option"
  rows :: "int option"
  tileSizes :: "real list option"

record PanelGroup =
  gtype :: GroupType
  panels :: "string list"
  config :: "GroupConfig option"

datatype PanelSlot = Null | PanelId string | Group PanelGroup

type_synonym SlotPosition = Region

type_synonym PanelLayout = "SlotPosition \<Rightarrow> PanelSlot option"

datatype Selection = NoSelection | SlotSelected SlotPosition | PanelSelected string

definition isGroup :: "PanelSlot option \<Rightarrow> bool" where
  "isGroup slot = (case slot of Some (Group g) \<Rightarrow> True | _ \<Rightarrow> False)"

definition getPanelIdsFromSlot :: "PanelSlot option \<Rightarrow> string list" where
  "getPanelIdsFromSlot slot =
     (case slot of
        None \<Rightarrow> []
      | Some Null \<Rightarrow> []
      | Some (PanelId p) \<Rightarrow> [p]
      | Some (Group g) \<Rightarrow> panels g)"

definition isPanelInUse :: "PanelLayout \<Rightarrow> string \<Rightarrow> bool" where
  "isPanelInUse currentLayout panelId =
     (let leftIds = getPanelIdsFromSlot (currentLayout Left);
          middleIds = getPanelIdsFromSlot (currentLayout Middle);
          rightIds = getPanelIdsFromSlot (currentLayout Right)
      in panelId \<in> set leftIds \<or> panelId \<in> set middleIds \<or> panelId \<in> set rightIds)"

text \<open>The body of the \<open>forEach\<close> in \<open>removePanelFromLayout\<close>, for one position.\<close>

definition removePanelAt :: "string \<Rightarrow> SlotPosition \<Rightarrow> PanelLayout \<Rightarrow> PanelLayout" where
  "removePanelAt panelId pos newLayout =
     (case newLayout pos of
        Some (PanelId p) \<Rightarrow> (if p = panelId then newLayout(pos := Some Null) else newLayout)
      | Some (Group g) \<Rightarrow>
          (let filteredPanels = filter (\<lambda>pid. pid \<noteq> panelId) (panels g) in
           if length filteredPanels = 0 then newLayout(pos := Some Null)
           else if length filteredPanels = 1 then newLayout(pos := Some (PanelId (hd filteredPanels)))
           else newLayout(pos := Some (Group (g\<lparr>panels := filteredPanels\<rparr>))))
      | _ \<Rightarrow> newLayout)"

definition removePanelFromLayout :: "PanelLayout \<Rightarrow> string \<Rightarrow> PanelLayout" where
  "removePanelFromLayout layout panelId =
     fold (removePanelAt panelId) [Left, Middle, Right] layout"

text \<open>
  A handler returns the next selection and the layout it passes to \<open>onChange\<close>, if it
  calls \<open>onChange\<close>. The configurator is controlled: the parent feeds that layout back as
  \<open>currentLayout\<close>.
\<close>

definition togglePanelInTabGroup :: "PanelLayout \<Rightarrow> SlotPosition \<Rightarrow> string \<Rightarrow> PanelLayout option" where
  "togglePanelInTabGroup currentLayout position panelId =
     (case currentLayout position of
        Some (Group g) \<Rightarrow>
          (if gtype g \<noteq> Tabs then None
           else
             let filteredPanels = filter (\<lambda>pid. pid \<noteq> panelId) (panels g) in
             Some (currentLayout(position := Some (Group (g\<lparr>panels := filteredPanels\<rparr>)))))
      | _ \<Rightarrow> None)"

definition toggleTabMode ::
  "Selection \<Rightarrow> PanelLayout \<Rightarrow> SlotPosition \<Rightarrow> Selection \<times> PanelLayout option" where
  "toggleTabMode selection currentLayout position =
     (case currentLayout position of
        Some (Group g) \<Rightarrow>
          (if gtype g = Tabs then
             (NoSelection,
              Some (currentLayout(position :=
                      Some (if length (panels g) > 0 then PanelId (hd (panels g)) else Null))))
           else
             (SlotSelected position,
              Some (currentLayout(position := Some (Group
                      \<lparr> gtype = Tabs, panels = [],
                        config = Some \<lparr> defaultActiveTab = Some 0, tabPosition = Some TabTop,
                                        centered = None, hideTabList = None,
                                        activeTabIndex = None, direction = None,
                                        columns = None, rows = None, tileSizes = None \<rparr> \<rparr>)))))
      | slot \<Rightarrow>
          (SlotSelected position,
           Some (currentLayout(position := Some (Group
                   \<lparr> gtype = Tabs,
                     panels = (case slot of
                                 Some (PanelId p) \<Rightarrow> (if p \<noteq> [] then [p] else [])
                               | _ \<Rightarrow> []),
                     config = Some \<lparr> defaultActiveTab = Some 0, tabPosition = Some TabTop,
                                     centered = None, hideTabList = None,
                                     activeTabIndex = None, direction = None,
                                     columns = None, rows = None, tileSizes = None \<rparr> \<rparr>)))))"

text \<open>The branch shared by \<open>handleSlotClick\<close> and \<open>handlePanelClick\<close> once a slot and a
  panel are both known is written out in each, as in the source.\<close>

definition handleSlotClick ::
  "Selection \<Rightarrow> PanelLayout \<Rightarrow> SlotPosition \<Rightarrow> Selection \<times> PanelLayout option" where
  "handleSlotClick selection currentLayout position =
     (case selection of
        NoSelection \<Rightarrow> (SlotSelected position, None)
      | SlotSelected selected \<Rightarrow>
          (if selected = position then (selection, None)
           else
             let temp = currentLayout selected;
                 newLayout = currentLayout(selected := currentLayout position);
                 newLayout = newLayout(position := temp)
             in (NoSelection, Some newLayout))
      | PanelSelected pid \<Rightarrow>
          (case currentLayout position of
             Some (Group g) \<Rightarrow>
               (if gtype g = Tabs then
                  (if pid \<in> set (panels g)
                   then (selection, togglePanelInTabGroup currentLayout position pid)
                   else
                     let newLayout = removePanelFromLayout currentLayout pid;
                         newLayout = newLayout(position :=
                                       Some (Group (g\<lparr>panels := panels g @ [pid]\<rparr>)))
                     in (selection, Some newLayout))
                else
                  (let newLayout = removePanelFromLayout currentLayout pid;
                       newLayout = newLayout(position := Some (PanelId pid))
                   in (NoSelection, Some newLayout)))
           | _ \<Rightarrow>
               (let newLayout = removePanelFromLayout currentLayout pid;
                    newLayout = newLayout(position := Some (PanelId pid))
                in (NoSelection, Some newLayout))))"

definition handlePanelClick ::
  "Selection \<Rightarrow> PanelLayout \<Rightarrow> string \<Rightarrow> Selection \<times> PanelLayout option" where
  "handlePanelClick selection currentLayout panelId =
     (case selection of
        NoSelection \<Rightarrow> (PanelSelected panelId, None)
      | SlotSelected selected \<Rightarrow>
          (case currentLayout selected of
             Some (Group g) \<Rightarrow>
               (if gtype g = Tabs then
                  (if panelId \<in> set (panels g)
                   then (selection, togglePanelInTabGroup currentLayout selected panelId)
                   else
                     let newLayout = removePanelFromLayout currentLayout panelId;
                         newLayout = newLayout(selected :=
                                       Some (Group (g\<lparr>panels := panels g @ [panelId]\<rparr>)))
                     in (selection, Some newLayout))
                else
                  (let newLayout = removePanelFromLayout currentLayout panelId;
                       newLayout = newLayout(selected := Some (PanelId panelId))
                   in (NoSelection, Some newLayout)))
           | _ \<Rightarrow>
               (let newLayout = removePanelFromLayout currentLayout panelId;
                    newLayout = newLayout(selected := Some (PanelId panelId))
                in (NoSelection, Some newLayout)))
      | PanelSelected other \<Rightarrow> (PanelSelected panelId, None))"

definition handleSlotClear ::
  "Selection \<Rightarrow> PanelLayout \<Rightarrow> SlotPosition \<Rightarrow> Selection \<times> PanelLayout option" where
  "handleSlotClear selection currentLayout position =
     (NoSelection, Some (currentLayout(position := Some Null)))"

definition removePanelFromTabGroup ::
  "Selection \<Rightarrow> PanelLayout \<Rightarrow> SlotPosition \<Rightarrow> string \<Rightarrow> Selection \<times> PanelLayout option" where
  "removePanelFromTabGroup selection currentLayout position panelId =
     (case currentLayout position of
        Some (Group g) \<Rightarrow>
          (if gtype g \<noteq> Tabs then (selection, None)
           else
             let filteredPanels = filter (\<lambda>pid. pid \<noteq> panelId) (panels g) in
             (selection,
              Some (currentLayout(position := Some (Group (g\<lparr>panels := filteredPanels\<rparr>))))))
      | _ \<Rightarrow> (selection, None))"

text \<open>Object spread \<open>{ ...old, ...new }\<close>: a field of \<open>new\<close> wins where it is present.\<close>

definition orField :: "'a option \<Rightarrow> 'a option \<Rightarrow> 'a option" where
  "orField new old = (case new of Some v \<Rightarrow> Some v | None \<Rightarrow> old)"

definition spreadConfig :: "GroupConfig option \<Rightarrow> GroupConfig \<Rightarrow> GroupConfig" where
  "spreadConfig old new =
     (case old of
        None \<Rightarrow> new
      | Some c \<Rightarrow>
          \<lparr> defaultActiveTab = orField (defaultActiveTab new) (defaultActiveTab c),
            tabPosition = orField (tabPosition new) (tabPosition c),
            centered = orField (centered new) (centered c),
            hideTabList = orField (hideTabList new) (hideTabList c),
            activeTabIndex = orField (activeTabIndex new) (activeTabIndex c),
            direction = orField (direction new) (direction c),
            columns = orField (columns new) (columns c),
            rows = orField (rows new) (rows c),
            tileSizes = orField (tileSizes new) (tileSizes c) \<rparr>)"

definition updateTabConfig ::
  "Selection \<Rightarrow> PanelLayout \<Rightarrow> SlotPosition \<Rightarrow> GroupConfig \<Rightarrow> Selection \<times> PanelLayout option" where
  "updateTabConfig selection currentLayout position cfg =
     (case currentLayout position of
        Some (Group g) \<Rightarrow>
          (if gtype g \<noteq> Tabs then (selection, None)
           else
             (selection,
              Some (currentLayout(position :=
                      Some (Group (g\<lparr>config := Some (spreadConfig (config g) cfg)\<rparr>))))))
      | _ \<Rightarrow> (selection, None))"

text \<open>
  \<open>handleDragEnd\<close> of EditableConfigurablePanelLayout: the dragged slot and the slot it
  is dropped on (\<open>None\<close> when \<open>event.over\<close> is \<open>null\<close>), read off the ids \<open>slot-..\<close> and
  \<open>drop-..\<close>; \<open>onLayoutChange\<close> tells whether that callback was supplied.
\<close>

definition Editable_handleDragEnd ::
  "bool \<Rightarrow> PanelLayout \<Rightarrow> SlotPosition \<Rightarrow> SlotPosition option \<Rightarrow> PanelLayout option" where
  "Editable_handleDragEnd onLayoutChange layout sourceSlot over =
     (case over of
        None \<Rightarrow> None
      | Some targetSlot \<Rightarrow>
          (if sourceSlot = targetSlot then None
           else
             let temp = layout sourceSlot;
                 newLayout = layout(sourceSlot := layout targetSlot);
                 newLayout = newLayout(targetSlot := temp)
             in (if onLayoutChange then Some newLayout else None)))"

text \<open>The operations a user of the configurator can perform, and one step of the
  controlled component.\<close>

datatype ConfigOp =
    SlotClick SlotPosition
  | PanelClick string
  | TabModeToggle SlotPosition
  | SlotClear SlotPosition
  | TabGroupRemove SlotPosition string
  | TabConfigUpdate SlotPosition GroupConfig
  | DragSwap SlotPosition "SlotPosition option"

fun configStep :: "ConfigOp \<Rightarrow> Selection \<Rightarrow> PanelLayout \<Rightarrow> Selection \<times> PanelLayout option" where
  "configStep (SlotClick position) sel layout = handleSlotClick sel layout position"
| "configStep (PanelClick panelId) sel layout = handlePanelClick sel layout panelId"
| "configStep (TabModeToggle position) sel layout = toggleTabMode sel layout position"
| "configStep (SlotClear position) sel layout = handleSlotClear sel layout position"
| "configStep (TabGroupRemove position panelId) sel layout =
     removePanelFromTabGroup sel layout position panelId"
| "configStep (TabConfigUpdate position cfg) sel layout = updateTabConfig sel layout position cfg"
| "configStep (DragSwap sourceSlot over) sel layout =
     (sel, Editable_handleDragEnd True layout sourceSlot over)"

text \<open>All panel ids of a layout, slot by slot; the invariant is that none occurs twice.\<close>

definition allPanelIds :: "PanelLayout \<Rightarrow> string list" where
  "allPanelIds layout =
     getPanelIdsFromSlot (layout Left) @ getPanelIdsFromSlot (layout Middle)
       @ getPanelIdsFromSlot (layout Right)"

definition noDuplicates :: "PanelLayout \<Rightarrow> bool" where
  "noDuplicates layout = distinct (allPanelIds layout)"

text \<open>The weaker reading of the invariant: no panel id occurs in two slots (it may be
  repeated inside one group).\<close>

definition slotsDisjoint :: "PanelLayout \<Rightarrow> bool" where
  "slotsDisjoint layout =
     (set (getPanelIdsFromSlot (layout Left)) \<inter> set (getPanelIdsFromSlot (layout Middle)) = {}
      \<and> set (getPanelIdsFromSlot (layout Left)) \<inter> set (getPanelIdsFromSlot (layout Right)) = {}
      \<and> set (getPanelIdsFromSlot (layout Middle)) \<inter> set (getPanelIdsFromSlot (layout Right)) = {})"


section \<open>TabGroup\<close>

text \<open>A panel definition, of which the tab group reads the id (label, icon and content
  are rendered, not computed with).\<close>

record PanelDefinitionWithContent =
  panel_id :: string
  panel_label :: string

text \<open>
  Tab indices are JavaScript numbers; they are modelled as \<^typ>\<open>int\<close>, so that an index
  below zero is an input like any other. \<open>internalIndex\<close> is the \<open>useState\<close> cell of the
  uncontrolled mode.
\<close>

definition TabGroup_activeTabIndex :: "GroupConfig \<Rightarrow> int \<Rightarrow> int" where
  "TabGroup_activeTabIndex cfg internalIndex =
     (case activeTabIndex cfg of Some controlledIndex \<Rightarrow> controlledIndex | None \<Rightarrow> internalIndex)"

text \<open>\<open>panelIds.map(id => panels.find(p => p.id === id)).filter(p => p !== undefined)\<close>.\<close>

definition tabPanels ::
  "string list \<Rightarrow> PanelDefinitionWithContent list \<Rightarrow> PanelDefinitionWithContent list" where
  "tabPanels panelIds ps =
     List.map_filter (\<lambda>pid. find (\<lambda>p. panel_id p = pid) ps) panelIds"

text \<open>\<open>Math.min(activeTabIndex, tabPanels.length - 1)\<close>, under the comment
  ``Ensure active tab is valid''.\<close>

definition safeActiveIndex ::
  "GroupConfig \<Rightarrow> int \<Rightarrow> string list \<Rightarrow> PanelDefinitionWithContent list \<Rightarrow> int" where
  "safeActiveIndex cfg internalIndex panelIds ps =
     min (TabGroup_activeTabIndex cfg internalIndex) (int (length (tabPanels panelIds ps)) - 1)"

text \<open>\<open>tabPanels[safeActiveIndex]\<close>: \<open>undefined\<close> outside the array.\<close>

definition activePanel ::
  "GroupConfig \<Rightarrow> int \<Rightarrow> string list \<Rightarrow> PanelDefinitionWithContent list
     \<Rightarrow> PanelDefinitionWithContent option" where
  "activePanel cfg internalIndex panelIds ps =
     (let i = safeActiveIndex cfg internalIndex panelIds ps; tabs = tabPanels panelIds ps in
      if 0 \<le> i \<and> i < int (length tabs) then Some (tabs ! nat i) else None)"

text \<open>What is rendered: the placeholder for an empty group, else the tab buttons with
  the index marked active (\<open>index === safeActiveIndex\<close>) and the content of the active
  panel, if there is one.\<close>

datatype TabGroupView =
    NoPanelsAvailable
  | TabView (selectedTab: int) (shownPanel: "PanelDefinitionWithContent option")

definition TabGroup_render ::
  "GroupConfig \<Rightarrow> int \<Rightarrow> string list \<Rightarrow> PanelDefinitionWithContent list \<Rightarrow> TabGroupView" where
  "TabGroup_render cfg internalIndex panelIds ps =
     (if length (tabPanels panelIds ps) = 0 then NoPanelsAvailable
      else TabView (safeActiveIndex cfg internalIndex panelIds ps)
                   (activePanel cfg internalIndex panelIds ps))"

text \<open>\<open>handleTabClick\<close>: the next \<open>internalIndex\<close>.\<close>

definition handleTabClick :: "GroupConfig \<Rightarrow> int \<Rightarrow> int \<Rightarrow> int" where
  "handleTabClick cfg internalIndex index =
     (if activeTabIndex cfg = None then index else internalIndex)"

section \<open>SnapCarousel: the width of a panel\<close>

text \<open>
  The component does not compute a width in pixels. It writes a CSS value into the custom
  property \<open>--snap-carousel-panel-width\<close> and, for two panels, emits a style element with
  a container query. Both are kept as data: a CSS width, and a list of rules, each with
  the \<open>min-width\<close> of its \<open>@container\<close> condition (\<open>None\<close> for a rule outside any
  condition) and the width it sets.
\<close>

datatype CssWidth = Percent real | MaxPxPercent real real

definition twoPanelThreshold :: "real \<Rightarrow> real" where
  "twoPanelThreshold minPanelWidth = minPanelWidth * 2"

definition panelWidth :: "nat \<Rightarrow> real \<Rightarrow> real \<Rightarrow> CssWidth" where
  "panelWidth panelCount minPanelWidth idealPanelWidth =
     (if panelCount = 1 then Percent 100
      else if panelCount = 2 then Percent 100
      else MaxPxPercent minPanelWidth (idealPanelWidth * 100))"

definition dynamicStyle :: "nat \<Rightarrow> real \<Rightarrow> (real option \<times> CssWidth) list" where
  "dynamicStyle panelCount minPanelWidth =
     (if panelCount = 2
      then [(None, Percent 100), (Some (twoPanelThreshold minPanelWidth), Percent 50)]
      else [])"

text \<open>
  Modelled from the spec: SnapCarousel.css is not among the sources. It is taken to give
  every panel the width held by the custom property and to make the carousel a size
  container, which is what the spec's width policy needs. The values are resolved as CSS
  resolves them: a percentage is taken of the container's width, \<open>max\<close> is the larger
  length, a \<open>min-width\<close> condition holds when the container is at least that wide, and
  of the rules that apply the last one wins; the rules of the style element, whose
  selector is the more specific, take precedence over the custom property.
\<close>

definition cssLength :: "real \<Rightarrow> CssWidth \<Rightarrow> real" where
  "cssLength containerWidth w =
     (case w of
        Percent p \<Rightarrow> containerWidth * p / 100
      | MaxPxPercent px p \<Rightarrow> max px (containerWidth * p / 100))"

definition ruleApplies :: "real \<Rightarrow> real option \<times> CssWidth \<Rightarrow> bool" where
  "ruleApplies containerWidth rule =
     (case fst rule of None \<Rightarrow> True | Some minWidth \<Rightarrow> containerWidth \<ge> minWidth)"

definition renderedPanelWidth :: "nat \<Rightarrow> real \<Rightarrow> real \<Rightarrow> real \<Rightarrow> real" where
  "renderedPanelWidth panelCount minPanelWidth idealPanelWidth containerWidth =
     (case filter (ruleApplies containerWidth) (dynamicStyle panelCount minPanelWidth) of
        [] \<Rightarrow> cssLength containerWidth (panelWidth panelCount minPanelWidth idealPanelWidth)
      | rules \<Rightarrow> cssLength containerWidth (snd (last rules)))"


section \<open>Vocabulary for the statements\<close>

text \<open>
  The source writes one handler per region. To state a property once for every region,
  the handlers and the state cells are also reached through the region's name.
\<close>

definition sizeOf :: "Region \<Rightarrow> CPL_state \<Rightarrow> real" where
  "sizeOf r s = (case r of Left \<Rightarrow> leftSize s | Middle \<Rightarrow> middleSize s | Right \<Rightarrow> rightSize s)"

definition collapsedOf :: "Region \<Rightarrow> CPL_state \<Rightarrow> bool" where
  "collapsedOf r s =
     (case r of Left \<Rightarrow> leftCollapsed s | Middle \<Rightarrow> middleCollapsed s
      | Right \<Rightarrow> rightCollapsed s)"

definition animatingOf :: "Region \<Rightarrow> CPL_state \<Rightarrow> bool" where
  "animatingOf r s =
     (case r of Left \<Rightarrow> leftAnimating s | Middle \<Rightarrow> middleAnimating s
      | Right \<Rightarrow> rightAnimating s)"

definition lastExpandedSizeOf :: "Region \<Rightarrow> CPL_state \<Rightarrow> real" where
  "lastExpandedSizeOf r s =
     (case r of Left \<Rightarrow> lastExpandedLeftSize s | Middle \<Rightarrow> lastExpandedMiddleSize s
      | Right \<Rightarrow> lastExpandedRightSize s)"

definition collapsibleOf :: "Region \<Rightarrow> CPL_props \<Rightarrow> bool" where
  "collapsibleOf r props =
     (case r of Left \<Rightarrow> collapsible_left props | Middle \<Rightarrow> collapsible_middle props
      | Right \<Rightarrow> collapsible_right props)"

definition isActiveOf :: "Region \<Rightarrow> CPL_props \<Rightarrow> bool" where
  "isActiveOf r props =
     (case r of Left \<Rightarrow> isLeftActive props | Middle \<Rightarrow> isMiddleActive props
      | Right \<Rightarrow> isRightActive props)"

definition computedDefaultSizeOf :: "Region \<Rightarrow> CPL_props \<Rightarrow> real" where
  "computedDefaultSizeOf r props =
     (case r of Left \<Rightarrow> computedDefaultSizes_left props
      | Middle \<Rightarrow> computedDefaultSizes_middle props
      | Right \<Rightarrow> computedDefaultSizes_right props)"

definition layoutIndex :: "Region \<Rightarrow> nat" where
  "layoutIndex r = (case r of Left \<Rightarrow> 0 | Middle \<Rightarrow> 1 | Right \<Rightarrow> 2)"

text \<open>The size of a region as the collapse handlers read it in the frame callback.\<close>

definition actualSizeOf :: "Env \<Rightarrow> CPL_state \<Rightarrow> Region \<Rightarrow> real" where
  "actualSizeOf env s r = round3 (layoutAt (getLayout env) (layoutIndex r) (sizeOf r s))"

definition CPL_handleCollapse ::
  "Region \<Rightarrow> CPL_props \<Rightarrow> Env \<Rightarrow> CPL_state \<Rightarrow> error + (CPL_state \<times> Effect list)" where
  "CPL_handleCollapse r =
     (case r of Left \<Rightarrow> CPL_handleLeftCollapse | Middle \<Rightarrow> CPL_handleMiddleCollapse
      | Right \<Rightarrow> CPL_handleRightCollapse)"

definition CPL_handleExpand ::
  "Region \<Rightarrow> CPL_props \<Rightarrow> Env \<Rightarrow> CPL_state \<Rightarrow> error + (CPL_state \<times> Effect list)" where
  "CPL_handleExpand r =
     (case r of Left \<Rightarrow> CPL_handleLeftExpand | Middle \<Rightarrow> CPL_handleMiddleExpand
      | Right \<Rightarrow> CPL_handleRightExpand)"

definition P5_handleCollapse ::
  "Region \<Rightarrow> CPL_props \<Rightarrow> Env \<Rightarrow> CPL_state \<Rightarrow> error + (CPL_state \<times> Effect list)" where
  "P5_handleCollapse r =
     (case r of Left \<Rightarrow> P5_handleLeftCollapse | Middle \<Rightarrow> P5_handleMiddleCollapse
      | Right \<Rightarrow> P5_handleRightCollapse)"

definition P5_handleExpand ::
  "Region \<Rightarrow> CPL_props \<Rightarrow> Env \<Rightarrow> CPL_state \<Rightarrow> error + (CPL_state \<times> Effect list)" where
  "P5_handleExpand r =
     (case r of Left \<Rightarrow> P5_handleLeftExpand | Middle \<Rightarrow> P5_handleMiddleExpand
      | Right \<Rightarrow> P5_handleRightExpand)"

definition CPL_handleResize :: "Region \<Rightarrow> real \<Rightarrow> CPL_state \<Rightarrow> CPL_state" where
  "CPL_handleResize r =
     (case r of Left \<Rightarrow> CPL_handleLeftResize | Middle \<Rightarrow> CPL_handleMiddleResize
      | Right \<Rightarrow> CPL_handleRightResize)"

text \<open>The calls one step of \<open>animateMultiplePanels\<close> makes, and those of its last step.\<close>

definition stepCalls :: "(Region \<Rightarrow> nat \<Rightarrow> bool) \<Rightarrow> Animation list \<Rightarrow> nat \<Rightarrow> Effect list" where
  "stepCalls present anims k =
     map (\<lambda>anim. easedCall (panelRef anim) (fromSize anim) (toSize anim) k)
         (filter (\<lambda>anim. present (panelRef anim) k) anims)"

definition finalCalls :: "(Region \<Rightarrow> nat \<Rightarrow> bool) \<Rightarrow> Animation list \<Rightarrow> Effect list" where
  "finalCalls present anims =
     map (\<lambda>anim. Call (panelRef anim) (if toSize anim = 0 then Collapse else Resize (toSize anim)))
         (filter (\<lambda>anim. present (panelRef anim) 10) anims)"

text \<open>The state a handler's run ends in; \<open>None\<close> if it threw.\<close>

definition settled :: "error + ('s \<times> Effect list) \<Rightarrow> 's option" where
  "settled res = (case res of Inl e \<Rightarrow> None | Inr (s, tr) \<Rightarrow> Some s)"

section \<open>Sample inputs\<close>

text \<open>Every handle stays mounted; the group reports the layout 20/60/20; the clock reads
  a time after the page's origin.\<close>

definition mounted :: "nat \<Rightarrow> bool" where
  "mounted k = True"

definition allMounted :: "Region \<Rightarrow> nat \<Rightarrow> bool" where
  "allMounted r k = True"

definition sampleEnv :: Env where
  "sampleEnv = \<lparr> getLayout = Some [20, 60, 20], handles = allMounted, clock = 1 \<rparr>"

text \<open>ThreePanelLayout with its default props and a resize callback.\<close>

definition sampleTPL :: TPL_props where
  "sampleTPL =
     \<lparr> tpl_collapsible_left = True, tpl_collapsible_right = True,
       tpl_default_left = 20, tpl_default_middle = 60, tpl_default_right = 20,
       tpl_collapsed_left = False, tpl_collapsed_right = False,
       tpl_onPanelResize = True \<rparr>"

text \<open>ConfigurablePanelLayout with three active slots, its default props and a resize
  callback.\<close>

definition sampleCPL :: CPL_props where
  "sampleCPL =
     \<lparr> isLeftActive = True, isMiddleActive = True, isRightActive = True,
       collapsible_left = True, collapsible_middle = False, collapsible_right = True,
       defaultSizes_left = Some 20, defaultSizes_middle = Some 60, defaultSizes_right = Some 20,
       collapsed_left = False, collapsed_middle = False, collapsed_right = False,
       onPanelResize = True \<rparr>"

text \<open>A handle that is there for the ticks before the \<open>n\<close>-th and gone from then on.\<close>

definition unmountedAt :: "nat \<Rightarrow> nat \<Rightarrow> bool" where
  "unmountedAt n k = (k < n)"

text \<open>The size reported for a region in the argument of \<open>onPanelResize\<close>.\<close>

definition reportedOf :: "Region \<Rightarrow> PanelSizes \<Rightarrow> real" where
  "reportedOf r sizes = (case r of Left \<Rightarrow> left sizes | Middle \<Rightarrow> middle sizes | Right \<Rightarrow> right sizes)"

text \<open>The handle calls of a trace that go to one region.\<close>

fun callsOn :: "Region \<Rightarrow> Effect list \<Rightarrow> HandleCall list" where
  "callsOn r [] = []"
| "callsOn r (Call q c # tr) = (if q = r then c # callsOn r tr else callsOn r tr)"
| "callsOn r (e # tr) = callsOn r tr"

text \<open>ThreePanelLayout after its left panel was collapsed from the initial state, and
  while its right panel is being collapsed.\<close>

definition sampleTPL_leftCollapsed :: TPL_state where
  "sampleTPL_leftCollapsed =
     \<lparr> leftCollapsed = True, rightCollapsed = False, leftAnimating = False,
       rightAnimating = False, isDragging = False, leftSize = 0, rightSize = 20 \<rparr>"

definition sampleTPL_rightRunning :: TPL_state where
  "sampleTPL_rightRunning =
     \<lparr> leftCollapsed = False, rightCollapsed = True, leftAnimating = False,
       rightAnimating = True, isDragging = False, leftSize = 20, rightSize = 20 \<rparr>"

text \<open>ConfigurablePanelLayout.tsx while its left panel is being collapsed.\<close>

definition sampleCPL_leftRunning :: CPL_state where
  "sampleCPL_leftRunning =
     (CPL_init sampleCPL)\<lparr>leftAnimating := True, middleAnimating := True,
                           rightAnimating := True, leftCollapsed := True\<rparr>"

text \<open>The same surroundings with another layout read from the panel group.\<close>

definition sampleEnv_at :: "real list \<Rightarrow> Env" where
  "sampleEnv_at l = \<lparr> getLayout = Some l, handles = allMounted, clock = 1 \<rparr>"

text \<open>unnamed/part_005 while its right panel is being collapsed.\<close>

definition sampleP5_rightRunning :: CPL_state where
  "sampleP5_rightRunning =
     (CPL_init sampleCPL)\<lparr>rightAnimating := True, rightCollapsed := True\<rparr>"

text \<open>ConfigurablePanelLayout with the left and the middle slot in use, the right slot
  empty, and the middle panel collapsed from the start.\<close>

definition sampleCPL_twoSlots :: CPL_props where
  "sampleCPL_twoSlots =
     \<lparr> isLeftActive = True, isMiddleActive = True, isRightActive = False,
       collapsible_left = True, collapsible_middle = True, collapsible_right = True,
       defaultSizes_left = None, defaultSizes_middle = None, defaultSizes_right = None,
       collapsed_left = False, collapsed_middle = True, collapsed_right = False,
       onPanelResize = True \<rparr>"

text \<open>The sample props with a collapsible middle panel, and with a left default size
  of \<open>0\<close>.\<close>

definition sampleCPL_allCollapsible :: CPL_props where
  "sampleCPL_allCollapsible = sampleCPL\<lparr>collapsible_middle := True\<rparr>"

definition sampleCPL_zeroLeft :: CPL_props where
  "sampleCPL_zeroLeft = sampleCPL\<lparr>defaultSizes_left := Some 0\<rparr>"

text \<open>ConfigurablePanelLayout.tsx after its left panel was collapsed from the initial
  state with the layout 20/60/20.\<close>

definition sampleCPL_leftCollapsed :: CPL_state where
  "sampleCPL_leftCollapsed =
     (CPL_init sampleCPL)\<lparr>leftCollapsed := True, leftSize := 0, middleSize := 75,
                           rightSize := 25, lastExpandedMiddleSize := 75,
                           lastExpandedRightSize := 25\<rparr>"

text \<open>\<open>isTabModeSlot\<close> of the configurator.\<close>

definition isTabModeSlot :: "PanelLayout \<Rightarrow> SlotPosition \<Rightarrow> bool" where
  "isTabModeSlot currentLayout position =
     (case currentLayout position of Some (Group g) \<Rightarrow> gtype g = Tabs | _ \<Rightarrow> False)"

text \<open>A layout with a single panel left and right and a tab group in the middle, and
  the same layout after panel \<open>a\<close> was assigned to the right slot.\<close>

definition sampleLayout :: PanelLayout where
  "sampleLayout position =
     (case position of
        Left \<Rightarrow> Some (PanelId ''a'')
      | Middle \<Rightarrow> Some (Group \<lparr> gtype = Tabs, panels = [''b'', ''c''], config = None \<rparr>)
      | Right \<Rightarrow> Some (PanelId ''d''))"

definition sampleLayout_assigned :: PanelLayout where
  "sampleLayout_assigned position =
     (case position of
        Left \<Rightarrow> Some Null
      | Middle \<Rightarrow> Some (Group \<lparr> gtype = Tabs, panels = [''b'', ''c''], config = None \<rparr>)
      | Right \<Rightarrow> Some (PanelId ''a''))"

text \<open>Three panels and a tab configuration with every field left out.\<close>

definition samplePanels :: "PanelDefinitionWithContent list" where
  "samplePanels =
     [\<lparr> panel_id = ''a'', panel_label = ''A'' \<rparr>,
      \<lparr> panel_id = ''b'', panel_label = ''B'' \<rparr>,
      \<lparr> panel_id = ''c'', panel_label = ''C'' \<rparr>]"

definition emptyConfig :: GroupConfig where
  "emptyConfig =
     \<lparr> defaultActiveTab = None, tabPosition = None, centered = None, hideTabList = None,
       activeTabIndex = None, direction = None, columns = None, rows = None,
       tileSizes = None \<rparr>"

chapter \<open>Properties\<close>

section \<open>The tween\<close>

text \<open>A run whose handle is there from the step after \<open>c\<close> to the last step makes
  every remaining eased call, then the final call, then completes.\<close>

lemma animate_run:
  assumes "\<forall>k. c < k \<and> k \<le> 10 \<longrightarrow> present k" "now \<noteq> 0" "c < 10"
  shows "animate present now panel f t oc c =
     Inr (map (easedCall panel f t) [Suc c..<10]
          @ [Call panel (if t = 0 then Collapse else Resize t)]
          @ (if oc then [Complete] else []))"
  using assms
proof (induction present now panel f t oc c rule: animate.induct)
  case (1 present startTime panel fromSize toSize onComplete currentStep)
  show ?case
  proof (cases "Suc currentStep = 10")
    case True
    then show ?thesis using 1(2,3)
      by (subst animate.simps) (simp add: steps_def invoke_def thenE_def)
  next
    case False
    then have lt: "Suc currentStep < 10" using 1(4) by simp
    have p: "present (Suc currentStep)" using 1(2,4) by simp
    have np: "\<not> (real (Suc currentStep) / real steps \<ge> 1)" using lt by (simp add: steps_def)
    have IH: "animate present startTime panel fromSize toSize onComplete (Suc currentStep) =
      Inr (map (easedCall panel fromSize toSize) [Suc (Suc currentStep)..<10]
          @ [Call panel (if toSize = 0 then Collapse else Resize toSize)]
          @ (if onComplete then [Complete] else []))"
      using 1(1)[OF _ refl np] p 1(2,3) lt by simp
    have up: "[Suc currentStep..<10] = Suc currentStep # [Suc (Suc currentStep)..<10]"
      using lt by (simp add: upt_conv_Cons)
    show ?thesis
      apply (subst animate.simps)
      using p 1(3) np IH up
      by (simp add: invoke_def easedCall_def steps_def Let_def thenE_def)
  qed
qed

text \<open>A run whose handle is gone at step \<open>k\<close> makes the eased calls before \<open>k\<close> and
  nothing else.\<close>

lemma animate_stop:
  assumes "\<not> present k" "\<forall>j. c < j \<and> j < k \<longrightarrow> present j" "c < k" "k \<le> 10" "now \<noteq> 0"
  shows "animate present now panel f t oc c = Inr (map (easedCall panel f t) [Suc c..<k])"
  using assms
proof (induction present now panel f t oc c rule: animate.induct)
  case (1 present startTime panel fromSize toSize onComplete currentStep)
  show ?case
  proof (cases "Suc currentStep = k")
    case True
    then show ?thesis using 1(2)
      by (subst animate.simps) simp
  next
    case False
    then have lt: "Suc currentStep < k" using 1(4) by simp
    have p: "present (Suc currentStep)" using 1(3) lt by simp
    have np: "\<not> (real (Suc currentStep) / real steps \<ge> 1)" using lt 1(5) by (simp add: steps_def)
    have IH: "animate present startTime panel fromSize toSize onComplete (Suc currentStep) =
      Inr (map (easedCall panel fromSize toSize) [Suc (Suc currentStep)..<k])"
      using 1(1)[OF _ refl np] p 1(2,3,5,6) lt by simp
    have up: "[Suc currentStep..<k] = Suc currentStep # [Suc (Suc currentStep)..<k]"
      using lt by (simp add: upt_conv_Cons)
    show ?thesis
      apply (subst animate.simps)
      using p 1(6) np IH up
      by (simp add: invoke_def easedCall_def steps_def Let_def thenE_def)
  qed
qed

text \<open>No run throws: every call on the handle stands behind the guard of its tick.\<close>

lemma animate_no_throw: "\<exists>tr. animate present st panel f t oc c = Inr tr"
proof (induction present st panel f t oc c rule: animate.induct)
  case (1 present startTime panel fromSize toSize onComplete currentStep)
  show ?case
  proof (cases "\<not> present (Suc currentStep) \<or> startTime = 0")
    case True
    then show ?thesis by (subst animate.simps) auto
  next
    case False
    show ?thesis
    proof (cases "real (Suc currentStep) / real steps \<ge> 1")
      case True
      with False show ?thesis
        by (subst animate.simps) (simp add: invoke_def thenE_def)
    next
      case np: False
      from 1[OF False refl np] obtain tr where
        "animate present startTime panel fromSize toSize onComplete (Suc currentStep) = Inr tr"
        by blast
      with False np show ?thesis
        by (subst animate.simps) (simp add: invoke_def thenE_def)
    qed
  qed
qed

lemma animatePanel_no_throw: "\<exists>tr. animatePanel present now panel f t oc = Inr tr"
  using animate_no_throw[of present now panel f t oc 0]
  by (simp add: animatePanel_def)

text \<open>The whole run of \<open>animatePanel\<close> on a handle that stays mounted.\<close>

lemma animatePanel_run:
  assumes "\<And>k. 1 \<le> k \<Longrightarrow> k \<le> 10 \<Longrightarrow> present k" and "now \<noteq> 0"
  shows "animatePanel present now panel a b oc =
           Inr (map (easedCall panel a b) [1..<10]
                @ [Call panel (if b = 0 then Collapse else Resize b)]
                @ (if oc then [Complete] else []))"
proof -
  have "animate present now panel a b oc 0 =
     Inr (map (easedCall panel a b) [Suc 0..<10]
          @ [Call panel (if b = 0 then Collapse else Resize b)]
          @ (if oc then [Complete] else []))"
    by (rule animate_run) (use assms in auto)
  moreover have "present 1" using assms(1)[of 1] by simp
  ultimately show ?thesis by (simp add: animatePanel_def)
qed

text \<open>The three-panel tween never stops; it skips the handles that are gone.\<close>

lemma forEachValid_calls:
  "forEachValid cur call anims =
     Inr (map (\<lambda>anim. Call (panelRef anim) (call anim)) (filter (\<lambda>anim. cur (panelRef anim)) anims))"
  by (induction anims) (simp_all add: thenE_def invoke_def)

lemma animateAll_run:
  assumes "c < 10"
  shows "animateAll present anims oc c =
     Inr (concat (map (stepCalls present anims) [Suc c..<10])
          @ finalCalls present anims @ (if oc then [Complete] else []))"
  using assms
proof (induction present anims oc c rule: animateAll.induct)
  case (1 present validAnimations onComplete currentStep)
  show ?case
  proof (cases "Suc currentStep = 10")
    case True
    then show ?thesis
      by (subst animateAll.simps)
         (simp add: steps_def thenE_def forEachValid_calls finalCalls_def)
  next
    case False
    then have lt: "Suc currentStep < 10" using 1(2) by simp
    have np: "\<not> (real (Suc currentStep) / real steps \<ge> 1)" using lt by (simp add: steps_def)
    have IH: "animateAll present validAnimations onComplete (Suc currentStep) =
      Inr (concat (map (stepCalls present validAnimations) [Suc (Suc currentStep)..<10])
          @ finalCalls present validAnimations @ (if onComplete then [Complete] else []))"
      using 1(1)[OF refl np lt] .
    have up: "[Suc currentStep..<10] = Suc currentStep # [Suc (Suc currentStep)..<10]"
      using lt by (simp add: upt_conv_Cons)
    show ?thesis
      apply (subst animateAll.simps)
      using np IH up
      by (simp add: steps_def Let_def thenE_def forEachValid_calls stepCalls_def easedCall_def)
  qed
qed

lemma animateMultiplePanels_run:
  "animateMultiplePanels present animations oc =
     (let valid = filter (\<lambda>anim. present (panelRef anim) 1) animations in
      if valid = [] then Inr []
      else Inr (concat (map (stepCalls present valid) [1..<10])
                @ finalCalls present valid @ (if oc then [Complete] else [])))"
  by (simp add: animateMultiplePanels_def Let_def animateAll_run)

text \<open>
  Claim C3. Given a handle that stays available and a clock reading other than zero,
  \<open>animatePanel\<close> makes exactly ten calls on the handle: nine resizes at the eased
  positions of progress \<open>k/10\<close>, \<open>k = 1..9\<close>, with \<open>eased p = 4p\<^sup>3\<close> for \<open>p < 1/2\<close> and
  \<open>1 - (-2p + 2)\<^sup>3 / 2\<close> otherwise, and a tenth that is \<open>collapse()\<close> if and only if
  \<open>toSize\<close> is \<open>0\<close> and \<open>resize(toSize)\<close> otherwise, which is also where the eased
  position of progress \<open>1\<close> lies. The completion callback runs once, right after the
  tenth call and in the same step.
\<close>

theorem animatePanel_ten_updates:
  assumes "\<And>k. 1 \<le> k \<Longrightarrow> k \<le> 10 \<Longrightarrow> present k" and "now \<noteq> 0"
  shows "animatePanel present now panel a b True =
           Inr (map (easedCall panel a b) [1..<10]
                @ [Call panel (if b = 0 then Collapse else Resize b), Complete])
         \<and> length (map (easedCall panel a b) [1..<10]
                @ [Call panel (if b = 0 then Collapse else Resize b)]) = 10
         \<and> easedCall panel a b 10 = Call panel (Resize b)
         \<and> (\<forall>k. easedCall panel a b k =
                  Call panel (Resize (a + (b - a) * eased (real k / real steps))))
         \<and> (\<forall>p. eased p = (if p < 1 / 2 then 4 * p ^ 3 else 1 - (- 2 * p + 2) ^ 3 / 2))"
proof -
  have run: "animate present now panel a b True 0 =
     Inr (map (easedCall panel a b) [Suc 0..<10]
          @ [Call panel (if b = 0 then Collapse else Resize b)]
          @ (if True then [Complete] else []))"
    by (rule animate_run) (use assms in auto)
  have first: "present 1" using assms(1)[of 1] by simp
  have f1: "animatePanel present now panel a b True =
           Inr (map (easedCall panel a b) [1..<10]
                @ [Call panel (if b = 0 then Collapse else Resize b), Complete])"
    using run first by (simp add: animatePanel_def)
  have f2: "length (map (easedCall panel a b) [1..<10]
                @ [Call panel (if b = 0 then Collapse else Resize b)]) = 10"
    by simp
  have f3: "easedCall panel a b 10 = Call panel (Resize b)"
    by (simp add: easedCall_def eased_def)
  have f4: "\<forall>k. easedCall panel a b k =
                  Call panel (Resize (a + (b - a) * eased (real k / real steps)))"
    by (simp add: easedCall_def steps_def)
  have f5: "\<forall>p. eased p = (if p < 1 / 2 then 4 * p ^ 3 else 1 - (- 2 * p + 2) ^ 3 / 2)"
    by (simp add: eased_def power3_eq_cube mult.assoc)
  from f1 f2 f3 f4 f5 show ?thesis by blast
qed

theorem animatePanel_ten_updates_witness:
  "animatePanel mounted 1 Left 20 0 True =
     Inr (map (easedCall Left 20 0) [1..<10] @ [Call Left Collapse, Complete])
   \<and> animatePanel mounted 1 Left 0 20 True =
     Inr (map (easedCall Left 0 20) [1..<10] @ [Call Left (Resize 20), Complete])"
  using animatePanel_ten_updates[of mounted 1 Left 20 0]
        animatePanel_ten_updates[of mounted 1 Left 0 20]
  by (simp add: mounted_def)

text \<open>
  Claim C8. If the handle is there for the first \<open>k - 1\<close> steps of a run and gone at
  step \<open>k\<close>, the run makes the eased calls of those \<open>k - 1\<close> steps and stops: no
  further call, no exception (the result is a trace, not \<open>TypeError\<close>), and no
  completion callback, whatever becomes of the handle afterwards.
\<close>

theorem animatePanel_stops_silently:
  assumes "1 \<le> k" and "k \<le> 10"
      and "\<And>j. 1 \<le> j \<Longrightarrow> j < k \<Longrightarrow> present j"
      and "\<not> present k"
  shows "animatePanel present now panel a b oc =
           Inr (if now = 0 then [] else map (easedCall panel a b) [1..<k])
         \<and> Complete \<notin> set (if now = 0 then [] else map (easedCall panel a b) [1..<k])
         \<and> length (if now = 0 then [] else map (easedCall panel a b) [1..<k]) \<le> k - 1"
proof -
  have res: "animatePanel present now panel a b oc =
           Inr (if now = 0 then [] else map (easedCall panel a b) [1..<k])"
  proof (cases "now = 0")
    case True
    have "animate present now panel a b oc 0 = Inr []"
      by (subst animate.simps) (simp add: True)
    then show ?thesis using True
      by (simp add: animatePanel_def)
  next
    case False
    show ?thesis
    proof (cases "k = 1")
      case True
      then show ?thesis using assms(4) by (simp add: animatePanel_def)
    next
      case k1: False
      have "animate present now panel a b oc 0 = Inr (map (easedCall panel a b) [Suc 0..<k])"
        by (rule animate_stop) (use assms False in auto)
      moreover have "present 1" using assms(1) assms(3)[of 1] k1 by simp
      ultimately show ?thesis using False by (simp add: animatePanel_def)
    qed
  qed
  moreover have "Complete \<notin> set (map (easedCall panel a b) [1..<k])"
    by (auto simp: easedCall_def)
  ultimately show ?thesis by simp
qed

theorem animatePanel_stops_silently_witness:
  "animatePanel (unmountedAt 4) 1 Left 20 0 True =
     Inr [easedCall Left 20 0 1, easedCall Left 20 0 2, easedCall Left 20 0 3]"
proof -
  have "[1..<4] = [1, 2, 3::nat]" by code_simp
  then show ?thesis
    using animatePanel_stops_silently[of 4 "unmountedAt 4" 1 Left 20 0 True]
    by (simp add: unmountedAt_def)
qed

section \<open>Collapse and redistribution\<close>

text \<open>Sizes with at most three decimals pass \<open>round3\<close> unchanged; whole numbers do.\<close>

lemma round3_int [simp]: "round3 (real_of_int n) = real_of_int n"
proof -
  have "\<lfloor>real_of_int n * 1000 + 1 / 2\<rfloor> = n * 1000"
    by linarith
  then show ?thesis by (simp add: round3_def)
qed

lemma round3_samples: "round3 20 = 20" "round3 60 = 60" "round3 0 = 0" "round3 30 = 30"
  by (simp_all add: round3_def)

text \<open>Two shares of a positive total, scaled to 100, add up to 100.\<close>

lemma share_sum:
  fixes x y :: real
  assumes "x + y > 0"
  shows "x / (x + y) * 100 + y / (x + y) * 100 = 100"
proof -
  have "x / (x + y) * 100 + y / (x + y) * 100 = (x + y) / (x + y) * 100"
    by (simp only: add_divide_distrib distrib_right)
  also have "\<dots> = 100" using assms by simp
  finally show ?thesis .
qed

lemma share_sum_norm:
  fixes x y :: real
  assumes "x + y > 0"
  shows "x * 100 / (x + y) + y * 100 / (x + y) = 100"
  using share_sum[OF assms] by simp

text \<open>The calls of a trace, region by region.\<close>

lemma callsOn_append: "callsOn r (xs @ ys) = callsOn r xs @ callsOn r ys"
  by (induction r xs rule: callsOn.induct) simp_all

lemma callsOn_eased:
  "callsOn r (map (easedCall p a b) ks) =
     (if p = r then map (\<lambda>k. Resize (a + (b - a) * eased (real k / 10))) ks else [])"
  by (induction ks) (auto simp: easedCall_def)

lemma upt_1_10: "[1..<10] = [1, 2, 3, 4, 5, 6, 7, 8, 9::nat]"
  by code_simp

text \<open>Collapse in ConfigurablePanelLayout.tsx, for every region \<open>r\<close> and every other
  region \<open>q\<close>.\<close>

text \<open>The two regions other than a given one.\<close>

lemma all_others:
  "(\<forall>p. p \<noteq> Left \<longrightarrow> P p) \<longleftrightarrow> P Middle \<and> P Right"
  "(\<forall>p. p \<noteq> Middle \<longrightarrow> P p) \<longleftrightarrow> P Left \<and> P Right"
  "(\<forall>p. p \<noteq> Right \<longrightarrow> P p) \<longleftrightarrow> P Left \<and> P Middle"
proof -
  show "(\<forall>p. p \<noteq> Left \<longrightarrow> P p) \<longleftrightarrow> P Middle \<and> P Right"
    by (metis Region.exhaust Region.distinct(2) Region.distinct(4))
  show "(\<forall>p. p \<noteq> Middle \<longrightarrow> P p) \<longleftrightarrow> P Left \<and> P Right"
    by (metis Region.exhaust Region.distinct(2) Region.distinct(6))
  show "(\<forall>p. p \<noteq> Right \<longrightarrow> P p) \<longleftrightarrow> P Left \<and> P Middle"
    by (metis Region.exhaust Region.distinct(4) Region.distinct(6))
qed

lemma CPL_collapse_shares:
  assumes "\<not> animatingOf r s" and "\<not> isDragging s" and "collapsibleOf r props"
      and mounted: "\<And>p k. 1 \<le> k \<Longrightarrow> k \<le> 10 \<Longrightarrow> handles env p k"
      and "q \<noteq> r"
  defines "rem \<equiv> actualSizeOf env s Left + actualSizeOf env s Middle + actualSizeOf env s Right
                   - actualSizeOf env s r"
  shows "\<exists>s' tr. CPL_handleCollapse r props env s = Inr (s', tr) \<and>
           sizeOf r s' = 0 \<and> collapsedOf r s' \<and>
           (rem > 0 \<longrightarrow>
              sizeOf q s' = actualSizeOf env s q / rem * 100 \<and>
              sizeOf Left s' + sizeOf Middle s' + sizeOf Right s' = 100) \<and>
           (\<not> rem > 0 \<and> (\<forall>p. p \<noteq> r \<longrightarrow> isActiveOf p props) \<longrightarrow>
              sizeOf q s' = 50 \<and>
              sizeOf Left s' + sizeOf Middle s' + sizeOf Right s' = 100) \<and>
           \<not> animatingOf Left s' \<and> \<not> animatingOf Middle s' \<and> \<not> animatingOf Right s' \<and>
           Call r Collapse \<in> set tr \<and>
           Call q (if sizeOf q s' = 0 then Collapse else Resize (sizeOf q s')) \<in> set tr"
proof -
  note defs = CPL_handleCollapse_def sizeOf_def collapsedOf_def animatingOf_def isActiveOf_def
    collapsibleOf_def actualSizeOf_def layoutIndex_def Let_def finalCalls_def
    animateMultiplePanels_run all_others
  have m1: "handles env p 1" and m10: "handles env p 10" for p
    using mounted[of 1 p] mounted[of 10 p] by simp_all
  show ?thesis
  proof (cases r)
    case Left
    show ?thesis
    proof (cases q)
      case Left then show ?thesis using \<open>q \<noteq> r\<close> \<open>r = Left\<close> by simp
    next
      case Middle
      show ?thesis
        using assms(1-3) m1 m10 unfolding rem_def \<open>r = Left\<close> \<open>q = Middle\<close>
        by (simp add: defs CPL_handleLeftCollapse_def CPL_handleLeftCollapse_begin_def share_sum_norm)
    next
      case Right
      show ?thesis
        using assms(1-3) m1 m10 unfolding rem_def \<open>r = Left\<close> \<open>q = Right\<close>
        by (simp add: defs CPL_handleLeftCollapse_def CPL_handleLeftCollapse_begin_def share_sum_norm)
    qed
  next
    case Middle
    show ?thesis
    proof (cases q)
      case Middle then show ?thesis using \<open>q \<noteq> r\<close> \<open>r = Middle\<close> by simp
    next
      case Left
      show ?thesis
        using assms(1-3) m1 m10 unfolding rem_def \<open>r = Middle\<close> \<open>q = Left\<close>
        by (simp add: defs CPL_handleMiddleCollapse_def CPL_handleMiddleCollapse_begin_def share_sum_norm)
    next
      case Right
      show ?thesis
        using assms(1-3) m1 m10 unfolding rem_def \<open>r = Middle\<close> \<open>q = Right\<close>
        by (simp add: defs CPL_handleMiddleCollapse_def CPL_handleMiddleCollapse_begin_def share_sum_norm)
    qed
  next
    case Right
    show ?thesis
    proof (cases q)
      case Right then show ?thesis using \<open>q \<noteq> r\<close> \<open>r = Right\<close> by simp
    next
      case Left
      show ?thesis
        using assms(1-3) m1 m10 unfolding rem_def \<open>r = Right\<close> \<open>q = Left\<close>
        by (simp add: defs CPL_handleRightCollapse_def CPL_handleRightCollapse_begin_def share_sum_norm)
    next
      case Middle
      show ?thesis
        using assms(1-3) m1 m10 unfolding rem_def \<open>r = Right\<close> \<open>q = Middle\<close>
        by (simp add: defs CPL_handleRightCollapse_def CPL_handleRightCollapse_begin_def share_sum_norm)
    qed
  qed
qed

text \<open>\<open>animatePanel\<close> calls no handle but its own, so a collapse in ThreePanelLayout
  and in unnamed/part_005 leaves the other panels to the panel group.\<close>

lemma animate_calls_own_handle:
  "q \<noteq> panel \<Longrightarrow> animate present st panel f t oc c = Inr tr \<Longrightarrow> callsOn q tr = []"
proof (induction present st panel f t oc c arbitrary: tr rule: animate.induct)
  case (1 present startTime panel fromSize toSize onComplete currentStep)
  note q = "1.prems"(1) and run = "1.prems"(2)
  show ?case
  proof (cases "\<not> present (Suc currentStep) \<or> startTime = 0")
    case True
    with run show ?thesis
      by (subst (asm) animate.simps) auto
  next
    case False
    show ?thesis
    proof (cases "real (Suc currentStep) / real steps \<ge> 1")
      case True
      with False run q show ?thesis
        by (subst (asm) animate.simps) (auto simp: invoke_def thenE_def split: if_splits)
    next
      case np: False
      obtain tr' where r: "animate present startTime panel fromSize toSize onComplete (Suc currentStep) = Inr tr'"
        using animate_no_throw by blast
      have "callsOn q tr' = []"
        using "1.IH"[OF False refl np q r] .
      moreover have "tr = Call panel (Resize (fromSize + (toSize - fromSize) *
                        eased (real (Suc currentStep) / real steps))) # tr'"
        using run False np r
        by (subst (asm) animate.simps) (simp add: invoke_def thenE_def)
      ultimately show ?thesis using q by simp
    qed
  qed
qed

lemma animatePanel_calls_own_handle:
  assumes "animatePanel present now panel f t oc = Inr tr" and "q \<noteq> panel"
  shows "callsOn q tr = []"
  using assms animate_calls_own_handle[of q panel present now f t oc 0 tr]
  by (auto simp: animatePanel_def split: if_splits)

lemma TPL_collapse_left_alone:
  "\<exists>u' tr. TPL_handleLeftCollapse tprops env u = Inr (u', tr) \<and>
      rightSize u' = rightSize u \<and> callsOn Middle tr = [] \<and> callsOn Right tr = []"
proof -
  obtain tr where r: "animatePanel (handles env Left) (clock env) Left
      (round3 (layoutAt (getLayout env) 0 (leftSize u))) 0 True = Inr tr"
    using animatePanel_no_throw by blast
  have "callsOn Middle tr = []" "callsOn Right tr = []"
    using animatePanel_calls_own_handle[OF r] by simp_all
  with r show ?thesis
    by (simp add: TPL_handleLeftCollapse_def TPL_handleLeftCollapse_begin_def Let_def)
qed

lemma TPL_collapse_right_alone:
  "\<exists>u' tr. TPL_handleRightCollapse tprops env u = Inr (u', tr) \<and>
      leftSize u' = leftSize u \<and> callsOn Left tr = [] \<and> callsOn Middle tr = []"
proof -
  obtain tr where r: "animatePanel (handles env Right) (clock env) Right
      (round3 (layoutAt (getLayout env) 2 (rightSize u))) 0 True = Inr tr"
    using animatePanel_no_throw by blast
  have "callsOn Middle tr = []" "callsOn Left tr = []"
    using animatePanel_calls_own_handle[OF r] by simp_all
  with r show ?thesis
    by (simp add: TPL_handleRightCollapse_def TPL_handleRightCollapse_begin_def Let_def)
qed

lemma P5_collapse_alone:
  assumes "q \<noteq> r"
  shows "\<exists>s' tr. P5_handleCollapse r props env s = Inr (s', tr) \<and>
           sizeOf q s' = sizeOf q s \<and> callsOn q tr = []"
proof -
  obtain tr where c: "animatePanel (handles env r) (clock env) r
      (round3 (layoutAt (getLayout env) (layoutIndex r) (sizeOf r s))) 0 True = Inr tr"
    using animatePanel_no_throw by blast
  have "callsOn q tr = []"
    using animatePanel_calls_own_handle[OF c assms] .
  with c assms show ?thesis
    by (cases r; cases q;
        simp add: sizeOf_def layoutIndex_def P5_handleCollapse_def Let_def
          P5_handleLeftCollapse_def P5_handleLeftCollapse_begin_def
          P5_handleMiddleCollapse_def P5_handleMiddleCollapse_begin_def
          P5_handleRightCollapse_def P5_handleRightCollapse_begin_def)
qed

text \<open>
  Claim C1, as amended. In ConfigurablePanelLayout.tsx, an accepted collapse of region
  \<open>r\<close> whose handles stay mounted settles \<open>r\<close> at \<open>0\<close>. Let \<open>rem\<close> be the sum of the
  two other regions' sizes as read from the panel group. When \<open>rem\<close> is positive, every
  other region \<open>q\<close> settles at \<open>actual q / rem * 100\<close> and the three settled sizes add
  up to 100. When \<open>rem\<close> is not positive and both other regions are active, the
  fallback is the equal split, 50 each, which again adds up to 100. The trace holds
  \<open>collapse()\<close> on \<open>r\<close>'s handle and the resize of \<open>q\<close> to its settled size.
  ThreePanelLayout and unnamed/part_005 redistribute nothing: a collapse there makes no
  call on the handle of another region and leaves that region's size cell as it was.
\<close>

theorem CPL_collapse_redistributes:
  assumes "\<not> animatingOf r s" and "\<not> isDragging s" and "collapsibleOf r props"
      and mounted: "\<And>p k. 1 \<le> k \<Longrightarrow> k \<le> 10 \<Longrightarrow> handles env p k"
      and "q \<noteq> r"
  defines "rem \<equiv> actualSizeOf env s Left + actualSizeOf env s Middle + actualSizeOf env s Right
                   - actualSizeOf env s r"
  shows "(\<exists>s' tr. CPL_handleCollapse r props env s = Inr (s', tr) \<and>
           sizeOf r s' = 0 \<and> collapsedOf r s' \<and>
           (rem > 0 \<longrightarrow>
              sizeOf q s' = actualSizeOf env s q / rem * 100 \<and>
              sizeOf Left s' + sizeOf Middle s' + sizeOf Right s' = 100) \<and>
           (\<not> rem > 0 \<and> (\<forall>p. p \<noteq> r \<longrightarrow> isActiveOf p props) \<longrightarrow>
              sizeOf q s' = 50 \<and>
              sizeOf Left s' + sizeOf Middle s' + sizeOf Right s' = 100) \<and>
           \<not> animatingOf Left s' \<and> \<not> animatingOf Middle s' \<and> \<not> animatingOf Right s' \<and>
           Call r Collapse \<in> set tr \<and>
           Call q (if sizeOf q s' = 0 then Collapse else Resize (sizeOf q s')) \<in> set tr)
       \<and> (\<exists>s' tr. P5_handleCollapse r props env s = Inr (s', tr) \<and>
              sizeOf q s' = sizeOf q s \<and> callsOn q tr = [])
       \<and> (\<exists>u' tr. TPL_handleLeftCollapse tprops env u = Inr (u', tr) \<and>
              rightSize u' = rightSize u \<and> callsOn Middle tr = [] \<and> callsOn Right tr = [])
       \<and> (\<exists>u' tr. TPL_handleRightCollapse tprops env u = Inr (u', tr) \<and>
              leftSize u' = leftSize u \<and> callsOn Left tr = [] \<and> callsOn Middle tr = [])"
  using CPL_collapse_shares[OF assms(1-3) mounted assms(5)]
    P5_collapse_alone[OF assms(5), of props env s]
    TPL_collapse_left_alone[of tprops env u] TPL_collapse_right_alone[of tprops env u]
  unfolding rem_def by blast

text \<open>From 20/60/20, collapsing left settles ConfigurablePanelLayout.tsx at 0/75/25; from
  100/0/0 with all three slots active, at 0/50/50.\<close>

lemma sample_actual:
  "actualSizeOf sampleEnv (CPL_init sampleCPL) Left = 20"
  "actualSizeOf sampleEnv (CPL_init sampleCPL) Middle = 60"
  "actualSizeOf sampleEnv (CPL_init sampleCPL) Right = 20"
  by (simp_all add: actualSizeOf_def sampleEnv_def layoutAt_def layoutIndex_def round3_samples)

lemma sample_actual_leftOnly:
  "actualSizeOf (sampleEnv_at [100, 0, 0]) (CPL_init sampleCPL) Left = 100"
  "actualSizeOf (sampleEnv_at [100, 0, 0]) (CPL_init sampleCPL) Middle = 0"
  "actualSizeOf (sampleEnv_at [100, 0, 0]) (CPL_init sampleCPL) Right = 0"
  by (simp_all add: actualSizeOf_def sampleEnv_at_def layoutAt_def layoutIndex_def round3_def)

theorem CPL_collapse_redistributes_witness:
  "(\<exists>s' tr. CPL_handleCollapse Left sampleCPL sampleEnv (CPL_init sampleCPL) = Inr (s', tr) \<and>
      sizeOf Left s' = 0 \<and> sizeOf Middle s' = 75 \<and> sizeOf Right s' = 25)
   \<and> (\<exists>s' tr. CPL_handleCollapse Left sampleCPL (sampleEnv_at [100, 0, 0]) (CPL_init sampleCPL) = Inr (s', tr) \<and>
      sizeOf Left s' = 0 \<and> sizeOf Middle s' = 50 \<and>
      sizeOf Left s' + sizeOf Middle s' + sizeOf Right s' = 100)"
proof -
  have g: "\<not> animatingOf Left (CPL_init sampleCPL)" "\<not> isDragging (CPL_init sampleCPL)"
    "collapsibleOf Left sampleCPL"
    by (simp_all add: animatingOf_def CPL_init_def collapsibleOf_def sampleCPL_def)
  have m: "\<And>p k. 1 \<le> k \<Longrightarrow> k \<le> 10 \<Longrightarrow> handles sampleEnv p k"
    by (simp add: sampleEnv_def allMounted_def)
  have m': "\<And>p k. 1 \<le> k \<Longrightarrow> k \<le> 10 \<Longrightarrow> handles (sampleEnv_at [100, 0, 0]) p k"
    by (simp add: sampleEnv_at_def allMounted_def)
  have act: "\<forall>p. p \<noteq> Left \<longrightarrow> isActiveOf p sampleCPL"
    by (simp add: all_others isActiveOf_def sampleCPL_def)
  from CPL_collapse_redistributes[OF g m, of Middle, THEN conjunct1]
  obtain s' tr where a: "CPL_handleCollapse Left sampleCPL sampleEnv (CPL_init sampleCPL) = Inr (s', tr)"
    "sizeOf Left s' = 0" "sizeOf Middle s' = 75"
    by (auto simp: sample_actual)
  from CPL_collapse_redistributes[OF g m, of Right, THEN conjunct1]
  obtain s'' tr' where b: "CPL_handleCollapse Left sampleCPL sampleEnv (CPL_init sampleCPL) = Inr (s'', tr')"
    "sizeOf Right s'' = 25"
    by (auto simp: sample_actual)
  from a(1) b(1) have "s'' = s'" by simp
  with a b have first: "\<exists>s' tr. CPL_handleCollapse Left sampleCPL sampleEnv (CPL_init sampleCPL) = Inr (s', tr) \<and>
      sizeOf Left s' = 0 \<and> sizeOf Middle s' = 75 \<and> sizeOf Right s' = 25"
    by blast
  from CPL_collapse_redistributes[OF g m', of Middle, THEN conjunct1] act
  have second: "\<exists>s' tr. CPL_handleCollapse Left sampleCPL (sampleEnv_at [100, 0, 0]) (CPL_init sampleCPL) = Inr (s', tr) \<and>
      sizeOf Left s' = 0 \<and> sizeOf Middle s' = 50 \<and>
      sizeOf Left s' + sizeOf Middle s' + sizeOf Right s' = 100"
    by (auto simp: sample_actual_leftOnly)
  from first second show ?thesis by blast
qed

text \<open>
  ThreePanelLayout from 20/60/20: collapsing left drives the left handle alone. No call
  goes to the middle or the right handle, \<open>rightSize\<close> stays \<open>20\<close>, and the sizes the
  component reports are 0/80/20, not 0/75/25. ConfigurablePanelLayout.tsx with the left
  and the middle slot in use, the middle panel collapsed and the layout 100/0/0:
  collapsing left gives the middle region, the only other active one, the fallback
  \<open>50\<close>, so the row settles at 0/50/0 and not at an equal split of 100 among the
  active regions.
\<close>

lemma TPL_sample_collapse_left:
  "TPL_handleLeftCollapse sampleTPL sampleEnv (TPL_init sampleTPL) =
     Inr (sampleTPL_leftCollapsed,
          Scheduled Left # map (easedCall Left 20 0) [1..<10] @ [Call Left Collapse, Complete])"
proof -
  have "animatePanel (handles sampleEnv Left) (clock sampleEnv) Left 20 0 True =
          Inr (map (easedCall Left 20 0) [1..<10] @ [Call Left Collapse, Complete])"
    using animatePanel_run[of "handles sampleEnv Left" "clock sampleEnv" Left 20 0 True]
    by (simp add: sampleEnv_def allMounted_def)
  then show ?thesis
    by (simp add: TPL_handleLeftCollapse_def TPL_handleLeftCollapse_begin_def TPL_init_def
        sampleTPL_def sampleTPL_leftCollapsed_def layoutAt_def round3_samples sampleEnv_def)
qed

lemma CPL_sample_fallback_one_active:
  "\<exists>s' tr. CPL_handleLeftCollapse sampleCPL_twoSlots (sampleEnv_at [100, 0, 0]) (CPL_init sampleCPL_twoSlots)
              = Inr (s', tr) \<and>
      leftSize s' = 0 \<and> middleSize s' = 50 \<and> rightSize s' = 0 \<and>
      Call Middle (Resize 50) \<in> set tr"
  by (simp add: CPL_handleLeftCollapse_def CPL_handleLeftCollapse_begin_def CPL_init_def
        sampleCPL_twoSlots_def sampleEnv_at_def layoutAt_def round3_def Let_def
        animateMultiplePanels_run finalCalls_def allMounted_def)

theorem collapse_not_always_proportional:
  "TPL_handleLeftCollapse sampleTPL sampleEnv (TPL_init sampleTPL) =
     Inr (sampleTPL_leftCollapsed,
          Scheduled Left # map (easedCall Left 20 0) [1..<10] @ [Call Left Collapse, Complete])
   \<and> callsOn Middle (map (easedCall Left 20 0) [1..<10] @ [Call Left Collapse, Complete]) = []
   \<and> callsOn Right (map (easedCall Left 20 0) [1..<10] @ [Call Left Collapse, Complete]) = []
   \<and> rightSize sampleTPL_leftCollapsed = 20
   \<and> TPL_handleDragEnd sampleTPL sampleTPL_leftCollapsed = Some \<lparr> left = 0, middle = 80, right = 20 \<rparr>
   \<and> TPL_handleDragEnd sampleTPL sampleTPL_leftCollapsed \<noteq> Some \<lparr> left = 0, middle = 75, right = 25 \<rparr>
   \<and> isMiddleActive sampleCPL_twoSlots \<and> \<not> isRightActive sampleCPL_twoSlots
   \<and> (\<exists>s' tr. CPL_handleLeftCollapse sampleCPL_twoSlots (sampleEnv_at [100, 0, 0])
                   (CPL_init sampleCPL_twoSlots) = Inr (s', tr) \<and>
         leftSize s' = 0 \<and> middleSize s' = 50 \<and> rightSize s' = 0 \<and>
         Call Middle (Resize 50) \<in> set tr)"
  using TPL_sample_collapse_left CPL_sample_fallback_one_active
  by (simp add: sampleTPL_leftCollapsed_def TPL_handleDragEnd_def sampleTPL_def
       callsOn_append callsOn_eased sampleCPL_twoSlots_def)

section \<open>Which toggles are rejected\<close>

text \<open>
  Every toggle handler tests three things in the state it reads: the animating flag of
  its own region, \<open>isDragging\<close>, and whether the region is collapsible. The handlers of
  ConfigurablePanelLayout.tsx set all three animating flags when they are accepted, those
  of unnamed/part_005 and of ThreePanelLayout only the flag of their own region.
\<close>

lemma P5_toggle_rejected:
  assumes "animatingOf r s \<or> isDragging s \<or> \<not> collapsibleOf r props"
  shows "P5_handleCollapse r props env s = Inr (s, [])"
    and "P5_handleExpand r props env s = Inr (s, [])"
  using assms
  by (cases r;
      simp add: animatingOf_def collapsibleOf_def P5_handleCollapse_def P5_handleExpand_def
        P5_handleLeftCollapse_def P5_handleLeftCollapse_begin_def
        P5_handleLeftExpand_def P5_handleLeftExpand_begin_def
        P5_handleMiddleCollapse_def P5_handleMiddleCollapse_begin_def
        P5_handleMiddleExpand_def P5_handleMiddleExpand_begin_def
        P5_handleRightCollapse_def P5_handleRightCollapse_begin_def
        P5_handleRightExpand_def P5_handleRightExpand_begin_def)+

lemma CPL_toggle_rejected:
  assumes "animatingOf r s \<or> isDragging s \<or> \<not> collapsibleOf r props"
  shows "CPL_handleCollapse r props env s = Inr (s, [])"
    and "CPL_handleExpand r props env s = Inr (s, [])"
  using assms
  by (cases r;
      simp add: animatingOf_def collapsibleOf_def CPL_handleCollapse_def CPL_handleExpand_def
        CPL_handleLeftCollapse_def CPL_handleLeftCollapse_begin_def
        CPL_handleLeftExpand_def CPL_handleLeftExpand_begin_def
        CPL_handleMiddleCollapse_def CPL_handleMiddleCollapse_begin_def
        CPL_handleMiddleExpand_def CPL_handleMiddleExpand_begin_def
        CPL_handleRightCollapse_def CPL_handleRightCollapse_begin_def
        CPL_handleRightExpand_def CPL_handleRightExpand_begin_def)+

lemma P5_toggle_accepted:
  assumes "\<not> animatingOf r s" "\<not> isDragging s" "collapsibleOf r props"
  shows "\<exists>s' tr. P5_handleCollapse r props env s = Inr (s', Scheduled r # tr) \<and> collapsedOf r s'"
    and "\<exists>s' tr. P5_handleExpand r props env s = Inr (s', Scheduled r # tr) \<and> \<not> collapsedOf r s'"
proof -
  obtain tr where c: "animatePanel (handles env r) (clock env) r
      (round3 (layoutAt (getLayout env) (layoutIndex r) (sizeOf r s))) 0 True = Inr tr"
    using animatePanel_no_throw by blast
  show "\<exists>s' tr. P5_handleCollapse r props env s = Inr (s', Scheduled r # tr) \<and> collapsedOf r s'"
    using assms c
    by (cases r;
        simp add: animatingOf_def collapsibleOf_def collapsedOf_def sizeOf_def layoutIndex_def
          P5_handleCollapse_def Let_def
          P5_handleLeftCollapse_def P5_handleLeftCollapse_begin_def
          P5_handleMiddleCollapse_def P5_handleMiddleCollapse_begin_def
          P5_handleRightCollapse_def P5_handleRightCollapse_begin_def)
  obtain tr where e: "animatePanel (handles env r) (clock env) r 0
      (orElse (lastExpandedSizeOf r s) (computedDefaultSizeOf r props)) True = Inr tr"
    using animatePanel_no_throw by blast
  show "\<exists>s' tr. P5_handleExpand r props env s = Inr (s', Scheduled r # tr) \<and> \<not> collapsedOf r s'"
    using assms e
    by (cases r;
        simp add: animatingOf_def collapsibleOf_def collapsedOf_def lastExpandedSizeOf_def
          computedDefaultSizeOf_def P5_handleExpand_def Let_def
          P5_handleLeftExpand_def P5_handleLeftExpand_begin_def
          P5_handleMiddleExpand_def P5_handleMiddleExpand_begin_def
          P5_handleRightExpand_def P5_handleRightExpand_begin_def)
qed

lemma CPL_toggle_accepted:
  assumes "\<not> animatingOf r s" "\<not> isDragging s" "collapsibleOf r props"
  shows "\<exists>s' tr. CPL_handleCollapse r props env s = Inr (s', Scheduled r # tr) \<and> collapsedOf r s'"
    and "\<exists>s' tr. CPL_handleExpand r props env s = Inr (s', Scheduled r # tr) \<and> \<not> collapsedOf r s'"
  using assms
  by (cases r;
      simp add: animatingOf_def collapsibleOf_def collapsedOf_def
        CPL_handleCollapse_def CPL_handleExpand_def Let_def animateMultiplePanels_run
        CPL_handleLeftCollapse_def CPL_handleLeftCollapse_begin_def
        CPL_handleLeftExpand_def CPL_handleLeftExpand_begin_def
        CPL_handleMiddleCollapse_def CPL_handleMiddleCollapse_begin_def
        CPL_handleMiddleExpand_def CPL_handleMiddleExpand_begin_def
        CPL_handleRightCollapse_def CPL_handleRightCollapse_begin_def
        CPL_handleRightExpand_def CPL_handleRightExpand_begin_def)+

lemma TPL_left_rejected:
  assumes "leftAnimating u \<or> isDragging u \<or> \<not> tpl_collapsible_left tprops"
  shows "TPL_handleLeftCollapse tprops env u = Inr (u, [])"
    and "TPL_handleLeftExpand tprops env u = Inr (u, [])"
  using assms
  by (auto simp: TPL_handleLeftCollapse_def TPL_handleLeftCollapse_begin_def
       TPL_handleLeftExpand_def TPL_handleLeftExpand_begin_def)

lemma TPL_right_rejected:
  assumes "rightAnimating u \<or> isDragging u \<or> \<not> tpl_collapsible_right tprops"
  shows "TPL_handleRightCollapse tprops env u = Inr (u, [])"
    and "TPL_handleRightExpand tprops env u = Inr (u, [])"
  using assms
  by (auto simp: TPL_handleRightCollapse_def TPL_handleRightCollapse_begin_def
       TPL_handleRightExpand_def TPL_handleRightExpand_begin_def)

lemma TPL_left_accepted:
  assumes "\<not> leftAnimating u" "\<not> isDragging u" "tpl_collapsible_left tprops"
  shows "\<exists>u' tr. TPL_handleLeftCollapse tprops env u = Inr (u', Scheduled Left # tr) \<and> leftCollapsed u'"
    and "\<exists>u' tr. TPL_handleLeftExpand tprops env u = Inr (u', Scheduled Left # tr) \<and> \<not> leftCollapsed u'"
proof -
  obtain tr where "animatePanel (handles env Left) (clock env) Left
      (round3 (layoutAt (getLayout env) 0 (leftSize u))) 0 True = Inr tr"
    using animatePanel_no_throw by blast
  then show "\<exists>u' tr. TPL_handleLeftCollapse tprops env u = Inr (u', Scheduled Left # tr) \<and> leftCollapsed u'"
    using assms
    by (simp add: TPL_handleLeftCollapse_def TPL_handleLeftCollapse_begin_def Let_def)
  obtain tr where "animatePanel (handles env Left) (clock env) Left 0 (tpl_default_left tprops) True = Inr tr"
    using animatePanel_no_throw by blast
  then show "\<exists>u' tr. TPL_handleLeftExpand tprops env u = Inr (u', Scheduled Left # tr) \<and> \<not> leftCollapsed u'"
    using assms
    by (simp add: TPL_handleLeftExpand_def TPL_handleLeftExpand_begin_def Let_def)
qed

lemma TPL_right_accepted:
  assumes "\<not> rightAnimating u" "\<not> isDragging u" "tpl_collapsible_right tprops"
  shows "\<exists>u' tr. TPL_handleRightCollapse tprops env u = Inr (u', Scheduled Right # tr) \<and> rightCollapsed u'"
    and "\<exists>u' tr. TPL_handleRightExpand tprops env u = Inr (u', Scheduled Right # tr) \<and> \<not> rightCollapsed u'"
proof -
  obtain tr where "animatePanel (handles env Right) (clock env) Right
      (round3 (layoutAt (getLayout env) 2 (rightSize u))) 0 True = Inr tr"
    using animatePanel_no_throw by blast
  then show "\<exists>u' tr. TPL_handleRightCollapse tprops env u = Inr (u', Scheduled Right # tr) \<and> rightCollapsed u'"
    using assms
    by (simp add: TPL_handleRightCollapse_def TPL_handleRightCollapse_begin_def Let_def)
  obtain tr where "animatePanel (handles env Right) (clock env) Right 0 (tpl_default_right tprops) True = Inr tr"
    using animatePanel_no_throw by blast
  then show "\<exists>u' tr. TPL_handleRightExpand tprops env u = Inr (u', Scheduled Right # tr) \<and> \<not> rightCollapsed u'"
    using assms
    by (simp add: TPL_handleRightExpand_def TPL_handleRightExpand_begin_def Let_def)
qed

text \<open>
  Claim C2, as amended. A collapse or expand handler of ThreePanelLayout and of either
  copy of ConfigurablePanelLayout is a no-op (the state unchanged, nothing scheduled)
  when, in the state it reads, the toggled region itself is animating, a drag is in
  progress or the region is not collapsible, and only then: otherwise it schedules a run
  and sets the region's collapsed flag, whatever the animating flags of the other regions
  are. The state \<open>s\<close>, \<open>u\<close> is the state of the render that created the handler.
\<close>

theorem toggle_rejected_by_own_guard:
  "(animatingOf r s \<or> isDragging s \<or> \<not> collapsibleOf r props \<longrightarrow>
        P5_handleCollapse r props env s = Inr (s, []) \<and>
        P5_handleExpand r props env s = Inr (s, []) \<and>
        CPL_handleCollapse r props env s = Inr (s, []) \<and>
        CPL_handleExpand r props env s = Inr (s, []))
   \<and> (\<not> animatingOf r s \<and> \<not> isDragging s \<and> collapsibleOf r props \<longrightarrow>
        (\<exists>s' tr. P5_handleCollapse r props env s = Inr (s', Scheduled r # tr) \<and> collapsedOf r s') \<and>
        (\<exists>s' tr. P5_handleExpand r props env s = Inr (s', Scheduled r # tr) \<and> \<not> collapsedOf r s') \<and>
        (\<exists>s' tr. CPL_handleCollapse r props env s = Inr (s', Scheduled r # tr) \<and> collapsedOf r s') \<and>
        (\<exists>s' tr. CPL_handleExpand r props env s = Inr (s', Scheduled r # tr) \<and> \<not> collapsedOf r s'))
   \<and> (leftAnimating u \<or> isDragging u \<or> \<not> tpl_collapsible_left tprops \<longrightarrow>
        TPL_handleLeftCollapse tprops env u = Inr (u, []) \<and>
        TPL_handleLeftExpand tprops env u = Inr (u, []))
   \<and> (rightAnimating u \<or> isDragging u \<or> \<not> tpl_collapsible_right tprops \<longrightarrow>
        TPL_handleRightCollapse tprops env u = Inr (u, []) \<and>
        TPL_handleRightExpand tprops env u = Inr (u, []))
   \<and> (\<not> leftAnimating u \<and> \<not> isDragging u \<and> tpl_collapsible_left tprops \<longrightarrow>
        (\<exists>u' tr. TPL_handleLeftCollapse tprops env u = Inr (u', Scheduled Left # tr) \<and> leftCollapsed u') \<and>
        (\<exists>u' tr. TPL_handleLeftExpand tprops env u = Inr (u', Scheduled Left # tr) \<and> \<not> leftCollapsed u'))
   \<and> (\<not> rightAnimating u \<and> \<not> isDragging u \<and> tpl_collapsible_right tprops \<longrightarrow>
        (\<exists>u' tr. TPL_handleRightCollapse tprops env u = Inr (u', Scheduled Right # tr) \<and> rightCollapsed u') \<and>
        (\<exists>u' tr. TPL_handleRightExpand tprops env u = Inr (u', Scheduled Right # tr) \<and> \<not> rightCollapsed u'))"
  by (intro conjI impI; (elim conjE)?;
      (rule P5_toggle_rejected CPL_toggle_rejected P5_toggle_accepted CPL_toggle_accepted
            TPL_left_rejected TPL_right_rejected TPL_left_accepted TPL_right_accepted;
       assumption))

text \<open>The handlers of a render made while the right panel is being collapsed: in
  unnamed/part_005 and in ThreePanelLayout the expand of the right panel returns at once
  and the collapse of the left panel is accepted. In ConfigurablePanelLayout.tsx the
  expand of the left panel returns at once in a state whose left flag is set, and the
  collapse of the left panel is accepted in the initial state.\<close>

theorem toggle_rejected_by_own_guard_witness:
  "animatingOf Right sampleP5_rightRunning
   \<and> P5_handleExpand Right sampleCPL sampleEnv sampleP5_rightRunning = Inr (sampleP5_rightRunning, [])
   \<and> (\<exists>s' tr. P5_handleCollapse Left sampleCPL sampleEnv sampleP5_rightRunning
                 = Inr (s', Scheduled Left # tr) \<and> collapsedOf Left s')
   \<and> animatingOf Left sampleCPL_leftRunning
   \<and> CPL_handleExpand Left sampleCPL sampleEnv sampleCPL_leftRunning = Inr (sampleCPL_leftRunning, [])
   \<and> (\<exists>s' tr. CPL_handleCollapse Left sampleCPL sampleEnv (CPL_init sampleCPL)
                 = Inr (s', Scheduled Left # tr) \<and> collapsedOf Left s')
   \<and> rightAnimating sampleTPL_rightRunning
   \<and> TPL_handleRightExpand sampleTPL sampleEnv sampleTPL_rightRunning = Inr (sampleTPL_rightRunning, [])
   \<and> (\<exists>u' tr. TPL_handleLeftCollapse sampleTPL sampleEnv sampleTPL_rightRunning
                 = Inr (u', Scheduled Left # tr) \<and> leftCollapsed u')"
proof -
  have p: "animatingOf Right sampleP5_rightRunning" "\<not> animatingOf Left sampleP5_rightRunning"
    "\<not> isDragging sampleP5_rightRunning" "collapsibleOf Left sampleCPL"
    by (simp_all add: sampleP5_rightRunning_def CPL_init_def animatingOf_def collapsibleOf_def
          sampleCPL_def)
  have c: "animatingOf Left sampleCPL_leftRunning" "\<not> animatingOf Left (CPL_init sampleCPL)"
    "\<not> isDragging (CPL_init sampleCPL)"
    by (simp_all add: sampleCPL_leftRunning_def CPL_init_def animatingOf_def)
  have g: "rightAnimating sampleTPL_rightRunning" "\<not> leftAnimating sampleTPL_rightRunning"
    "\<not> isDragging sampleTPL_rightRunning" "tpl_collapsible_left sampleTPL"
    by (simp_all add: sampleTPL_rightRunning_def sampleTPL_def)
  show ?thesis
    using toggle_rejected_by_own_guard[of Right sampleP5_rightRunning sampleCPL sampleEnv
        sampleTPL_rightRunning sampleTPL]
      toggle_rejected_by_own_guard[of Left sampleP5_rightRunning sampleCPL sampleEnv
        sampleTPL_rightRunning sampleTPL]
      toggle_rejected_by_own_guard[of Left sampleCPL_leftRunning sampleCPL sampleEnv
        sampleTPL_rightRunning sampleTPL]
      toggle_rejected_by_own_guard[of Left "CPL_init sampleCPL" sampleCPL sampleEnv
        sampleTPL_rightRunning sampleTPL] p c g
    by simp
qed

text \<open>
  ThreePanelLayout while its right panel is being collapsed (\<open>rightAnimating\<close> is set,
  the run has not completed): a collapse of the left panel is accepted. It sets
  \<open>leftCollapsed\<close>, drives the left handle to \<open>0\<close> and completes.
\<close>

lemma TPL_sample_left_during_right:
  "TPL_handleLeftCollapse sampleTPL sampleEnv sampleTPL_rightRunning =
     Inr (sampleTPL_rightRunning\<lparr>leftCollapsed := True, leftSize := 0\<rparr>,
          Scheduled Left # map (easedCall Left 20 0) [1..<10] @ [Call Left Collapse, Complete])"
proof -
  have "animatePanel (handles sampleEnv Left) (clock sampleEnv) Left 20 0 True =
          Inr (map (easedCall Left 20 0) [1..<10] @ [Call Left Collapse, Complete])"
    using animatePanel_run[of "handles sampleEnv Left" "clock sampleEnv" Left 20 0 True]
    by (simp add: sampleEnv_def allMounted_def)
  then show ?thesis
    by (simp add: TPL_handleLeftCollapse_def TPL_handleLeftCollapse_begin_def
        sampleTPL_def sampleTPL_rightRunning_def layoutAt_def round3_samples sampleEnv_def)
qed

theorem TPL_toggle_during_other_animation:
  "TPL_handleRightCollapse_begin sampleTPL (TPL_init sampleTPL) = Some sampleTPL_rightRunning
   \<and> rightAnimating sampleTPL_rightRunning
   \<and> TPL_handleLeftCollapse sampleTPL sampleEnv sampleTPL_rightRunning =
       Inr (sampleTPL_rightRunning\<lparr>leftCollapsed := True, leftSize := 0\<rparr>,
            Scheduled Left # map (easedCall Left 20 0) [1..<10] @ [Call Left Collapse, Complete])
   \<and> TPL_handleLeftCollapse sampleTPL sampleEnv sampleTPL_rightRunning
       \<noteq> Inr (sampleTPL_rightRunning, [])"
  using TPL_sample_left_during_right
  by (simp add: TPL_handleRightCollapse_begin_def TPL_init_def sampleTPL_def
       sampleTPL_rightRunning_def)

section \<open>Collapse, then expand\<close>

text \<open>A completed collapse and a completed expand of one region, in the copy that
  animates one panel and in the copy that animates all three; then the two in sequence.\<close>

lemma P5_collapse_run:
  assumes "\<not> animatingOf r s" "\<not> isDragging s" "collapsibleOf r props"
      and m: "\<And>k. 1 \<le> k \<Longrightarrow> k \<le> 10 \<Longrightarrow> handles env r k" and c: "clock env \<noteq> 0"
  shows "\<exists>s1 tr1.
           P5_handleCollapse r props env s = Inr (s1, tr1) \<and>
           sizeOf r s1 = 0 \<and> collapsedOf r s1 \<and>
           lastExpandedSizeOf r s1 = lastExpandedSizeOf r s \<and>
           \<not> animatingOf r s1 \<and> \<not> isDragging s1 \<and>
           last (callsOn r tr1) = Collapse"
proof -
  note defs = animatingOf_def collapsibleOf_def collapsedOf_def sizeOf_def
        lastExpandedSizeOf_def computedDefaultSizeOf_def
        P5_handleCollapse_def Let_def callsOn_append callsOn_eased
  show ?thesis
  proof (cases r)
    case Left
    show ?thesis
      using assms(1-3) unfolding Left
      by (simp add: defs
            P5_handleLeftCollapse_def P5_handleLeftCollapse_begin_def
            animatePanel_run[of "handles env Left", OF m[unfolded Left] c])
  next
    case Middle
    show ?thesis
      using assms(1-3) unfolding Middle
      by (simp add: defs
            P5_handleMiddleCollapse_def P5_handleMiddleCollapse_begin_def
            animatePanel_run[of "handles env Middle", OF m[unfolded Middle] c])
  next
    case Right
    show ?thesis
      using assms(1-3) unfolding Right
      by (simp add: defs
            P5_handleRightCollapse_def P5_handleRightCollapse_begin_def
            animatePanel_run[of "handles env Right", OF m[unfolded Right] c])
  qed
qed

lemma P5_expand_run:
  assumes "\<not> animatingOf r s" "\<not> isDragging s" "collapsibleOf r props"
      and m: "\<And>k. 1 \<le> k \<Longrightarrow> k \<le> 10 \<Longrightarrow> handles env r k" and c: "clock env \<noteq> 0"
  defines "target \<equiv> (if lastExpandedSizeOf r s \<noteq> 0 then lastExpandedSizeOf r s
                        else computedDefaultSizeOf r props)"
  shows "\<exists>s2 tr2.
           P5_handleExpand r props env s = Inr (s2, tr2) \<and>
           sizeOf r s2 = target \<and> \<not> collapsedOf r s2 \<and>
           lastExpandedSizeOf r s2 = lastExpandedSizeOf r s \<and>
           last (callsOn r tr2) = (if target = 0 then Collapse else Resize target)"
proof -
  note defs = animatingOf_def collapsibleOf_def collapsedOf_def sizeOf_def
        lastExpandedSizeOf_def computedDefaultSizeOf_def
        P5_handleExpand_def Let_def callsOn_append callsOn_eased
  have t: "(if a \<noteq> 0 then a else b) = orElse a b" for a b
    by (simp add: orElse_def)
  show ?thesis
  proof (cases r)
    case Left
    show ?thesis
      using assms(1-3) unfolding target_def t Left
      by (simp add: defs
            P5_handleLeftExpand_def P5_handleLeftExpand_begin_def
            animatePanel_run[of "handles env Left", OF m[unfolded Left] c])
  next
    case Middle
    show ?thesis
      using assms(1-3) unfolding target_def t Middle
      by (simp add: defs
            P5_handleMiddleExpand_def P5_handleMiddleExpand_begin_def
            animatePanel_run[of "handles env Middle", OF m[unfolded Middle] c])
  next
    case Right
    show ?thesis
      using assms(1-3) unfolding target_def t Right
      by (simp add: defs
            P5_handleRightExpand_def P5_handleRightExpand_begin_def
            animatePanel_run[of "handles env Right", OF m[unfolded Right] c])
  qed
qed

lemma CPL_collapse_run:
  assumes "\<not> animatingOf r s" "\<not> isDragging s" "collapsibleOf r props"
      and m: "\<And>p k. 1 \<le> k \<Longrightarrow> k \<le> 10 \<Longrightarrow> handles env p k"
  shows "\<exists>s1 tr1.
           CPL_handleCollapse r props env s = Inr (s1, tr1) \<and>
           sizeOf r s1 = 0 \<and> collapsedOf r s1 \<and>
           lastExpandedSizeOf r s1 = lastExpandedSizeOf r s \<and>
           \<not> animatingOf r s1 \<and> \<not> isDragging s1 \<and>
           last (callsOn r tr1) = Collapse"
proof -
  note defs = animatingOf_def collapsibleOf_def collapsedOf_def sizeOf_def
        lastExpandedSizeOf_def computedDefaultSizeOf_def
        CPL_handleCollapse_def Let_def callsOn_append animateMultiplePanels_run finalCalls_def
  have a1: "handles env p 1" and a10: "handles env p 10" for p
    using m[of 1 p] m[of 10 p] by simp_all
  show ?thesis
  proof (cases r)
    case Left
    show ?thesis
      using assms(1-3) a1 a10 unfolding Left
      by (simp add: defs
            CPL_handleLeftCollapse_def CPL_handleLeftCollapse_begin_def)
  next
    case Middle
    show ?thesis
      using assms(1-3) a1 a10 unfolding Middle
      by (simp add: defs
            CPL_handleMiddleCollapse_def CPL_handleMiddleCollapse_begin_def)
  next
    case Right
    show ?thesis
      using assms(1-3) a1 a10 unfolding Right
      by (simp add: defs
            CPL_handleRightCollapse_def CPL_handleRightCollapse_begin_def)
  qed
qed

lemma CPL_expand_run:
  assumes "\<not> animatingOf r s" "\<not> isDragging s" "collapsibleOf r props"
      and m: "\<And>p k. 1 \<le> k \<Longrightarrow> k \<le> 10 \<Longrightarrow> handles env p k"
  defines "target \<equiv> (if lastExpandedSizeOf r s \<noteq> 0 then lastExpandedSizeOf r s
                        else computedDefaultSizeOf r props)"
  shows "\<exists>s2 tr2.
           CPL_handleExpand r props env s = Inr (s2, tr2) \<and>
           sizeOf r s2 = target \<and> \<not> collapsedOf r s2 \<and>
           lastExpandedSizeOf r s2 = lastExpandedSizeOf r s \<and>
           last (callsOn r tr2) = (if target = 0 then Collapse else Resize target)"
proof -
  note defs = animatingOf_def collapsibleOf_def collapsedOf_def sizeOf_def
        lastExpandedSizeOf_def computedDefaultSizeOf_def
        CPL_handleExpand_def Let_def callsOn_append animateMultiplePanels_run finalCalls_def
  have a1: "handles env p 1" and a10: "handles env p 10" for p
    using m[of 1 p] m[of 10 p] by simp_all
  have t: "(if a \<noteq> 0 then a else b) = orElse a b" for a b
    by (simp add: orElse_def)
  show ?thesis
  proof (cases r)
    case Left
    show ?thesis
      using assms(1-3) a1 a10 unfolding target_def t Left
      by (simp add: defs
            CPL_handleLeftExpand_def CPL_handleLeftExpand_begin_def)
  next
    case Middle
    show ?thesis
      using assms(1-3) a1 a10 unfolding target_def t Middle
      by (simp add: defs
            CPL_handleMiddleExpand_def CPL_handleMiddleExpand_begin_def)
  next
    case Right
    show ?thesis
      using assms(1-3) a1 a10 unfolding target_def t Right
      by (simp add: defs
            CPL_handleRightExpand_def CPL_handleRightExpand_begin_def)
  qed
qed


lemma P5_round_trip:
  assumes g: "\<not> animatingOf r s" "\<not> isDragging s" "collapsibleOf r props"
      and m1: "\<And>k. 1 \<le> k \<Longrightarrow> k \<le> 10 \<Longrightarrow> handles env1 r k" and c1: "clock env1 \<noteq> 0"
      and m2: "\<And>k. 1 \<le> k \<Longrightarrow> k \<le> 10 \<Longrightarrow> handles env2 r k" and c2: "clock env2 \<noteq> 0"
  defines "target \<equiv> (if lastExpandedSizeOf r s \<noteq> 0 then lastExpandedSizeOf r s
                        else computedDefaultSizeOf r props)"
  shows "\<exists>s1 tr1 s2 tr2.
           P5_handleCollapse r props env1 s = Inr (s1, tr1) \<and>
           sizeOf r s1 = 0 \<and> collapsedOf r s1 \<and>
           lastExpandedSizeOf r s1 = lastExpandedSizeOf r s \<and>
           last (callsOn r tr1) = Collapse \<and>
           P5_handleExpand r props env2 s1 = Inr (s2, tr2) \<and>
           sizeOf r s2 = target \<and> \<not> collapsedOf r s2 \<and>
           lastExpandedSizeOf r s2 = lastExpandedSizeOf r s \<and>
           last (callsOn r tr2) = (if target = 0 then Collapse else Resize target)"
proof -
  from P5_collapse_run[OF g m1 c1] obtain s1 tr1 where
    c: "P5_handleCollapse r props env1 s = Inr (s1, tr1)" "sizeOf r s1 = 0" "collapsedOf r s1"
       "lastExpandedSizeOf r s1 = lastExpandedSizeOf r s" "last (callsOn r tr1) = Collapse"
    and g1: "\<not> animatingOf r s1" "\<not> isDragging s1"
    by blast
  from P5_expand_run[OF g1 g(3) m2 c2] obtain s2 tr2 where
    e: "P5_handleExpand r props env2 s1 = Inr (s2, tr2)" "sizeOf r s2 = target"
       "\<not> collapsedOf r s2" "lastExpandedSizeOf r s2 = lastExpandedSizeOf r s"
       "last (callsOn r tr2) = (if target = 0 then Collapse else Resize target)"
    unfolding target_def c(4) by blast
  from c e show ?thesis by blast
qed

lemma CPL_round_trip:
  assumes g: "\<not> animatingOf r s" "\<not> isDragging s" "collapsibleOf r props"
      and m1: "\<And>p k. 1 \<le> k \<Longrightarrow> k \<le> 10 \<Longrightarrow> handles env1 p k"
      and m2: "\<And>p k. 1 \<le> k \<Longrightarrow> k \<le> 10 \<Longrightarrow> handles env2 p k"
  defines "target \<equiv> (if lastExpandedSizeOf r s \<noteq> 0 then lastExpandedSizeOf r s
                        else computedDefaultSizeOf r props)"
  shows "\<exists>s1 tr1 s2 tr2.
           CPL_handleCollapse r props env1 s = Inr (s1, tr1) \<and>
           sizeOf r s1 = 0 \<and> collapsedOf r s1 \<and>
           lastExpandedSizeOf r s1 = lastExpandedSizeOf r s \<and>
           last (callsOn r tr1) = Collapse \<and>
           CPL_handleExpand r props env2 s1 = Inr (s2, tr2) \<and>
           sizeOf r s2 = target \<and> \<not> collapsedOf r s2 \<and>
           lastExpandedSizeOf r s2 = lastExpandedSizeOf r s \<and>
           last (callsOn r tr2) = (if target = 0 then Collapse else Resize target)"
proof -
  from CPL_collapse_run[OF g m1] obtain s1 tr1 where
    c: "CPL_handleCollapse r props env1 s = Inr (s1, tr1)" "sizeOf r s1 = 0" "collapsedOf r s1"
       "lastExpandedSizeOf r s1 = lastExpandedSizeOf r s" "last (callsOn r tr1) = Collapse"
    and g1: "\<not> animatingOf r s1" "\<not> isDragging s1"
    by blast
  from CPL_expand_run[OF g1 g(3) m2] obtain s2 tr2 where
    e: "CPL_handleExpand r props env2 s1 = Inr (s2, tr2)" "sizeOf r s2 = target"
       "\<not> collapsedOf r s2" "lastExpandedSizeOf r s2 = lastExpandedSizeOf r s"
       "last (callsOn r tr2) = (if target = 0 then Collapse else Resize target)"
    unfolding target_def c(4) by blast
  from c e show ?thesis by blast
qed

text \<open>An accepted resize event with a positive size sets the remembered size.\<close>

lemma CPL_resize_records:
  assumes "v > 0" "\<not> animatingOf Left s0" "\<not> animatingOf Middle s0" "\<not> animatingOf Right s0"
  shows "lastExpandedSizeOf r (CPL_handleResize r v s0) = v"
    and "sizeOf r (CPL_handleResize r v s0) = v"
  using assms
  by (cases r;
      simp add: CPL_handleResize_def CPL_handleLeftResize_def CPL_handleMiddleResize_def
        CPL_handleRightResize_def animatingOf_def sizeOf_def lastExpandedSizeOf_def Let_def)+

text \<open>In ConfigurablePanelLayout.tsx a completed toggle of one region also records the
  new size of every other region that ends above zero, so the other regions stay
  remembered through it.\<close>

lemma CPL_collapse_keeps_remembered:
  assumes "\<not> animatingOf r s" and "\<not> isDragging s" and "collapsibleOf r props"
      and mounted: "\<And>p k. 1 \<le> k \<Longrightarrow> k \<le> 10 \<Longrightarrow> handles env p k"
  shows "\<exists>s' tr. CPL_handleCollapse r props env s = Inr (s', tr) \<and>
           (\<forall>q. q \<noteq> r \<longrightarrow> sizeOf q s' > 0 \<longrightarrow> lastExpandedSizeOf q s' = sizeOf q s')"
proof -
  note defs = CPL_handleCollapse_def sizeOf_def collapsedOf_def animatingOf_def isActiveOf_def
    collapsibleOf_def actualSizeOf_def layoutIndex_def Let_def finalCalls_def
    animateMultiplePanels_run lastExpandedSizeOf_def orElse_def
  have m1: "handles env p 1" and m10: "handles env p 10" for p
    using mounted[of 1 p] mounted[of 10 p] by simp_all
  show ?thesis
  proof (cases r)
    case Left
    show ?thesis
      using assms(1-3) m1 m10 unfolding \<open>r = Left\<close>
      by (simp add: defs CPL_handleLeftCollapse_def CPL_handleLeftCollapse_begin_def
            split: Region.splits)
  next
    case Middle
    show ?thesis
      using assms(1-3) m1 m10 unfolding \<open>r = Middle\<close>
      by (simp add: defs CPL_handleMiddleCollapse_def CPL_handleMiddleCollapse_begin_def
            split: Region.splits)
  next
    case Right
    show ?thesis
      using assms(1-3) m1 m10 unfolding \<open>r = Right\<close>
      by (simp add: defs CPL_handleRightCollapse_def CPL_handleRightCollapse_begin_def
            split: Region.splits)
  qed
qed


lemma CPL_expand_keeps_remembered:
  assumes "\<not> animatingOf r s" and "\<not> isDragging s" and "collapsibleOf r props"
      and mounted: "\<And>p k. 1 \<le> k \<Longrightarrow> k \<le> 10 \<Longrightarrow> handles env p k"
  shows "\<exists>s' tr. CPL_handleExpand r props env s = Inr (s', tr) \<and>
           (\<forall>q. q \<noteq> r \<longrightarrow> sizeOf q s' > 0 \<longrightarrow> lastExpandedSizeOf q s' = sizeOf q s')"
proof -
  note defs = CPL_handleExpand_def sizeOf_def collapsedOf_def animatingOf_def isActiveOf_def
    collapsibleOf_def actualSizeOf_def layoutIndex_def Let_def finalCalls_def
    animateMultiplePanels_run lastExpandedSizeOf_def
  have m1: "handles env p 1" and m10: "handles env p 10" for p
    using mounted[of 1 p] mounted[of 10 p] by simp_all
  show ?thesis
  proof (cases r)
    case Left
    show ?thesis
      using assms(1-3) m1 m10 unfolding \<open>r = Left\<close>
      by (simp add: defs CPL_handleLeftExpand_def CPL_handleLeftExpand_begin_def
            split: Region.splits)
  next
    case Middle
    show ?thesis
      using assms(1-3) m1 m10 unfolding \<open>r = Middle\<close>
      by (simp add: defs CPL_handleMiddleExpand_def CPL_handleMiddleExpand_begin_def
            split: Region.splits)
  next
    case Right
    show ?thesis
      using assms(1-3) m1 m10 unfolding \<open>r = Right\<close>
      by (simp add: defs CPL_handleRightExpand_def CPL_handleRightExpand_begin_def
            split: Region.splits)
  qed
qed

text \<open>ThreePanelLayout has no remembered size: its expand goes to \<open>defaultSizes\<close>.\<close>

lemma TPL_round_trip_left:
  assumes "\<not> leftAnimating u" "\<not> isDragging u" "tpl_collapsible_left tprops"
      and m1: "\<And>k. 1 \<le> k \<Longrightarrow> k \<le> 10 \<Longrightarrow> handles env1 Left k" and c1: "clock env1 \<noteq> 0"
      and m2: "\<And>k. 1 \<le> k \<Longrightarrow> k \<le> 10 \<Longrightarrow> handles env2 Left k" and c2: "clock env2 \<noteq> 0"
  shows "\<exists>u1 tr1 u2 tr2.
           TPL_handleLeftCollapse tprops env1 u = Inr (u1, tr1) \<and>
           leftSize u1 = 0 \<and> leftCollapsed u1 \<and>
           TPL_handleLeftExpand tprops env2 u1 = Inr (u2, tr2) \<and>
           leftSize u2 = tpl_default_left tprops \<and> \<not> leftCollapsed u2 \<and>
           last (callsOn Left tr2) =
             (if tpl_default_left tprops = 0 then Collapse else Resize (tpl_default_left tprops))"
  using assms(1-3)
  by (simp add: TPL_handleLeftCollapse_def TPL_handleLeftCollapse_begin_def
        TPL_handleLeftExpand_def TPL_handleLeftExpand_begin_def Let_def
        animatePanel_run[of "handles env1 Left", OF m1 c1]
        animatePanel_run[of "handles env2 Left", OF m2 c2]
        callsOn_append callsOn_eased)

lemma TPL_round_trip_right:
  assumes "\<not> rightAnimating u" "\<not> isDragging u" "tpl_collapsible_right tprops"
      and m1: "\<And>k. 1 \<le> k \<Longrightarrow> k \<le> 10 \<Longrightarrow> handles env1 Right k" and c1: "clock env1 \<noteq> 0"
      and m2: "\<And>k. 1 \<le> k \<Longrightarrow> k \<le> 10 \<Longrightarrow> handles env2 Right k" and c2: "clock env2 \<noteq> 0"
  shows "\<exists>u1 tr1 u2 tr2.
           TPL_handleRightCollapse tprops env1 u = Inr (u1, tr1) \<and>
           rightSize u1 = 0 \<and> rightCollapsed u1 \<and>
           TPL_handleRightExpand tprops env2 u1 = Inr (u2, tr2) \<and>
           rightSize u2 = tpl_default_right tprops \<and> \<not> rightCollapsed u2 \<and>
           last (callsOn Right tr2) =
             (if tpl_default_right tprops = 0 then Collapse else Resize (tpl_default_right tprops))"
  using assms(1-3)
  by (simp add: TPL_handleRightCollapse_def TPL_handleRightCollapse_begin_def
        TPL_handleRightExpand_def TPL_handleRightExpand_begin_def Let_def
        animatePanel_run[of "handles env1 Right", OF m1 c1]
        animatePanel_run[of "handles env2 Right", OF m2 c2]
        callsOn_append callsOn_eased)

text \<open>
  Claim C4, as amended. In ConfigurablePanelLayout (both copies), an accepted collapse of
  region \<open>r\<close> followed by an expand, each run to completion on mounted handles, ends
  with \<open>r\<close> expanded at the remembered size \<open>lastExpandedSize\<close> when that is not zero
  and at the computed default size otherwise; the last call on \<open>r\<close>'s handle is the
  resize to that size, and neither the collapse nor the expand changes the remembered
  size of \<open>r\<close>. A resize callback of \<open>r\<close> with a positive size, taken while no
  region is animating, sets the remembered size of \<open>r\<close> to that size. In
  ThreePanelLayout the same round trip ends at \<open>defaultSizes\<close>.
\<close>

theorem collapse_then_expand_restores:
  assumes g: "\<not> animatingOf r s" "\<not> isDragging s" "collapsibleOf r props"
      and m1: "\<And>p k. 1 \<le> k \<Longrightarrow> k \<le> 10 \<Longrightarrow> handles env1 p k" and c1: "clock env1 \<noteq> 0"
      and m2: "\<And>p k. 1 \<le> k \<Longrightarrow> k \<le> 10 \<Longrightarrow> handles env2 p k" and c2: "clock env2 \<noteq> 0"
  defines "target \<equiv> (if lastExpandedSizeOf r s \<noteq> 0 then lastExpandedSizeOf r s
                        else computedDefaultSizeOf r props)"
  shows "(\<exists>s1 tr1 s2 tr2.
            P5_handleCollapse r props env1 s = Inr (s1, tr1) \<and>
            sizeOf r s1 = 0 \<and> collapsedOf r s1 \<and>
            lastExpandedSizeOf r s1 = lastExpandedSizeOf r s \<and>
            last (callsOn r tr1) = Collapse \<and>
            P5_handleExpand r props env2 s1 = Inr (s2, tr2) \<and>
            sizeOf r s2 = target \<and> \<not> collapsedOf r s2 \<and>
            lastExpandedSizeOf r s2 = lastExpandedSizeOf r s \<and>
            last (callsOn r tr2) = (if target = 0 then Collapse else Resize target))
       \<and> (\<exists>s1 tr1 s2 tr2.
            CPL_handleCollapse r props env1 s = Inr (s1, tr1) \<and>
            sizeOf r s1 = 0 \<and> collapsedOf r s1 \<and>
            lastExpandedSizeOf r s1 = lastExpandedSizeOf r s \<and>
            last (callsOn r tr1) = Collapse \<and>
            CPL_handleExpand r props env2 s1 = Inr (s2, tr2) \<and>
            sizeOf r s2 = target \<and> \<not> collapsedOf r s2 \<and>
            lastExpandedSizeOf r s2 = lastExpandedSizeOf r s \<and>
            last (callsOn r tr2) = (if target = 0 then Collapse else Resize target))
       \<and> (\<forall>v s0. v > 0 \<and> \<not> animatingOf Left s0 \<and> \<not> animatingOf Middle s0 \<and>
                  \<not> animatingOf Right s0 \<longrightarrow>
            lastExpandedSizeOf r (CPL_handleResize r v s0) = v \<and>
            sizeOf r (CPL_handleResize r v s0) = v)
       \<and> (\<not> leftAnimating u \<and> \<not> isDragging u \<and> tpl_collapsible_left tprops \<longrightarrow>
            (\<exists>u1 tr1 u2 tr2.
               TPL_handleLeftCollapse tprops env1 u = Inr (u1, tr1) \<and>
               leftSize u1 = 0 \<and> leftCollapsed u1 \<and>
               TPL_handleLeftExpand tprops env2 u1 = Inr (u2, tr2) \<and>
               leftSize u2 = tpl_default_left tprops \<and> \<not> leftCollapsed u2 \<and>
               last (callsOn Left tr2) =
                 (if tpl_default_left tprops = 0 then Collapse
                  else Resize (tpl_default_left tprops))))
       \<and> (\<not> rightAnimating u \<and> \<not> isDragging u \<and> tpl_collapsible_right tprops \<longrightarrow>
            (\<exists>u1 tr1 u2 tr2.
               TPL_handleRightCollapse tprops env1 u = Inr (u1, tr1) \<and>
               rightSize u1 = 0 \<and> rightCollapsed u1 \<and>
               TPL_handleRightExpand tprops env2 u1 = Inr (u2, tr2) \<and>
               rightSize u2 = tpl_default_right tprops \<and> \<not> rightCollapsed u2 \<and>
               last (callsOn Right tr2) =
                 (if tpl_default_right tprops = 0 then Collapse
                  else Resize (tpl_default_right tprops))))"
proof (intro conjI allI impI; (elim conjE)?)
  show "\<exists>s1 tr1 s2 tr2.
            P5_handleCollapse r props env1 s = Inr (s1, tr1) \<and>
            sizeOf r s1 = 0 \<and> collapsedOf r s1 \<and>
            lastExpandedSizeOf r s1 = lastExpandedSizeOf r s \<and>
            last (callsOn r tr1) = Collapse \<and>
            P5_handleExpand r props env2 s1 = Inr (s2, tr2) \<and>
            sizeOf r s2 = target \<and> \<not> collapsedOf r s2 \<and>
            lastExpandedSizeOf r s2 = lastExpandedSizeOf r s \<and>
            last (callsOn r tr2) = (if target = 0 then Collapse else Resize target)"
    unfolding target_def by (rule P5_round_trip[OF g m1 c1 m2 c2])
  show "\<exists>s1 tr1 s2 tr2.
            CPL_handleCollapse r props env1 s = Inr (s1, tr1) \<and>
            sizeOf r s1 = 0 \<and> collapsedOf r s1 \<and>
            lastExpandedSizeOf r s1 = lastExpandedSizeOf r s \<and>
            last (callsOn r tr1) = Collapse \<and>
            CPL_handleExpand r props env2 s1 = Inr (s2, tr2) \<and>
            sizeOf r s2 = target \<and> \<not> collapsedOf r s2 \<and>
            lastExpandedSizeOf r s2 = lastExpandedSizeOf r s \<and>
            last (callsOn r tr2) = (if target = 0 then Collapse else Resize target)"
    unfolding target_def by (rule CPL_round_trip[OF g m1 m2])
qed (rule CPL_resize_records TPL_round_trip_left TPL_round_trip_right m1 m2 c1 c2; assumption?)+

text \<open>
  After a drag of the left panel to 50, collapse and expand bring it back to 50 in both
  copies. A component mounted with a left default size of \<open>0\<close> has nothing remembered
  for the left panel; rendered with the default size 20, its expand goes to 20.
  ThreePanelLayout goes from its default 20 to 0 and back to 20.
\<close>

theorem collapse_then_expand_restores_witness:
  "lastExpandedSizeOf Left (CPL_handleResize Left 50 (CPL_init sampleCPL)) = 50
   \<and> (\<exists>s1 tr1 s2 tr2.
      P5_handleCollapse Left sampleCPL (sampleEnv_at [50, 30, 20])
          (CPL_handleResize Left 50 (CPL_init sampleCPL)) = Inr (s1, tr1) \<and>
      sizeOf Left s1 = 0 \<and>
      P5_handleExpand Left sampleCPL (sampleEnv_at [0, 80, 20]) s1 = Inr (s2, tr2) \<and>
      sizeOf Left s2 = 50 \<and> last (callsOn Left tr2) = Resize 50)
   \<and> (\<exists>s1 tr1 s2 tr2.
      CPL_handleCollapse Left sampleCPL (sampleEnv_at [50, 30, 20])
          (CPL_handleResize Left 50 (CPL_init sampleCPL)) = Inr (s1, tr1) \<and>
      sizeOf Left s1 = 0 \<and>
      CPL_handleExpand Left sampleCPL (sampleEnv_at [0, 60, 40]) s1 = Inr (s2, tr2) \<and>
      sizeOf Left s2 = 50 \<and> last (callsOn Left tr2) = Resize 50)
   \<and> lastExpandedSizeOf Left (CPL_init sampleCPL_zeroLeft) = 0
   \<and> computedDefaultSizeOf Left sampleCPL = 20
   \<and> (\<exists>s1 tr1 s2 tr2.
      CPL_handleCollapse Left sampleCPL (sampleEnv_at [0, 75, 25])
          (CPL_init sampleCPL_zeroLeft) = Inr (s1, tr1) \<and>
      CPL_handleExpand Left sampleCPL (sampleEnv_at [0, 75, 25]) s1 = Inr (s2, tr2) \<and>
      sizeOf Left s2 = 20 \<and> last (callsOn Left tr2) = Resize 20)
   \<and> (\<exists>u1 tr1 u2 tr2.
      TPL_handleLeftCollapse sampleTPL (sampleEnv_at [20, 60, 20]) (TPL_init sampleTPL) = Inr (u1, tr1) \<and>
      leftSize u1 = 0 \<and>
      TPL_handleLeftExpand sampleTPL (sampleEnv_at [0, 80, 20]) u1 = Inr (u2, tr2) \<and>
      leftSize u2 = 20 \<and> last (callsOn Left tr2) = Resize 20)"
proof -
  let ?s = "CPL_handleResize Left 50 (CPL_init sampleCPL)"
  let ?z = "CPL_init sampleCPL_zeroLeft"
  have g: "\<not> animatingOf Left ?s" "\<not> isDragging ?s" "collapsibleOf Left sampleCPL"
    by (simp_all add: CPL_handleResize_def CPL_handleLeftResize_def CPL_init_def animatingOf_def
          collapsibleOf_def sampleCPL_def Let_def)
  have gz: "\<not> animatingOf Left ?z" "\<not> isDragging ?z"
    by (simp_all add: CPL_init_def animatingOf_def)
  have i: "(0::real) < 50 \<and> \<not> animatingOf Left (CPL_init sampleCPL)
            \<and> \<not> animatingOf Middle (CPL_init sampleCPL) \<and> \<not> animatingOf Right (CPL_init sampleCPL)"
    by (simp add: CPL_init_def animatingOf_def)
  have m: "handles (sampleEnv_at l) p k" and c: "clock (sampleEnv_at l) \<noteq> 0" for l p k
    by (simp_all add: sampleEnv_at_def allMounted_def)
  have t: "lastExpandedSizeOf Left ?s = 50"
    by (simp add: CPL_handleResize_def CPL_handleLeftResize_def CPL_init_def
          lastExpandedSizeOf_def Let_def)
  have z: "lastExpandedSizeOf Left ?z = 0" "computedDefaultSizeOf Left sampleCPL = 20"
    by (simp_all add: CPL_init_def lastExpandedSizeOf_def computedDefaultSizeOf_def
          computedDefaultSizes_left_def sampleCPL_zeroLeft_def sampleCPL_def)
  have u: "\<not> leftAnimating (TPL_init sampleTPL) \<and> \<not> isDragging (TPL_init sampleTPL)
            \<and> tpl_collapsible_left sampleTPL" "tpl_default_left sampleTPL = 20"
    by (simp_all add: TPL_init_def sampleTPL_def)
  note T1 = collapse_then_expand_restores[of Left "?s" sampleCPL
      "sampleEnv_at [50, 30, 20]" "sampleEnv_at [0, 80, 20]" "TPL_init sampleTPL" sampleTPL,
      OF g m c m c]
  note T2 = collapse_then_expand_restores[of Left "?s" sampleCPL
      "sampleEnv_at [50, 30, 20]" "sampleEnv_at [0, 60, 40]" "TPL_init sampleTPL" sampleTPL,
      OF g m c m c]
  note T3 = collapse_then_expand_restores[of Left "?z" sampleCPL
      "sampleEnv_at [0, 75, 25]" "sampleEnv_at [0, 75, 25]" "TPL_init sampleTPL" sampleTPL,
      OF gz g(3) m c m c]
  note T4 = collapse_then_expand_restores[of Left "?s" sampleCPL
      "sampleEnv_at [20, 60, 20]" "sampleEnv_at [0, 80, 20]" "TPL_init sampleTPL" sampleTPL,
      OF g m c m c]
  have w1: "\<exists>s1 tr1 s2 tr2.
      P5_handleCollapse Left sampleCPL (sampleEnv_at [50, 30, 20]) ?s = Inr (s1, tr1) \<and>
      sizeOf Left s1 = 0 \<and>
      P5_handleExpand Left sampleCPL (sampleEnv_at [0, 80, 20]) s1 = Inr (s2, tr2) \<and>
      sizeOf Left s2 = 50 \<and> last (callsOn Left tr2) = Resize 50"
    using T1[THEN conjunct1] unfolding t by auto
  have w2: "\<exists>s1 tr1 s2 tr2.
      CPL_handleCollapse Left sampleCPL (sampleEnv_at [50, 30, 20]) ?s = Inr (s1, tr1) \<and>
      sizeOf Left s1 = 0 \<and>
      CPL_handleExpand Left sampleCPL (sampleEnv_at [0, 60, 40]) s1 = Inr (s2, tr2) \<and>
      sizeOf Left s2 = 50 \<and> last (callsOn Left tr2) = Resize 50"
    using T2[THEN conjunct2, THEN conjunct1] unfolding t by auto
  have w3: "\<exists>s1 tr1 s2 tr2.
      CPL_handleCollapse Left sampleCPL (sampleEnv_at [0, 75, 25]) ?z = Inr (s1, tr1) \<and>
      CPL_handleExpand Left sampleCPL (sampleEnv_at [0, 75, 25]) s1 = Inr (s2, tr2) \<and>
      sizeOf Left s2 = 20 \<and> last (callsOn Left tr2) = Resize 20"
    using T3[THEN conjunct2, THEN conjunct1] unfolding z by auto
  have w4: "lastExpandedSizeOf Left ?s = 50"
    using T1[THEN conjunct2, THEN conjunct2, THEN conjunct1, rule_format, OF i] by simp
  have w5: "\<exists>u1 tr1 u2 tr2.
      TPL_handleLeftCollapse sampleTPL (sampleEnv_at [20, 60, 20]) (TPL_init sampleTPL) = Inr (u1, tr1) \<and>
      leftSize u1 = 0 \<and>
      TPL_handleLeftExpand sampleTPL (sampleEnv_at [0, 80, 20]) u1 = Inr (u2, tr2) \<and>
      leftSize u2 = 20 \<and> last (callsOn Left tr2) = Resize 20"
    using T4[THEN conjunct2, THEN conjunct2, THEN conjunct2, THEN conjunct1, rule_format, OF u(1)]
    unfolding u(2) by auto
  from w1 w2 w3 w4 w5 z show ?thesis by (intro conjI)
qed

text \<open>
  ThreePanelLayout after a drag of the left panel to 30: collapse and expand end at the
  default size 20, not at 30. unnamed/part_005, from 20/60/20: the left panel collapses,
  the panel group gives its space to the middle panel (0/80/20) while the resize
  callbacks are shut out by \<open>leftAnimating\<close>; the middle panel then collapses from 80
  and expands to the remembered 60.
\<close>

lemma sampleEnv_at_run:
  "animatePanel (handles (sampleEnv_at l) r) (clock (sampleEnv_at l)) r a b True =
     Inr (map (easedCall r a b) [1..<10]
          @ [Call r (if b = 0 then Collapse else Resize b), Complete])"
  using animatePanel_run[of "handles (sampleEnv_at l) r" "clock (sampleEnv_at l)" r a b True]
  by (simp add: sampleEnv_at_def allMounted_def)

theorem collapse_then_expand_not_restoring:
  "leftSize (TPL_handleLeftResize 30 (TPL_init sampleTPL)) = 30
   \<and> TPL_handleLeftCollapse sampleTPL (sampleEnv_at [30, 50, 20])
         (TPL_handleLeftResize 30 (TPL_init sampleTPL)) =
       Inr (sampleTPL_leftCollapsed,
            Scheduled Left # map (easedCall Left 30 0) [1..<10] @ [Call Left Collapse, Complete])
   \<and> TPL_handleLeftExpand sampleTPL (sampleEnv_at [0, 80, 20]) sampleTPL_leftCollapsed =
       Inr (TPL_init sampleTPL,
            Scheduled Left # map (easedCall Left 0 20) [1..<10] @ [Call Left (Resize 20), Complete])
   \<and> leftSize (TPL_init sampleTPL) = 20
   \<and> (\<exists>s1 tr1 s2 s3.
         P5_handleLeftCollapse sampleCPL_allCollapsible (sampleEnv_at [20, 60, 20])
             (CPL_init sampleCPL_allCollapsible) = Inr (s1, tr1) \<and>
         middleSize s1 = 60 \<and> lastExpandedMiddleSize s1 = 60 \<and>
         P5_handleMiddleCollapse sampleCPL_allCollapsible (sampleEnv_at [0, 80, 20]) s1 =
           Inr (s2, Scheduled Middle # map (easedCall Middle 80 0) [1..<10]
                      @ [Call Middle Collapse, Complete]) \<and>
         P5_handleMiddleExpand sampleCPL_allCollapsible (sampleEnv_at [0, 0, 100]) s2 =
           Inr (s3, Scheduled Middle # map (easedCall Middle 0 60) [1..<10]
                      @ [Call Middle (Resize 60), Complete]) \<and>
         middleSize s3 = 60)"
proof -
  have r: "round3 30 = 30" "round3 80 = 80" "round3 20 = 20"
    by (simp_all add: round3_def)
  have tpl: "leftSize (TPL_handleLeftResize 30 (TPL_init sampleTPL)) = 30"
    "TPL_handleLeftCollapse sampleTPL (sampleEnv_at [30, 50, 20])
         (TPL_handleLeftResize 30 (TPL_init sampleTPL)) =
       Inr (sampleTPL_leftCollapsed,
            Scheduled Left # map (easedCall Left 30 0) [1..<10] @ [Call Left Collapse, Complete])"
    "TPL_handleLeftExpand sampleTPL (sampleEnv_at [0, 80, 20]) sampleTPL_leftCollapsed =
       Inr (TPL_init sampleTPL,
            Scheduled Left # map (easedCall Left 0 20) [1..<10] @ [Call Left (Resize 20), Complete])"
    "leftSize (TPL_init sampleTPL) = 20"
    by (simp_all add: TPL_handleLeftCollapse_def TPL_handleLeftCollapse_begin_def
          TPL_handleLeftExpand_def TPL_handleLeftExpand_begin_def TPL_handleLeftResize_def
          TPL_init_def sampleTPL_def sampleTPL_leftCollapsed_def Let_def sampleEnv_at_run
          layoutAt_def r, simp_all add: sampleEnv_at_def layoutAt_def r)
  have p5: "\<exists>s1 tr1 s2 s3.
         P5_handleLeftCollapse sampleCPL_allCollapsible (sampleEnv_at [20, 60, 20])
             (CPL_init sampleCPL_allCollapsible) = Inr (s1, tr1) \<and>
         middleSize s1 = 60 \<and> lastExpandedMiddleSize s1 = 60 \<and>
         P5_handleMiddleCollapse sampleCPL_allCollapsible (sampleEnv_at [0, 80, 20]) s1 =
           Inr (s2, Scheduled Middle # map (easedCall Middle 80 0) [1..<10]
                      @ [Call Middle Collapse, Complete]) \<and>
         P5_handleMiddleExpand sampleCPL_allCollapsible (sampleEnv_at [0, 0, 100]) s2 =
           Inr (s3, Scheduled Middle # map (easedCall Middle 0 60) [1..<10]
                      @ [Call Middle (Resize 60), Complete]) \<and>
         middleSize s3 = 60"
    by (simp add: P5_handleLeftCollapse_def P5_handleLeftCollapse_begin_def
          P5_handleMiddleCollapse_def P5_handleMiddleCollapse_begin_def
          P5_handleMiddleExpand_def P5_handleMiddleExpand_begin_def
          CPL_init_def sampleCPL_allCollapsible_def sampleCPL_def Let_def sampleEnv_at_run
          computedDefaultSizes_left_def computedDefaultSizes_middle_def
          computedDefaultSizes_right_def orElse_def,
        simp add: sampleEnv_at_def layoutAt_def r)
  from tpl p5 show ?thesis by (intro conjI)
qed

section \<open>Drag end and resize events\<close>

text \<open>
  Claim C5, as amended. In ConfigurablePanelLayout, when a drag ends
  (\<open>handleDragging(false)\<close>) and \<open>onPanelResize\<close> is supplied, it is called with the
  three sizes, each region reporting its remembered \<open>lastExpandedSize\<close> if it is
  collapsed and its current size otherwise; nothing is reported when a drag starts or
  when the callback is missing. ThreePanelLayout reports the current left and right
  sizes as they are and \<open>100 - left - right\<close> for the middle.
\<close>

theorem CPL_dragEnd_reports:
  "CPL_handleDragging props False s = (s\<lparr>isDragging := False\<rparr>, CPL_handleDragEnd props s)
   \<and> (onPanelResize props \<longrightarrow>
        (\<exists>sizes. CPL_handleDragEnd props s = Some sizes \<and>
           (\<forall>r. reportedOf r sizes =
                  (if collapsedOf r s then lastExpandedSizeOf r s else sizeOf r s))))
   \<and> (\<not> onPanelResize props \<longrightarrow> CPL_handleDragEnd props s = None)
   \<and> snd (CPL_handleDragging props True s) = None
   \<and> (tpl_onPanelResize tprops \<longrightarrow>
        TPL_handleDragEnd tprops u =
          Some \<lparr> left = leftSize u, middle = 100 - leftSize u - rightSize u, right = rightSize u \<rparr>)"
proof -
  have "\<And>r. reportedOf r \<lparr> left = (if leftCollapsed s then lastExpandedLeftSize s else leftSize s),
                 middle = (if middleCollapsed s then lastExpandedMiddleSize s else middleSize s),
                 right = (if rightCollapsed s then lastExpandedRightSize s else rightSize s) \<rparr>
         = (if collapsedOf r s then lastExpandedSizeOf r s else sizeOf r s)"
    subgoal for r
      by (cases r) (simp_all add: reportedOf_def collapsedOf_def lastExpandedSizeOf_def sizeOf_def)
    done
  then show ?thesis
    by (simp add: CPL_handleDragging_def CPL_handleDragEnd_def TPL_handleDragEnd_def Let_def)
qed

text \<open>The settled state of the sample after collapsing left, and what a drag end then
  reports: 20 for the collapsed left region, not 0.\<close>

lemma CPL_sample_collapse_left:
  "\<exists>tr. CPL_handleCollapse Left sampleCPL sampleEnv (CPL_init sampleCPL) =
     Inr ((CPL_init sampleCPL)\<lparr>leftCollapsed := True, leftSize := 0, middleSize := 75, rightSize := 25,
            lastExpandedMiddleSize := 75, lastExpandedRightSize := 25\<rparr>, tr)"
  by (simp add: CPL_handleCollapse_def CPL_handleLeftCollapse_def CPL_handleLeftCollapse_begin_def
        CPL_init_def sampleCPL_def sampleEnv_def layoutAt_def round3_samples
        animateMultiplePanels_run allMounted_def Let_def
        computedDefaultSizes_left_def computedDefaultSizes_middle_def computedDefaultSizes_right_def)

lemma CPL_sample_collapse_left':
  "\<exists>tr. CPL_handleCollapse Left sampleCPL sampleEnv (CPL_init sampleCPL) =
     Inr (sampleCPL_leftCollapsed, tr)"
  using CPL_sample_collapse_left by (simp add: sampleCPL_leftCollapsed_def)

theorem CPL_dragEnd_reports_witness:
  "collapsedOf Left sampleCPL_leftCollapsed \<and> sizeOf Left sampleCPL_leftCollapsed = 0
   \<and> CPL_handleDragging sampleCPL False sampleCPL_leftCollapsed =
       (sampleCPL_leftCollapsed\<lparr>isDragging := False\<rparr>,
        Some \<lparr> left = 20, middle = 75, right = 25 \<rparr>)"
proof -
  have cb: "onPanelResize sampleCPL" by (simp add: sampleCPL_def)
  note inst = CPL_dragEnd_reports[of sampleCPL sampleCPL_leftCollapsed sampleTPL
      sampleTPL_leftCollapsed]
  from inst have dr: "CPL_handleDragging sampleCPL False sampleCPL_leftCollapsed =
        (sampleCPL_leftCollapsed\<lparr>isDragging := False\<rparr>,
         CPL_handleDragEnd sampleCPL sampleCPL_leftCollapsed)"
    by blast
  from inst cb obtain sizes where e: "CPL_handleDragEnd sampleCPL sampleCPL_leftCollapsed = Some sizes"
    and r: "\<And>r. reportedOf r sizes =
        (if collapsedOf r sampleCPL_leftCollapsed then lastExpandedSizeOf r sampleCPL_leftCollapsed
         else sizeOf r sampleCPL_leftCollapsed)"
    by blast
  have d: "CPL_handleDragging sampleCPL False sampleCPL_leftCollapsed =
        (sampleCPL_leftCollapsed\<lparr>isDragging := False\<rparr>, Some sizes)"
    using dr e by simp
  have "left sizes = 20" "middle sizes = 75" "right sizes = 25"
    using r[of Left] r[of Middle] r[of Right]
    by (simp_all add: reportedOf_def collapsedOf_def lastExpandedSizeOf_def sizeOf_def
          sampleCPL_leftCollapsed_def CPL_init_def sampleCPL_def computedDefaultSizes_left_def)
  then have "sizes = \<lparr> left = 20, middle = 75, right = 25 \<rparr>"
    by (cases sizes) simp
  with d show ?thesis
    by (simp add: collapsedOf_def sizeOf_def sampleCPL_leftCollapsed_def)
qed

text \<open>ThreePanelLayout after collapsing left from 20/60/20: a drag end reports 0 for
  the collapsed left region, although an expand would restore 20.\<close>

theorem TPL_dragEnd_reports_zero:
  "settled (TPL_handleLeftCollapse sampleTPL sampleEnv (TPL_init sampleTPL))
     = Some sampleTPL_leftCollapsed
   \<and> leftCollapsed sampleTPL_leftCollapsed
   \<and> tpl_default_left sampleTPL = 20
   \<and> TPL_handleDragging sampleTPL False sampleTPL_leftCollapsed =
       (sampleTPL_leftCollapsed, Some \<lparr> left = 0, middle = 80, right = 20 \<rparr>)"
  using TPL_sample_collapse_left
  by (simp add: settled_def TPL_handleDragging_def TPL_handleDragEnd_def sampleTPL_def
        sampleTPL_leftCollapsed_def)

text \<open>
  Claim C10. In ConfigurablePanelLayout, a resize event while any of the three
  animating flags is set leaves the whole state as it is. When none is set, the event
  sets the region's current size; a size above zero also records it as the region's
  \<open>lastExpandedSize\<close> and clears the region's collapsed flag, a size of zero or less
  leaves both alone; the other regions, the animating flags and \<open>isDragging\<close> are
  untouched.
\<close>

theorem CPL_resize_only_when_idle:
  "(animatingOf Left s \<or> animatingOf Middle s \<or> animatingOf Right s \<longrightarrow>
      CPL_handleResize r sz s = s)
   \<and> (\<not> animatingOf Left s \<and> \<not> animatingOf Middle s \<and> \<not> animatingOf Right s \<longrightarrow>
        sizeOf r (CPL_handleResize r sz s) = sz
      \<and> (sz > 0 \<longrightarrow> lastExpandedSizeOf r (CPL_handleResize r sz s) = sz
                    \<and> \<not> collapsedOf r (CPL_handleResize r sz s))
      \<and> (\<not> sz > 0 \<longrightarrow> lastExpandedSizeOf r (CPL_handleResize r sz s) = lastExpandedSizeOf r s
                    \<and> collapsedOf r (CPL_handleResize r sz s) = collapsedOf r s)
      \<and> (\<forall>q. q \<noteq> r \<longrightarrow> sizeOf q (CPL_handleResize r sz s) = sizeOf q s
                    \<and> lastExpandedSizeOf q (CPL_handleResize r sz s) = lastExpandedSizeOf q s
                    \<and> collapsedOf q (CPL_handleResize r sz s) = collapsedOf q s)
      \<and> (\<forall>q. animatingOf q (CPL_handleResize r sz s) = animatingOf q s)
      \<and> isDragging (CPL_handleResize r sz s) = isDragging s)"
proof -
  note defs = CPL_handleResize_def CPL_handleLeftResize_def CPL_handleMiddleResize_def
    CPL_handleRightResize_def animatingOf_def sizeOf_def lastExpandedSizeOf_def collapsedOf_def
    Let_def
  have busy: "animatingOf Left s \<or> animatingOf Middle s \<or> animatingOf Right s \<longrightarrow>
      CPL_handleResize r sz s = s"
    by (cases r) (auto simp: defs)
  have idle: "\<not> animatingOf Left s \<and> \<not> animatingOf Middle s \<and> \<not> animatingOf Right s \<longrightarrow>
        sizeOf r (CPL_handleResize r sz s) = sz
      \<and> (sz > 0 \<longrightarrow> lastExpandedSizeOf r (CPL_handleResize r sz s) = sz
                    \<and> \<not> collapsedOf r (CPL_handleResize r sz s))
      \<and> (\<not> sz > 0 \<longrightarrow> lastExpandedSizeOf r (CPL_handleResize r sz s) = lastExpandedSizeOf r s
                    \<and> collapsedOf r (CPL_handleResize r sz s) = collapsedOf r s)
      \<and> (\<forall>q. animatingOf q (CPL_handleResize r sz s) = animatingOf q s)
      \<and> isDragging (CPL_handleResize r sz s) = isDragging s"
    by (cases r) (auto simp: defs split: Region.splits)
  have others: "\<not> animatingOf Left s \<and> \<not> animatingOf Middle s \<and> \<not> animatingOf Right s \<longrightarrow>
       (\<forall>q. q \<noteq> r \<longrightarrow> sizeOf q (CPL_handleResize r sz s) = sizeOf q s
                    \<and> lastExpandedSizeOf q (CPL_handleResize r sz s) = lastExpandedSizeOf q s
                    \<and> collapsedOf q (CPL_handleResize r sz s) = collapsedOf q s)"
    by (cases r) (auto simp: defs split: Region.splits)
  from busy idle others show ?thesis by blast
qed

theorem CPL_resize_only_when_idle_witness:
  "animatingOf Left sampleCPL_leftRunning
   \<and> CPL_handleResize Middle 80 sampleCPL_leftRunning = sampleCPL_leftRunning
   \<and> sizeOf Left (CPL_handleResize Left 30 sampleCPL_leftCollapsed) = 30
   \<and> lastExpandedSizeOf Left (CPL_handleResize Left 30 sampleCPL_leftCollapsed) = 30
   \<and> \<not> collapsedOf Left (CPL_handleResize Left 30 sampleCPL_leftCollapsed)"
proof -
  have a: "animatingOf Left sampleCPL_leftRunning"
    by (simp add: animatingOf_def sampleCPL_leftRunning_def)
  have i: "\<not> animatingOf Left sampleCPL_leftCollapsed" "\<not> animatingOf Middle sampleCPL_leftCollapsed"
    "\<not> animatingOf Right sampleCPL_leftCollapsed"
    by (simp_all add: animatingOf_def sampleCPL_leftCollapsed_def CPL_init_def)
  show ?thesis
    using CPL_resize_only_when_idle[of sampleCPL_leftRunning Middle 80] a
      CPL_resize_only_when_idle[of sampleCPL_leftCollapsed Left 30] i
    by simp
qed

section \<open>The configurator never duplicates a panel id\<close>

text \<open>The ids of a slot, and what \<open>removePanelFromLayout\<close> does to them: in every slot
  it filters the removed id out, whether the slot stays a group or not.\<close>

lemma ids_simps:
  "getPanelIdsFromSlot None = []"
  "getPanelIdsFromSlot (Some Null) = []"
  "getPanelIdsFromSlot (Some (PanelId p)) = [p]"
  "getPanelIdsFromSlot (Some (Group g)) = panels g"
  by (simp_all add: getPanelIdsFromSlot_def)

lemma single_hd: "length xs = Suc 0 \<Longrightarrow> [hd xs] = xs"
  by (cases xs) simp_all

lemma ids_removePanelAt:
  "getPanelIdsFromSlot (removePanelAt p pos L q) =
     (if q = pos then filter (\<lambda>x. x \<noteq> p) (getPanelIdsFromSlot (L pos))
      else getPanelIdsFromSlot (L q))"
  by (auto simp: removePanelAt_def getPanelIdsFromSlot_def Let_def single_hd
           split: option.splits PanelSlot.splits)

lemma ids_removePanelFromLayout:
  "getPanelIdsFromSlot (removePanelFromLayout L p q) =
     filter (\<lambda>x. x \<noteq> p) (getPanelIdsFromSlot (L q))"
  by (cases q) (simp_all add: removePanelFromLayout_def ids_removePanelAt)

lemma allPanelIds_remove:
  "allPanelIds (removePanelFromLayout L p) = filter (\<lambda>x. x \<noteq> p) (allPanelIds L)"
  by (simp add: allPanelIds_def ids_removePanelFromLayout)

lemma noDuplicates_remove:
  "noDuplicates L \<Longrightarrow> noDuplicates (removePanelFromLayout L p)"
  by (simp add: noDuplicates_def allPanelIds_remove)

lemma not_in_removed: "p \<notin> set (allPanelIds (removePanelFromLayout L p))"
  by (simp add: allPanelIds_remove)

text \<open>Replacing the content of one slot by ids that are new to the other slots.\<close>

lemma noDuplicates_update:
  assumes "noDuplicates L"
      and "distinct (getPanelIdsFromSlot x)"
      and "\<And>q. q \<noteq> pos \<Longrightarrow> set (getPanelIdsFromSlot x) \<inter> set (getPanelIdsFromSlot (L q)) = {}"
  shows "noDuplicates (L(pos := x))"
  using assms(1,2) assms(3)[of Left] assms(3)[of Middle] assms(3)[of Right]
  by (cases pos) (auto simp: noDuplicates_def allPanelIds_def)

lemma noDuplicates_shrink:
  assumes "noDuplicates L"
      and "distinct (getPanelIdsFromSlot x)"
      and "set (getPanelIdsFromSlot x) \<subseteq> set (getPanelIdsFromSlot (L pos))"
  shows "noDuplicates (L(pos := x))"
proof (rule noDuplicates_update[OF assms(1,2)])
  fix q assume "q \<noteq> pos"
  then have "set (getPanelIdsFromSlot (L pos)) \<inter> set (getPanelIdsFromSlot (L q)) = {}"
    using assms(1)
    by (cases pos; cases q) (auto simp: noDuplicates_def allPanelIds_def)
  with assms(3) show "set (getPanelIdsFromSlot x) \<inter> set (getPanelIdsFromSlot (L q)) = {}"
    by blast
qed

lemma slot_distinct:
  "noDuplicates L \<Longrightarrow> distinct (getPanelIdsFromSlot (L q))"
  by (cases q) (auto simp: noDuplicates_def allPanelIds_def)

lemma noDuplicates_swap:
  assumes "noDuplicates L"
  shows "noDuplicates ((L(a := L b))(b := L a))"
  using assms
  by (cases a; cases b) (auto simp: noDuplicates_def allPanelIds_def)

lemma noDuplicates_assign:
  assumes "noDuplicates L"
  shows "noDuplicates ((removePanelFromLayout L p)(pos := Some (PanelId p)))"
proof (rule noDuplicates_update)
  show "noDuplicates (removePanelFromLayout L p)" using assms by (rule noDuplicates_remove)
  show "distinct (getPanelIdsFromSlot (Some (PanelId p)))" by (simp add: ids_simps)
  fix q
  show "set (getPanelIdsFromSlot (Some (PanelId p))) \<inter>
          set (getPanelIdsFromSlot (removePanelFromLayout L p q)) = {}"
    by (simp add: ids_simps ids_removePanelFromLayout)
qed

lemma noDuplicates_add_to_group:
  assumes "noDuplicates L" and "L pos = Some (Group g)" and "p \<notin> set (panels g)"
  shows "noDuplicates ((removePanelFromLayout L p)(pos := Some (Group (g\<lparr>panels := panels g @ [p]\<rparr>))))"
proof (rule noDuplicates_update)
  show "noDuplicates (removePanelFromLayout L p)" using assms(1) by (rule noDuplicates_remove)
  have "distinct (panels g)" using slot_distinct[OF assms(1), of pos] assms(2)
    by (simp add: ids_simps)
  then show "distinct (getPanelIdsFromSlot (Some (Group (g\<lparr>panels := panels g @ [p]\<rparr>))))"
    using assms(3) by (simp add: ids_simps)
  fix q assume "q \<noteq> pos"
  then have "set (getPanelIdsFromSlot (L pos)) \<inter> set (getPanelIdsFromSlot (L q)) = {}"
    using assms(1)
    by (cases pos; cases q) (auto simp: noDuplicates_def allPanelIds_def)
  then show "set (getPanelIdsFromSlot (Some (Group (g\<lparr>panels := panels g @ [p]\<rparr>)))) \<inter>
          set (getPanelIdsFromSlot (removePanelFromLayout L p q)) = {}"
    using assms(2) by (auto simp: ids_simps ids_removePanelFromLayout)
qed

lemma noDuplicates_filter_group:
  assumes "noDuplicates L" and "L pos = Some (Group g)"
  shows "noDuplicates (L(pos := Some (Group (g\<lparr>panels := filter (\<lambda>x. x \<noteq> p) (panels g)\<rparr>))))"
proof (rule noDuplicates_shrink[OF assms(1)])
  have "distinct (panels g)" using slot_distinct[OF assms(1), of pos] assms(2)
    by (simp add: ids_simps)
  then show "distinct (getPanelIdsFromSlot (Some (Group (g\<lparr>panels := filter (\<lambda>x. x \<noteq> p) (panels g)\<rparr>))))"
    by (simp add: ids_simps)
  show "set (getPanelIdsFromSlot (Some (Group (g\<lparr>panels := filter (\<lambda>x. x \<noteq> p) (panels g)\<rparr>))))
          \<subseteq> set (getPanelIdsFromSlot (L pos))"
    using assms(2) by (auto simp: ids_simps)
qed

lemma handleSlotClick_noDuplicates:
  assumes "noDuplicates L" and "handleSlotClick sel L pos = (sel', Some L')"
  shows "noDuplicates L'"
  using assms
  by (auto simp: handleSlotClick_def togglePanelInTabGroup_def Let_def
        noDuplicates_swap noDuplicates_assign noDuplicates_add_to_group noDuplicates_filter_group
      split: Selection.splits option.splits PanelSlot.splits if_splits)

lemma handlePanelClick_noDuplicates:
  assumes "noDuplicates L" and "handlePanelClick sel L p = (sel', Some L')"
  shows "noDuplicates L'"
  using assms
  by (auto simp: handlePanelClick_def togglePanelInTabGroup_def Let_def
        noDuplicates_assign noDuplicates_add_to_group noDuplicates_filter_group
      split: Selection.splits option.splits PanelSlot.splits if_splits)

text \<open>The handlers that do not assign a panel.\<close>

lemma toggleTabMode_noDuplicates:
  assumes "noDuplicates L" and "toggleTabMode sel L pos = (sel', Some L')"
  shows "noDuplicates L'"
proof -
  have sub: "\<And>x. distinct (getPanelIdsFromSlot x) \<Longrightarrow>
      set (getPanelIdsFromSlot x) \<subseteq> set (getPanelIdsFromSlot (L pos)) \<Longrightarrow>
      noDuplicates (L(pos := x))"
    using noDuplicates_shrink[OF assms(1)] by blast
  show ?thesis
  proof (cases "L pos")
    case None
    with assms(2) have "L' = L(pos := Some (Group \<lparr> gtype = Tabs, panels = [],
                     config = Some \<lparr> defaultActiveTab = Some 0, tabPosition = Some TabTop,
                                     centered = None, hideTabList = None,
                                     activeTabIndex = None, direction = None,
                                     columns = None, rows = None, tileSizes = None \<rparr> \<rparr>))"
      by (auto simp: toggleTabMode_def)
    then show ?thesis using sub by (simp add: ids_simps)
  next
    case (Some slot)
    show ?thesis
    proof (cases slot)
      case Null
      with Some assms(2) show ?thesis
        by (auto simp: toggleTabMode_def intro!: sub simp: ids_simps)
    next
      case (PanelId p)
      with Some assms(2) show ?thesis
        by (auto simp: toggleTabMode_def intro!: sub simp: ids_simps split: if_splits)
    next
      case (Group g)
      have "panels g \<noteq> [] \<Longrightarrow> hd (panels g) \<in> set (panels g)" by simp
      with Group Some assms(2) show ?thesis
        by (auto simp: toggleTabMode_def intro!: sub simp: ids_simps split: if_splits)
    qed
  qed
qed

lemma handleSlotClear_noDuplicates:
  assumes "noDuplicates L" and "handleSlotClear sel L pos = (sel', Some L')"
  shows "noDuplicates L'"
  using assms noDuplicates_shrink[OF assms(1), of "Some Null" pos]
  by (auto simp: handleSlotClear_def ids_simps)

lemma removePanelFromTabGroup_noDuplicates:
  assumes "noDuplicates L" and "removePanelFromTabGroup sel L pos p = (sel', Some L')"
  shows "noDuplicates L'"
  using assms
  by (auto simp: removePanelFromTabGroup_def Let_def noDuplicates_filter_group
      split: option.splits PanelSlot.splits if_splits)

lemma updateTabConfig_noDuplicates:
  assumes "noDuplicates L" and "updateTabConfig sel L pos cfg = (sel', Some L')"
  shows "noDuplicates L'"
proof -
  have "\<And>g. L pos = Some (Group g) \<Longrightarrow>
      noDuplicates (L(pos := Some (Group (g\<lparr>config := Some (spreadConfig (config g) cfg)\<rparr>))))"
    using noDuplicates_shrink[OF assms(1), of _ pos] slot_distinct[OF assms(1), of pos]
    by (simp add: ids_simps)
  with assms show ?thesis
    by (auto simp: updateTabConfig_def split: option.splits PanelSlot.splits if_splits)
qed

lemma Editable_handleDragEnd_noDuplicates:
  assumes "noDuplicates L" and "Editable_handleDragEnd cb L src over = Some L'"
  shows "noDuplicates L'"
  using assms
  by (auto simp: Editable_handleDragEnd_def Let_def noDuplicates_swap
      split: option.splits if_splits)

lemma assigned_once:
  assumes "(op = SlotClick pos \<and> sel = PanelSelected p) \<or> (op = PanelClick p \<and> sel = SlotSelected pos)"
      and "\<not> (isTabModeSlot layout pos \<and> p \<in> set (getPanelIdsFromSlot (layout pos)))"
      and "configStep op sel layout = (sel', Some layout')"
  shows "p \<in> set (getPanelIdsFromSlot (layout' pos)) \<and>
         (\<forall>q. q \<noteq> pos \<longrightarrow> p \<notin> set (getPanelIdsFromSlot (layout' q)))"
  using assms
  by (auto simp: handleSlotClick_def handlePanelClick_def isTabModeSlot_def Let_def ids_simps
        ids_removePanelFromLayout
      split: option.splits PanelSlot.splits if_splits)

lemma configStep_noDuplicates:
  assumes "noDuplicates layout" and "configStep op sel layout = (sel', Some layout')"
  shows "noDuplicates layout'"
proof (cases op)
  case (SlotClick pos)
  with assms show ?thesis using handleSlotClick_noDuplicates by simp
next
  case (PanelClick p)
  with assms show ?thesis using handlePanelClick_noDuplicates by simp
next
  case (TabModeToggle pos)
  with assms show ?thesis using toggleTabMode_noDuplicates by simp
next
  case (SlotClear pos)
  with assms show ?thesis using handleSlotClear_noDuplicates by simp
next
  case (TabGroupRemove pos p)
  with assms show ?thesis using removePanelFromTabGroup_noDuplicates by simp
next
  case (TabConfigUpdate pos cfg)
  with assms show ?thesis using updateTabConfig_noDuplicates by simp
next
  case (DragSwap src over)
  with assms show ?thesis using Editable_handleDragEnd_noDuplicates by auto
qed

text \<open>The same for the weaker reading, slot against slot.\<close>

lemma slotsDisjoint_iff:
  "slotsDisjoint L \<longleftrightarrow>
     (\<forall>a b. a \<noteq> b \<longrightarrow> set (getPanelIdsFromSlot (L a)) \<inter> set (getPanelIdsFromSlot (L b)) = {})"
proof
  assume d: "slotsDisjoint L"
  show "\<forall>a b. a \<noteq> b \<longrightarrow> set (getPanelIdsFromSlot (L a)) \<inter> set (getPanelIdsFromSlot (L b)) = {}"
  proof (intro allI impI)
    fix a b :: Region assume "a \<noteq> b"
    with d show "set (getPanelIdsFromSlot (L a)) \<inter> set (getPanelIdsFromSlot (L b)) = {}"
      by (cases a; cases b) (auto simp: slotsDisjoint_def)
  qed
next
  assume "\<forall>a b. a \<noteq> b \<longrightarrow> set (getPanelIdsFromSlot (L a)) \<inter> set (getPanelIdsFromSlot (L b)) = {}"
  then show "slotsDisjoint L" by (simp add: slotsDisjoint_def)
qed

lemma slotsDisjoint_update:
  assumes "slotsDisjoint L"
      and "\<And>q. q \<noteq> pos \<Longrightarrow> set (getPanelIdsFromSlot x) \<inter> set (getPanelIdsFromSlot (L q)) = {}"
  shows "slotsDisjoint (L(pos := x))"
  unfolding slotsDisjoint_iff
proof (intro allI impI)
  fix a b :: Region assume ab: "a \<noteq> b"
  from assms(1) have d: "set (getPanelIdsFromSlot (L a)) \<inter> set (getPanelIdsFromSlot (L b)) = {}"
    using ab by (simp add: slotsDisjoint_iff)
  show "set (getPanelIdsFromSlot ((L(pos := x)) a)) \<inter> set (getPanelIdsFromSlot ((L(pos := x)) b)) = {}"
    using ab d assms(2)[of a] assms(2)[of b] by (auto simp: fun_upd_def)
qed

lemma slotsDisjoint_shrink:
  assumes "slotsDisjoint L"
      and "set (getPanelIdsFromSlot x) \<subseteq> set (getPanelIdsFromSlot (L pos))"
  shows "slotsDisjoint (L(pos := x))"
proof (rule slotsDisjoint_update[OF assms(1)])
  fix q assume "q \<noteq> pos"
  then have "set (getPanelIdsFromSlot (L pos)) \<inter> set (getPanelIdsFromSlot (L q)) = {}"
    using assms(1) by (simp add: slotsDisjoint_iff)
  with assms(2) show "set (getPanelIdsFromSlot x) \<inter> set (getPanelIdsFromSlot (L q)) = {}"
    by blast
qed

lemma slotsDisjoint_remove:
  "slotsDisjoint L \<Longrightarrow> slotsDisjoint (removePanelFromLayout L p)"
  by (auto simp: slotsDisjoint_def ids_removePanelFromLayout)

lemma slotsDisjoint_swap:
  assumes "slotsDisjoint L"
  shows "slotsDisjoint ((L(a := L b))(b := L a))"
  using assms
  by (cases a; cases b) (auto simp: slotsDisjoint_def)

lemma slotsDisjoint_assign:
  assumes "slotsDisjoint L"
  shows "slotsDisjoint ((removePanelFromLayout L p)(pos := Some (PanelId p)))"
proof (rule slotsDisjoint_update)
  show "slotsDisjoint (removePanelFromLayout L p)" using assms by (rule slotsDisjoint_remove)
  fix q
  show "set (getPanelIdsFromSlot (Some (PanelId p))) \<inter>
          set (getPanelIdsFromSlot (removePanelFromLayout L p q)) = {}"
    by (simp add: ids_simps ids_removePanelFromLayout)
qed

lemma slotsDisjoint_add_to_group:
  assumes "slotsDisjoint L" and "L pos = Some (Group g)"
  shows "slotsDisjoint ((removePanelFromLayout L p)(pos := Some (Group (g\<lparr>panels := panels g @ [p]\<rparr>))))"
proof (rule slotsDisjoint_update)
  show "slotsDisjoint (removePanelFromLayout L p)" using assms(1) by (rule slotsDisjoint_remove)
  fix q assume "q \<noteq> pos"
  then have "set (getPanelIdsFromSlot (L pos)) \<inter> set (getPanelIdsFromSlot (L q)) = {}"
    using assms(1) by (simp add: slotsDisjoint_iff)
  then show "set (getPanelIdsFromSlot (Some (Group (g\<lparr>panels := panels g @ [p]\<rparr>)))) \<inter>
          set (getPanelIdsFromSlot (removePanelFromLayout L p q)) = {}"
    using assms(2) by (auto simp: ids_simps ids_removePanelFromLayout)
qed

lemma slotsDisjoint_filter_group:
  assumes "slotsDisjoint L" and "L pos = Some (Group g)"
  shows "slotsDisjoint (L(pos := Some (Group (g\<lparr>panels := filter (\<lambda>x. x \<noteq> p) (panels g)\<rparr>))))"
  by (rule slotsDisjoint_shrink[OF assms(1)]) (use assms(2) in \<open>auto simp: ids_simps\<close>)

lemma handleSlotClick_slotsDisjoint:
  assumes "slotsDisjoint L" and "handleSlotClick sel L pos = (sel', Some L')"
  shows "slotsDisjoint L'"
  using assms
  by (auto simp: handleSlotClick_def togglePanelInTabGroup_def Let_def
        slotsDisjoint_swap slotsDisjoint_assign slotsDisjoint_add_to_group slotsDisjoint_filter_group
      split: Selection.splits option.splits PanelSlot.splits if_splits)

lemma handlePanelClick_slotsDisjoint:
  assumes "slotsDisjoint L" and "handlePanelClick sel L p = (sel', Some L')"
  shows "slotsDisjoint L'"
  using assms
  by (auto simp: handlePanelClick_def togglePanelInTabGroup_def Let_def
        slotsDisjoint_assign slotsDisjoint_add_to_group slotsDisjoint_filter_group
      split: Selection.splits option.splits PanelSlot.splits if_splits)

lemma toggleTabMode_slotsDisjoint:
  assumes "slotsDisjoint L" and "toggleTabMode sel L pos = (sel', Some L')"
  shows "slotsDisjoint L'"
proof -
  have sub: "\<And>x. set (getPanelIdsFromSlot x) \<subseteq> set (getPanelIdsFromSlot (L pos)) \<Longrightarrow>
      slotsDisjoint (L(pos := x))"
    using slotsDisjoint_shrink[OF assms(1)] by blast
  show ?thesis
  proof (cases "L pos")
    case None
    with assms(2) have "L' = L(pos := Some (Group \<lparr> gtype = Tabs, panels = [],
                     config = Some \<lparr> defaultActiveTab = Some 0, tabPosition = Some TabTop,
                                     centered = None, hideTabList = None,
                                     activeTabIndex = None, direction = None,
                                     columns = None, rows = None, tileSizes = None \<rparr> \<rparr>))"
      by (auto simp: toggleTabMode_def)
    then show ?thesis using sub by (simp add: ids_simps)
  next
    case (Some slot)
    show ?thesis
    proof (cases slot)
      case Null
      with Some assms(2) show ?thesis
        by (auto simp: toggleTabMode_def intro!: sub simp: ids_simps)
    next
      case (PanelId p)
      with Some assms(2) show ?thesis
        by (auto simp: toggleTabMode_def intro!: sub simp: ids_simps split: if_splits)
    next
      case (Group g)
      have "panels g \<noteq> [] \<Longrightarrow> hd (panels g) \<in> set (panels g)" by simp
      with Group Some assms(2) show ?thesis
        by (auto simp: toggleTabMode_def intro!: sub simp: ids_simps split: if_splits)
    qed
  qed
qed

lemma handleSlotClear_slotsDisjoint:
  assumes "slotsDisjoint L" and "handleSlotClear sel L pos = (sel', Some L')"
  shows "slotsDisjoint L'"
  using assms slotsDisjoint_shrink[OF assms(1), of "Some Null" pos]
  by (auto simp: handleSlotClear_def ids_simps)

lemma removePanelFromTabGroup_slotsDisjoint:
  assumes "slotsDisjoint L" and "removePanelFromTabGroup sel L pos p = (sel', Some L')"
  shows "slotsDisjoint L'"
  using assms
  by (auto simp: removePanelFromTabGroup_def Let_def slotsDisjoint_filter_group
      split: option.splits PanelSlot.splits if_splits)

lemma updateTabConfig_slotsDisjoint:
  assumes "slotsDisjoint L" and "updateTabConfig sel L pos cfg = (sel', Some L')"
  shows "slotsDisjoint L'"
proof -
  have "\<And>g. L pos = Some (Group g) \<Longrightarrow>
      slotsDisjoint (L(pos := Some (Group (g\<lparr>config := Some (spreadConfig (config g) cfg)\<rparr>))))"
    using slotsDisjoint_shrink[OF assms(1), of _ pos]
    by (simp add: ids_simps)
  with assms show ?thesis
    by (auto simp: updateTabConfig_def split: option.splits PanelSlot.splits if_splits)
qed

lemma Editable_handleDragEnd_slotsDisjoint:
  assumes "slotsDisjoint L" and "Editable_handleDragEnd cb L src over = Some L'"
  shows "slotsDisjoint L'"
  using assms
  by (auto simp: Editable_handleDragEnd_def Let_def slotsDisjoint_swap
      split: option.splits if_splits)

lemma configStep_slotsDisjoint:
  assumes "slotsDisjoint layout" and "configStep op sel layout = (sel', Some layout')"
  shows "slotsDisjoint layout'"
proof (cases op)
  case (SlotClick pos)
  with assms show ?thesis using handleSlotClick_slotsDisjoint by simp
next
  case (PanelClick p)
  with assms show ?thesis using handlePanelClick_slotsDisjoint by simp
next
  case (TabModeToggle pos)
  with assms show ?thesis using toggleTabMode_slotsDisjoint by simp
next
  case (SlotClear pos)
  with assms show ?thesis using handleSlotClear_slotsDisjoint by simp
next
  case (TabGroupRemove pos p)
  with assms show ?thesis using removePanelFromTabGroup_slotsDisjoint by simp
next
  case (TabConfigUpdate pos cfg)
  with assms show ?thesis using updateTabConfig_slotsDisjoint by simp
next
  case (DragSwap src over)
  with assms show ?thesis using Editable_handleDragEnd_slotsDisjoint by auto
qed

text \<open>
  Claim C6. If no panel id occurs twice in a layout, then none occurs twice in the
  layout that a configurator operation passes to \<open>onChange\<close>: a slot click or a panel
  click (selecting, swapping, assigning, adding to or removing from a tab group), a
  tab-mode toggle, a slot clear, a removal from a tab group, a tab configuration update,
  or a drag swap of the editable layout. This holds for both readings of ``twice'':
  anywhere in the layout, and in two different slots. When a panel is assigned to a
  slot (and not toggled out of the tab group it is already in), it is afterwards in
  that slot and in no other.
\<close>

theorem configurator_keeps_ids_unique:
  assumes "configStep op sel layout = (sel', Some layout')"
  shows "(noDuplicates layout \<longrightarrow> noDuplicates layout')
       \<and> (slotsDisjoint layout \<longrightarrow> slotsDisjoint layout')
       \<and> (\<forall>p pos. ((op = SlotClick pos \<and> sel = PanelSelected p) \<or>
                    (op = PanelClick p \<and> sel = SlotSelected pos)) \<and>
                   \<not> (isTabModeSlot layout pos \<and> p \<in> set (getPanelIdsFromSlot (layout pos))) \<longrightarrow>
            p \<in> set (getPanelIdsFromSlot (layout' pos)) \<and>
            (\<forall>q. q \<noteq> pos \<longrightarrow> p \<notin> set (getPanelIdsFromSlot (layout' q))))"
proof -
  have "noDuplicates layout \<longrightarrow> noDuplicates layout'"
    using configStep_noDuplicates[OF _ assms] by blast
  moreover have "slotsDisjoint layout \<longrightarrow> slotsDisjoint layout'"
    using configStep_slotsDisjoint[OF _ assms] by blast
  moreover have "\<forall>p pos. ((op = SlotClick pos \<and> sel = PanelSelected p) \<or>
                    (op = PanelClick p \<and> sel = SlotSelected pos)) \<and>
                   \<not> (isTabModeSlot layout pos \<and> p \<in> set (getPanelIdsFromSlot (layout pos))) \<longrightarrow>
            p \<in> set (getPanelIdsFromSlot (layout' pos)) \<and>
            (\<forall>q. q \<noteq> pos \<longrightarrow> p \<notin> set (getPanelIdsFromSlot (layout' q)))"
    using assigned_once[OF _ _ assms] by blast
  ultimately show ?thesis by blast
qed

text \<open>Panel \<open>a\<close>, in the left slot, is selected and the right slot is clicked: \<open>a\<close>
  leaves the left slot and replaces \<open>d\<close> in the right one.\<close>

lemma sample_step:
  "configStep (SlotClick Right) (PanelSelected ''a'') sampleLayout
     = (NoSelection, Some sampleLayout_assigned)"
proof -
  have "(removePanelFromLayout sampleLayout ''a'')(Right := Some (PanelId ''a'')) = sampleLayout_assigned"
  proof
    fix q show "((removePanelFromLayout sampleLayout ''a'')(Right := Some (PanelId ''a''))) q
                  = sampleLayout_assigned q"
      by (cases q)
         (simp_all add: removePanelFromLayout_def removePanelAt_def sampleLayout_def
            sampleLayout_assigned_def Let_def)
  qed
  then show ?thesis
    by (simp add: handleSlotClick_def sampleLayout_def Let_def)
qed

theorem configurator_keeps_ids_unique_witness:
  "noDuplicates sampleLayout
   \<and> slotsDisjoint sampleLayout
   \<and> configStep (SlotClick Right) (PanelSelected ''a'') sampleLayout
        = (NoSelection, Some sampleLayout_assigned)
   \<and> noDuplicates sampleLayout_assigned
   \<and> slotsDisjoint sampleLayout_assigned
   \<and> allPanelIds sampleLayout_assigned = [''b'', ''c'', ''a'']"
proof -
  have n: "noDuplicates sampleLayout"
    by (simp add: noDuplicates_def allPanelIds_def sampleLayout_def ids_simps)
  have d: "slotsDisjoint sampleLayout"
    by (simp add: slotsDisjoint_def sampleLayout_def ids_simps)
  from configurator_keeps_ids_unique[OF sample_step] n d sample_step show ?thesis
    by (simp add: allPanelIds_def sampleLayout_assigned_def ids_simps)
qed

section \<open>The active tab\<close>

text \<open>\<open>safeActiveIndex\<close> is never above the last tab, and lies in the range of the tabs
  when the requested index is not negative.\<close>

lemma sample_tabPanels:
  "tabPanels [''a'', ''b'', ''c''] samplePanels = samplePanels"
  "tabPanels [''a'', ''b''] samplePanels = [\<lparr> panel_id = ''a'', panel_label = ''A'' \<rparr>,
      \<lparr> panel_id = ''b'', panel_label = ''B'' \<rparr>]"
  by (simp_all add: tabPanels_def samplePanels_def)

lemma safeActiveIndex_upper:
  "safeActiveIndex cfg internalIndex panelIds ps \<le> int (length (tabPanels panelIds ps)) - 1"
  by (simp add: safeActiveIndex_def)

lemma safeActiveIndex_in_range:
  assumes "0 \<le> TabGroup_activeTabIndex cfg internalIndex" and "tabPanels panelIds ps \<noteq> []"
  shows "0 \<le> safeActiveIndex cfg internalIndex panelIds ps \<and>
         safeActiveIndex cfg internalIndex panelIds ps < int (length (tabPanels panelIds ps))"
  using assms by (cases "tabPanels panelIds ps") (simp_all add: safeActiveIndex_def)

text \<open>
  Claim C7 fails on the code for a negative index. With three resolvable panels and
  \<open>activeTabIndex = -1\<close> (controlled) or an internal index of \<open>-1\<close> (uncontrolled),
  \<open>Math.min\<close> leaves \<open>-1\<close>: no tab button is marked active and no panel is shown. The
  upper clamp of the claim's example holds: two panels and \<open>activeTabIndex = 2\<close> give
  \<open>1\<close>.
\<close>

theorem TabGroup_negative_index_not_clamped:
  "safeActiveIndex (emptyConfig\<lparr>activeTabIndex := Some (- 1)\<rparr>) 0 [''a'', ''b'', ''c''] samplePanels = - 1
   \<and> TabGroup_render (emptyConfig\<lparr>activeTabIndex := Some (- 1)\<rparr>) 0 [''a'', ''b'', ''c''] samplePanels
        = TabView (- 1) None
   \<and> safeActiveIndex emptyConfig (- 1) [''a'', ''b'', ''c''] samplePanels = - 1
   \<and> safeActiveIndex (emptyConfig\<lparr>activeTabIndex := Some 2\<rparr>) 0 [''a'', ''b''] samplePanels = 1"
  by (simp add: safeActiveIndex_def TabGroup_render_def activePanel_def TabGroup_activeTabIndex_def
        emptyConfig_def sample_tabPanels Let_def)
     (simp add: samplePanels_def)

section \<open>The carousel's panel width\<close>

text \<open>The width policy of the code: the container for one panel; half of it for two
  panels when the container is at least \<open>2 * minPanelWidth\<close> wide, else all of it;
  \<open>max(minPanelWidth, idealPanelWidth * container)\<close> for any other count.\<close>

lemma renderedPanelWidth_policy:
  "renderedPanelWidth 1 m i w = w"
  "renderedPanelWidth 2 m i w = (if w \<ge> 2 * m then w / 2 else w)"
  "n \<noteq> 1 \<Longrightarrow> n \<noteq> 2 \<Longrightarrow> renderedPanelWidth n m i w = max m (i * w)"
  by (simp_all add: renderedPanelWidth_def dynamicStyle_def panelWidth_def cssLength_def
        ruleApplies_def twoPanelThreshold_def mult.commute)

text \<open>
  Claim C9 fails on the code where the container is exactly twice \<open>minPanelWidth\<close>
  wide: with two panels, \<open>minPanelWidth = 350\<close> and a container of 700px the
  \<open>min-width: 700px\<close> container query applies and a panel is 350px, half the
  container, where the claim (and the component's own comment, ``> 2x minPanelWidth'')
  says 100%. One pixel below, the panel fills the container; above, it is one half.
\<close>

theorem SnapCarousel_two_panels_at_threshold:
  "twoPanelThreshold 350 = 700
   \<and> renderedPanelWidth 2 350 0.333 700 = 350
   \<and> renderedPanelWidth 2 350 0.333 699 = 699
   \<and> renderedPanelWidth 2 350 0.333 701 = 701 / 2"
  by (simp add: renderedPanelWidth_policy twoPanelThreshold_def)

end
